theory Spec2Isabelle
  imports Complex_Main "HOL-Library.Sublist" "HOL-Library.Char_ord" "HOL-Library.List_Lexorder"
    "HOL-Library.Log_Nat"
begin

section \<open>Strings\<close>

text \<open>
  A string is a sequence of characters with the code points U+0000 to U+00FF, one
  \<open>char\<close> for each; the string functions of JavaScript below are exact on them. The
  class \<^verbatim>\<open>\w\<close> of a regular expression is \<^verbatim>\<open>[A-Za-z0-9_]\<close>; \<^verbatim>\<open>\s\<close> and \<^verbatim>\<open>trim\<close> see the
  white space and line terminators, which are, up to U+00FF, the characters U+0009 to
  U+000D, the space and the no-break space U+00A0; \<^verbatim>\<open>toLowerCase\<close> maps \<^verbatim>\<open>A\<close> to \<^verbatim>\<open>Z\<close> and
  the capital letters U+00C0 to U+00DE (without the multiplication sign U+00D7) to the
  letters 32 code points above them.
\<close>

definition is_lower :: "char \<Rightarrow> bool" where
  "is_lower c \<longleftrightarrow> c \<in> set ''abcdefghijklmnopqrstuvwxyz''"

definition is_upper :: "char \<Rightarrow> bool" where
  "is_upper c \<longleftrightarrow> c \<in> set ''ABCDEFGHIJKLMNOPQRSTUVWXYZ''"

definition is_digit :: "char \<Rightarrow> bool" where
  "is_digit c \<longleftrightarrow> c \<in> set ''0123456789''"

definition is_word :: "char \<Rightarrow> bool" where
  "is_word c \<longleftrightarrow> is_lower c \<or> is_upper c \<or> is_digit c \<or> c = CHR ''_''"

definition is_space :: "char \<Rightarrow> bool" where
  "is_space c \<longleftrightarrow>
     c \<in> set [CHR '' '', CHR 0x09, CHR 0x0A, CHR 0x0B, CHR 0x0C, CHR 0x0D, CHR 0xA0]"

definition capital_letters :: string where
  "capital_letters = ''ABCDEFGHIJKLMNOPQRSTUVWXYZ'' @
     [CHR 0xC0, CHR 0xC1, CHR 0xC2, CHR 0xC3, CHR 0xC4, CHR 0xC5, CHR 0xC6, CHR 0xC7,
      CHR 0xC8, CHR 0xC9, CHR 0xCA, CHR 0xCB, CHR 0xCC, CHR 0xCD, CHR 0xCE, CHR 0xCF,
      CHR 0xD0, CHR 0xD1, CHR 0xD2, CHR 0xD3, CHR 0xD4, CHR 0xD5, CHR 0xD6, CHR 0xD8,
      CHR 0xD9, CHR 0xDA, CHR 0xDB, CHR 0xDC, CHR 0xDD, CHR 0xDE]"

definition small_letters :: string where
  "small_letters = ''abcdefghijklmnopqrstuvwxyz'' @
     [CHR 0xE0, CHR 0xE1, CHR 0xE2, CHR 0xE3, CHR 0xE4, CHR 0xE5, CHR 0xE6, CHR 0xE7,
      CHR 0xE8, CHR 0xE9, CHR 0xEA, CHR 0xEB, CHR 0xEC, CHR 0xED, CHR 0xEE, CHR 0xEF,
      CHR 0xF0, CHR 0xF1, CHR 0xF2, CHR 0xF3, CHR 0xF4, CHR 0xF5, CHR 0xF6, CHR 0xF8,
      CHR 0xF9, CHR 0xFA, CHR 0xFB, CHR 0xFC, CHR 0xFD, CHR 0xFE]"

definition toLowerCase_char :: "char \<Rightarrow> char" where
  "toLowerCase_char c =
     (case map_of (zip capital_letters small_letters) c of None \<Rightarrow> c | Some l \<Rightarrow> l)"

definition toLowerCase :: "string \<Rightarrow> string" where
  "toLowerCase s = map toLowerCase_char s"

definition trim :: "string \<Rightarrow> string" where
  "trim s = rev (dropWhile is_space (rev (dropWhile is_space s)))"

section \<open>Identifiers, numbers, errors and documents\<close>

text \<open>
  The \<^verbatim>\<open>_id\<close> of a document and every reference to a document is an \<^verbatim>\<open>ObjectId\<close>, twelve
  bytes that \<^verbatim>\<open>toString()\<close> writes as 24 hexadecimal digits in lower case. The
  services get identifiers as strings (\<^verbatim>\<open>id: string\<close>). Where a string meets the store
  (the filter of a query, a field of a new document, \<^verbatim>\<open>new mongoose.Types.ObjectId(s)\<close>)
  it is cast: a string of 24 hexadecimal digits, in either case, gives the
  \<^verbatim>\<open>ObjectId\<close> it spells, and any other string is an error. Where a string meets an
  \<^verbatim>\<open>ObjectId\<close> in the program itself, the program says how they are compared.

  The helper \<^verbatim>\<open>isValidMongoId\<close> of \<^verbatim>\<open>utils/is-valid-mongo-id\<close> is not part of the sources
  at hand, so every service below takes it as its first argument. Identifiers that the
  store generates (\<^verbatim>\<open>_id\<close> of a new document or of a new array element) are arguments
  of the operation that creates the document.
\<close>

datatype ObjectId = ObjectId string

fun toString :: "ObjectId \<Rightarrow> string" where
  "toString (ObjectId hex) = hex"

definition is_hex :: "char \<Rightarrow> bool" where
  "is_hex c \<longleftrightarrow> c \<in> set ''0123456789abcdefABCDEF''"

definition new_ObjectId :: "string \<Rightarrow> ObjectId option" where
  "new_ObjectId s =
     (if length s = 24 \<and> list_all is_hex s then Some (ObjectId (toLowerCase s)) else None)"

text \<open>
  A quantity is a \<^verbatim>\<open>Number\<close> that holds an integer. The sum of two of them is the exact
  sum rounded to 53 significant bits, a tie going to the even neighbour; up to \<open>2^53\<close>
  in magnitude nothing is rounded. (Sums of magnitude \<open>2^1024\<close> and more, which are
  \<^verbatim>\<open>Infinity\<close>, are outside the integers.)
\<close>

definition Number_round :: "int \<Rightarrow> int" where
  "Number_round x =
     (let m = \<bar>x\<bar>;
          u = 2 ^ nat (bitlen m - 53);
          n = (if u < 2 * (m mod u) \<or> (u = 2 * (m mod u) \<and> odd (m div u))
               then m div u + 1 else m div u)
      in sgn x * n * u)"

definition Number_add :: "int \<Rightarrow> int \<Rightarrow> int" where
  "Number_add a b = Number_round (a + b)"

text \<open>
  \<^verbatim>\<open>createError.BadRequest\<close>, \<^verbatim>\<open>createError.NotFound\<close> and \<^verbatim>\<open>createError.Conflict\<close> are
  the \<^verbatim>\<open>http-errors\<close> kinds, \<open>Error\<close> is a plain \<^verbatim>\<open>new Error(msg)\<close>. The others come from
  the libraries: a schema validator that rejects a document, a duplicate key of a unique
  index, a value of a query that cannot be cast, and a string that the \<^verbatim>\<open>ObjectId\<close>
  constructor rejects.
\<close>

datatype error =
    BadRequest string
  | NotFound string
  | Conflict string
  | Error string
  | ValidationError string
  | MongoServerError string
  | CastError string
  | BSONError string

text \<open>\<^verbatim>\<open>CartItemSchema\<close> and \<^verbatim>\<open>CartSchema\<close> (cart.model.ts).\<close>

record cart_item =
  item_id :: ObjectId
  product :: ObjectId
  quantity :: int

record cart =
  cart_id :: ObjectId
  user :: ObjectId
  items :: "cart_item list"

text \<open>\<^verbatim>\<open>BrandSchema\<close> (brand.model.ts): the fields the services read or write.\<close>

record brand =
  brand_id :: ObjectId
  brand_name :: string
  brand_slug :: string
  brand_is_active :: bool

text \<open>\<^verbatim>\<open>VariantSchema\<close> and \<^verbatim>\<open>ProductSchema\<close> (product.model.ts).\<close>

record variant =
  sku :: string

record product =
  product_id :: ObjectId
  name :: string
  description :: string
  category :: ObjectId
  brand_ref :: ObjectId
  slug :: string
  featured :: bool
  is_active :: bool
  campaigns :: "ObjectId list"
  offers :: "ObjectId list"
  variants :: "variant list"

text \<open>
  Modelled from the spec: \<^verbatim>\<open>campaign.model.ts\<close> and \<^verbatim>\<open>offer.model.ts\<close> are not among the
  sources. The spec gives a campaign and an offer a reference set of product
  identifiers, \<^verbatim>\<open>applies_to.productsIds\<close> and \<^verbatim>\<open>applicable_products\<close>, stored redundantly
  with the \<^verbatim>\<open>campaigns\<close> and \<^verbatim>\<open>offers\<close> sets of the products. The services populate both
  paths from the product collection, so they are arrays of \<^verbatim>\<open>ObjectId\<close> references to
  products, as \<^verbatim>\<open>campaigns\<close> and \<^verbatim>\<open>offers\<close> of the product schema are arrays of
  \<^verbatim>\<open>ObjectId\<close> references to campaigns and offers.
\<close>

record campaign =
  campaign_id :: ObjectId
  campaign_is_active :: bool
  productsIds :: "ObjectId list"

record offer =
  offer_id :: ObjectId
  offer_is_active :: bool
  applicable_products :: "ObjectId list"

text \<open>The \<^verbatim>\<open>pagination\<close> object of a list result: \<^verbatim>\<open>{ items, page, limit, totalPages }\<close>.\<close>

record pagination =
  pg_items :: nat
  pg_page :: nat
  pg_limit :: nat
  pg_totalPages :: nat

text \<open>
  What a read operation returns and what the cache holds: a document or a page of
  documents. Field selection (\<^verbatim>\<open>select\<close>) and \<^verbatim>\<open>populate\<close> only reshape each returned
  document; the model returns the stored document and keeps the selection in the cache
  key, where the services put it.
\<close>

datatype payload =
    BrandDoc brand
  | ProductDoc product
  | CampaignDoc campaign
  | OfferDoc offer
  | CartDoc cart
  | CartPage "cart list" pagination

text \<open>
  The state the services work on: one collection per mongoose model, in insertion
  order, and the cache store. A cache entry is a key, a value and the optional TTL it
  was stored with.
\<close>

record state =
  BrandModel :: "brand list"
  ProductModel :: "product list"
  CampaignModel :: "campaign list"
  OfferModel :: "offer list"
  CartModel :: "cart list"
  cache :: "(string \<times> payload \<times> nat option) list"

section \<open>Cache gateway\<close>

text \<open>
  Modelled from the spec: \<^verbatim>\<open>utils/cache\<close> (\<^verbatim>\<open>generateCacheKey\<close>, \<^verbatim>\<open>getCache\<close>, \<^verbatim>\<open>setCache\<close>,
  \<^verbatim>\<open>deleteCache\<close>) is missing from the sources; only its callers are there. The spec
  describes a key-value store with get, set-with-TTL, delete by exact key and delete by
  prefix pattern, and a key derived from the resource name and the query parameters
  serialised with sorted keys. The callers write a prefix pattern as the prefix followed
  by \<^verbatim>\<open>*\<close> (\<^verbatim>\<open>'products:list:*'\<close>) and separate resource and parameters of a key by a
  colon. Parameters that are \<^verbatim>\<open>undefined\<close> are left out of the serialisation.
\<close>

definition digit_char :: "nat \<Rightarrow> char" where
  "digit_char d = ''0123456789'' ! (d mod 10)"

fun string_of_nat :: "nat \<Rightarrow> string" where
  "string_of_nat n =
     (if n < 10 then [digit_char n] else string_of_nat (n div 10) @ [digit_char (n mod 10)])"

declare string_of_nat.simps [simp del]

type_synonym query_params = "(string \<times> string option) list"

fun serialise :: "(string \<times> string option) list \<Rightarrow> string" where
  "serialise [] = []"
| "serialise ((k, None) # q) = serialise q"
| "serialise ((k, Some v) # q) = k @ ''='' @ v @ ''&'' @ serialise q"

definition generateCacheKey :: "string \<Rightarrow> query_params option \<Rightarrow> string" where
  "generateCacheKey resource query =
     (case query of
        None \<Rightarrow> resource
      | Some q \<Rightarrow> resource @ '':'' @ serialise (sort_key fst q))"

definition getCache :: "string \<Rightarrow> state \<Rightarrow> payload option" where
  "getCache key st = map_option fst (map_of (cache st) key)"

definition setCache :: "string \<Rightarrow> payload \<Rightarrow> nat option \<Rightarrow> state \<Rightarrow> state" where
  "setCache key v ttl st =
     st\<lparr>cache := (key, v, ttl) # filter (\<lambda>e. fst e \<noteq> key) (cache st)\<rparr>"

definition deleteCache :: "string \<Rightarrow> state \<Rightarrow> state" where
  "deleteCache pat st =
     (if pat \<noteq> [] \<and> last pat = CHR ''*''
      then st\<lparr>cache := filter (\<lambda>e. \<not> prefix (butlast pat) (fst e)) (cache st)\<rparr>
      else st\<lparr>cache := filter (\<lambda>e. fst e \<noteq> pat) (cache st)\<rparr>)"

section \<open>Document store\<close>

text \<open>
  The operations of the persistence boundary that the services use, on collections in
  insertion order. \<open>update_first\<close> is the shape of every single-document write: the
  first document that matches is replaced.
\<close>

fun update_first :: "('a \<Rightarrow> bool) \<Rightarrow> ('a \<Rightarrow> 'a) \<Rightarrow> 'a list \<Rightarrow> 'a list" where
  "update_first P f [] = []"
| "update_first P f (x # xs) = (if P x then f x # xs else x # update_first P f xs)"

fun remove_first :: "('a \<Rightarrow> bool) \<Rightarrow> 'a list \<Rightarrow> 'a list" where
  "remove_first P [] = []"
| "remove_first P (x # xs) = (if P x then xs else x # remove_first P xs)"

text \<open>A parameter with a default: \<^verbatim>\<open>const { page = 1 } = query\<close>.\<close>

definition or_else :: "'a option \<Rightarrow> 'a \<Rightarrow> 'a" where
  "or_else x d = (case x of None \<Rightarrow> d | Some v \<Rightarrow> v)"

text \<open>\<^verbatim>\<open>$addToSet\<close> and \<^verbatim>\<open>$pull\<close> on an array field.\<close>

definition addToSet :: "'a \<Rightarrow> 'a list \<Rightarrow> 'a list" where
  "addToSet x xs = (if x \<in> set xs then xs else xs @ [x])"

definition pull :: "'a \<Rightarrow> 'a list \<Rightarrow> 'a list" where
  "pull x xs = filter (\<lambda>y. y \<noteq> x) xs"

text \<open>
  A store call casts the strings among its arguments before anything else. The
  functions of this section take identifiers that are cast already; a service casts an
  identifier where its first store call with that identifier stands, and fails there
  with the error of the store when the string spells no \<^verbatim>\<open>ObjectId\<close>. \<open>cast_ids\<close> is the
  cast of a list of identifiers, as in \<^verbatim>\<open>{ _id: { $in: ids } }\<close> or in an array field of a
  document: one string that cannot be cast fails the whole call.
\<close>

definition cast_ids :: "string list \<Rightarrow> ObjectId list option" where
  "cast_ids ids = those (map new_ObjectId ids)"

subsection \<open>Carts\<close>

text \<open>
  The cart schema requires \<^verbatim>\<open>quantity\<close> to be at least 1 (\<^verbatim>\<open>min: 1\<close>); mongoose runs
  the validators on \<^verbatim>\<open>create\<close> and on \<^verbatim>\<open>save\<close>. \<^verbatim>\<open>_id\<close> and \<^verbatim>\<open>user\<close> carry unique
  indexes.
\<close>

definition cart_valid :: "cart \<Rightarrow> bool" where
  "cart_valid c = list_all (\<lambda>i. 1 \<le> quantity i) (items c)"

definition CartModel_findOne :: "ObjectId \<Rightarrow> state \<Rightarrow> cart option" where
  "CartModel_findOne u st = find (\<lambda>c. user c = u) (CartModel st)"

definition CartModel_create :: "cart \<Rightarrow> state \<Rightarrow> error + (cart \<times> state)" where
  "CartModel_create c st =
     (if \<not> cart_valid c then Inl (ValidationError ''Cart validation failed'')
      else if cart_id c \<in> set (map cart_id (CartModel st))
              \<or> user c \<in> set (map user (CartModel st))
      then Inl (MongoServerError ''E11000 duplicate key error'')
      else Inr (c, st\<lparr>CartModel := CartModel st @ [c]\<rparr>))"

definition CartModel_save :: "cart \<Rightarrow> state \<Rightarrow> error + state" where
  "CartModel_save c st =
     (if \<not> cart_valid c then Inl (ValidationError ''Cart validation failed'')
      else Inr (st\<lparr>CartModel := update_first (\<lambda>d. cart_id d = cart_id c) (\<lambda>_. c) (CartModel st)\<rparr>))"

section \<open>CartService\<close>

definition CART_RESOURCE :: string where
  "CART_RESOURCE = ''cart''"

record cart_query =
  cq_includeUser :: "string option"
  cq_includeProduct :: "string option"
  cq_fields :: "string option"

text \<open>
  \<^verbatim>\<open>getCart\<close>: a cached cart is returned as it is; otherwise the cart of the user is
  read, created empty when there is none, and cached. No cache entry is deleted here.
\<close>

definition CartService_getCart ::
  "(string \<Rightarrow> bool) \<Rightarrow> ObjectId \<Rightarrow> string \<Rightarrow> cart_query \<Rightarrow> state \<Rightarrow> (error + payload) \<times> state" where
  "CartService_getCart isValidMongoId newCartId userId query st =
     (if \<not> isValidMongoId userId then (Inl (BadRequest ''Invalid user ID''), st)
      else
        let cacheKey = generateCacheKey (CART_RESOURCE @ '':'' @ userId)
              (Some [(''includeUser'', cq_includeUser query),
                     (''includeProduct'', cq_includeProduct query),
                     (''fields'', cq_fields query)])
        in case getCache cacheKey st of
             Some cached \<Rightarrow> (Inr cached, st)
           | None \<Rightarrow>
               (case new_ObjectId userId of
                  None \<Rightarrow> (Inl (CastError ''Cast to ObjectId failed''), st)
                | Some u \<Rightarrow>
                    (case CartModel_findOne u st of
                       None \<Rightarrow>
                         (case CartModel_create \<lparr>cart_id = newCartId, user = u, items = []\<rparr> st of
                            Inl e \<Rightarrow> (Inl e, st)
                          | Inr (newCart, st1) \<Rightarrow>
                              (Inr (CartDoc newCart), setCache cacheKey (CartDoc newCart) None st1))
                     | Some cart \<Rightarrow>
                         (Inr (CartDoc cart), setCache cacheKey (CartDoc cart) None st))))"

text \<open>
  \<^verbatim>\<open>addItem\<close>: \<^verbatim>\<open>cart.items.find\<close> yields the first item whose product, written as a string,
  is the string \<open>productId\<close>; its quantity is incremented in place. Without one a new
  item is pushed, with the \<^verbatim>\<open>ObjectId\<close> that \<open>productId\<close> spells. \<^verbatim>\<open>cart.save()\<close> writes
  the cart back, then both cart cache prefixes are cleared. For a user without a cart,
  \<^verbatim>\<open>CartModel.create\<close> casts \<open>productId\<close> as a field of the new document.
\<close>

definition CartService_addItem ::
  "(string \<Rightarrow> bool) \<Rightarrow> ObjectId \<Rightarrow> ObjectId \<Rightarrow> string \<Rightarrow> string \<Rightarrow> int \<Rightarrow> state
     \<Rightarrow> (error + cart) \<times> state" where
  "CartService_addItem isValidMongoId newCartId newItemId userId productId q st =
     (if \<not> isValidMongoId userId then (Inl (BadRequest ''Invalid user ID''), st)
      else if \<not> isValidMongoId productId then (Inl (BadRequest ''Invalid product ID''), st)
      else
        case new_ObjectId userId of
          None \<Rightarrow> (Inl (CastError ''Cast to ObjectId failed''), st)
        | Some u \<Rightarrow>
            (let written =
              (case CartModel_findOne u st of
                 None \<Rightarrow>
                   (case new_ObjectId productId of
                      None \<Rightarrow> Inl (ValidationError ''Cart validation failed'')
                    | Some p \<Rightarrow>
                        CartModel_create
                          \<lparr>cart_id = newCartId, user = u,
                           items = [\<lparr>item_id = newItemId, product = p, quantity = q\<rparr>]\<rparr> st)
               | Some cart \<Rightarrow>
                   (case find (\<lambda>item. toString (product item) = productId) (items cart) of
                      Some existingItem \<Rightarrow>
                        let cart' = cart\<lparr>items :=
                              update_first (\<lambda>item. toString (product item) = productId)
                                (\<lambda>item. item\<lparr>quantity := Number_add (quantity item) q\<rparr>)
                                (items cart)\<rparr>
                        in map_sum id (Pair cart') (CartModel_save cart' st)
                    | None \<Rightarrow>
                        (case new_ObjectId productId of
                           None \<Rightarrow> Inl (BSONError ''input must be a 24 character hex string'')
                         | Some p \<Rightarrow>
                             let cart' = cart\<lparr>items := items cart
                                   @ [\<lparr>item_id = newItemId, product = p, quantity = q\<rparr>]\<rparr>
                             in map_sum id (Pair cart') (CartModel_save cart' st))))
             in (case written of
                   Inl e \<Rightarrow> (Inl e, st)
                 | Inr (cart, st1) \<Rightarrow>
                     (Inr cart,
                      deleteCache (CART_RESOURCE @ '':all:*'')
                        (deleteCache (CART_RESOURCE @ '':'' @ userId @ '':*'') st1)))))"

text \<open>
  \<^verbatim>\<open>updateItem\<close>: the item is looked up by its own \<^verbatim>\<open>_id\<close>, written as a string, not by
  product, and its quantity is overwritten.
\<close>

definition CartService_updateItem ::
  "(string \<Rightarrow> bool) \<Rightarrow> string \<Rightarrow> string \<Rightarrow> int \<Rightarrow> state \<Rightarrow> (error + cart) \<times> state" where
  "CartService_updateItem isValidMongoId userId itemId q st =
     (if \<not> isValidMongoId userId then (Inl (BadRequest ''Invalid user ID''), st)
      else if \<not> isValidMongoId itemId then (Inl (BadRequest ''Invalid item ID''), st)
      else
        case new_ObjectId userId of
          None \<Rightarrow> (Inl (CastError ''Cast to ObjectId failed''), st)
        | Some u \<Rightarrow>
            (case CartModel_findOne u st of
               None \<Rightarrow> (Inl (NotFound ''Cart not found''), st)
             | Some cart \<Rightarrow>
                 (case find (\<lambda>i. toString (item_id i) = itemId) (items cart) of
                    None \<Rightarrow> (Inl (NotFound ''Item not found in cart''), st)
                  | Some item \<Rightarrow>
                      let cart' = cart\<lparr>items :=
                            update_first (\<lambda>i. toString (item_id i) = itemId)
                              (\<lambda>i. i\<lparr>quantity := q\<rparr>) (items cart)\<rparr>
                      in (case CartModel_save cart' st of
                            Inl e \<Rightarrow> (Inl e, st)
                          | Inr st1 \<Rightarrow>
                              (Inr cart',
                               deleteCache (CART_RESOURCE @ '':all:*'')
                                 (deleteCache (CART_RESOURCE @ '':'' @ userId @ '':*'') st1))))))"

text \<open>
  \<^verbatim>\<open>getAllCarts\<close>: \<^verbatim>\<open>page\<close> and \<^verbatim>\<open>limit\<close> default to 1 and 10; the request validation
  admits positive integers only. \<^verbatim>\<open>Math.ceil(total / limit)\<close> is the ceiling of the exact
  quotient.
\<close>

record all_carts_query =
  ac_includeUser :: "string option"
  ac_includeProduct :: "string option"
  ac_fields :: "string option"
  ac_page :: "nat option"
  ac_limit :: "nat option"

definition Math_ceil_div :: "nat \<Rightarrow> nat \<Rightarrow> nat" where
  "Math_ceil_div cnt lmt = nat \<lceil>real cnt / real lmt\<rceil>"

definition CartService_getAllCarts ::
  "all_carts_query \<Rightarrow> state \<Rightarrow> (error + payload) \<times> state" where
  "CartService_getAllCarts query st =
     (let page = or_else (ac_page query) 1;
          lmt = or_else (ac_limit query) 10;
          cacheKey = generateCacheKey (CART_RESOURCE @ '':all'')
              (Some [(''includeUser'', ac_includeUser query),
                     (''includeProduct'', ac_includeProduct query),
                     (''fields'', ac_fields query),
                     (''page'', Some (string_of_nat page)),
                     (''limit'', Some (string_of_nat lmt))])
      in case getCache cacheKey st of
           Some cached \<Rightarrow> (Inr cached, st)
         | None \<Rightarrow>
             let skip = (page - 1) * lmt;
                 carts = take lmt (drop skip (CartModel st));
                 cnt = length (CartModel st);
                 result = CartPage carts
                   \<lparr>pg_items = cnt, pg_page = page, pg_limit = lmt,
                    pg_totalPages = Math_ceil_div cnt lmt\<rparr>
             in (Inr result, setCache cacheKey result None st))"

subsection \<open>Products\<close>

text \<open>
  \<^verbatim>\<open>ProductModel.updateMany({ _id: { $in: ids } }, update)\<close> touches every product whose
  \<^verbatim>\<open>_id\<close> is among \<open>ids\<close>; \<open>ProductModel_updateMany_cast\<close> is the call with identifiers
  that are strings still. \<^verbatim>\<open>findByIdAndUpdate\<close> touches the first product with the
  \<^verbatim>\<open>_id\<close> and yields the updated document, or nothing when there is none.
\<close>

definition ProductModel_findById :: "ObjectId \<Rightarrow> state \<Rightarrow> product option" where
  "ProductModel_findById pid st = find (\<lambda>p. product_id p = pid) (ProductModel st)"

definition ProductModel_updateMany ::
  "ObjectId list \<Rightarrow> (product \<Rightarrow> product) \<Rightarrow> state \<Rightarrow> state" where
  "ProductModel_updateMany ids f st =
     st\<lparr>ProductModel := map (\<lambda>p. if product_id p \<in> set ids then f p else p) (ProductModel st)\<rparr>"

definition ProductModel_updateMany_cast ::
  "string list \<Rightarrow> (product \<Rightarrow> product) \<Rightarrow> state \<Rightarrow> error + state" where
  "ProductModel_updateMany_cast ids f st =
     (case cast_ids ids of
        None \<Rightarrow> Inl (CastError ''Cast to ObjectId failed for path _id'')
      | Some pids \<Rightarrow> Inr (ProductModel_updateMany pids f st))"

definition ProductModel_findByIdAndUpdate ::
  "ObjectId \<Rightarrow> (product \<Rightarrow> product) \<Rightarrow> state \<Rightarrow> product option \<times> state" where
  "ProductModel_findByIdAndUpdate pid f st =
     (map_option f (ProductModel_findById pid st),
      st\<lparr>ProductModel := update_first (\<lambda>p. product_id p = pid) f (ProductModel st)\<rparr>)"

subsection \<open>Campaigns and offers\<close>

text \<open>
  The payload of a campaign or offer write: the fields the services look at, with the
  product identifiers as the strings of the request. A field that is \<open>None\<close> is absent
  from the payload. A new document without a product list holds the empty list, and,
  like brands and products, is active unless the payload says otherwise. The product
  list of a payload is cast when the document is written: \<^verbatim>\<open>create\<close> fails its
  validation, and \<^verbatim>\<open>findByIdAndUpdate\<close> its cast, on a string that spells no
  \<^verbatim>\<open>ObjectId\<close>.
\<close>

record campaign_data =
  cd_is_active :: "bool option"
  cd_productsIds :: "string list option"

record offer_data =
  od_is_active :: "bool option"
  od_applicable_products :: "string list option"

definition cast_id_list :: "string list option \<Rightarrow> ObjectId list option option" where
  "cast_id_list ids = (case ids of None \<Rightarrow> Some None | Some xs \<Rightarrow> map_option Some (cast_ids xs))"

definition CampaignModel_findById :: "ObjectId \<Rightarrow> state \<Rightarrow> campaign option" where
  "CampaignModel_findById cid st = find (\<lambda>c. campaign_id c = cid) (CampaignModel st)"

definition apply_campaign_data :: "campaign_data \<Rightarrow> ObjectId list option \<Rightarrow> campaign \<Rightarrow> campaign" where
  "apply_campaign_data d ids c =
     c\<lparr>campaign_is_active := or_else (cd_is_active d) (campaign_is_active c),
       productsIds := or_else ids (productsIds c)\<rparr>"

definition CampaignModel_create ::
  "ObjectId \<Rightarrow> campaign_data \<Rightarrow> state \<Rightarrow> error + (campaign \<times> state)" where
  "CampaignModel_create newId d st =
     (case cast_id_list (cd_productsIds d) of
        None \<Rightarrow> Inl (ValidationError ''Campaign validation failed'')
      | Some ids \<Rightarrow>
          if newId \<in> set (map campaign_id (CampaignModel st))
          then Inl (MongoServerError ''E11000 duplicate key error'')
          else
            let c = apply_campaign_data d ids
                      \<lparr>campaign_id = newId, campaign_is_active = True, productsIds = []\<rparr>
            in Inr (c, st\<lparr>CampaignModel := CampaignModel st @ [c]\<rparr>))"

definition CampaignModel_findByIdAndUpdate ::
  "ObjectId \<Rightarrow> campaign_data \<Rightarrow> state \<Rightarrow> error + (campaign option \<times> state)" where
  "CampaignModel_findByIdAndUpdate cid d st =
     (case cast_id_list (cd_productsIds d) of
        None \<Rightarrow> Inl (CastError ''Cast to ObjectId failed for path applies_to.productsIds'')
      | Some ids \<Rightarrow>
          Inr (map_option (apply_campaign_data d ids) (CampaignModel_findById cid st),
               st\<lparr>CampaignModel :=
                    update_first (\<lambda>c. campaign_id c = cid) (apply_campaign_data d ids)
                      (CampaignModel st)\<rparr>))"

definition CampaignModel_findByIdAndDelete :: "ObjectId \<Rightarrow> state \<Rightarrow> state" where
  "CampaignModel_findByIdAndDelete cid st =
     st\<lparr>CampaignModel := remove_first (\<lambda>c. campaign_id c = cid) (CampaignModel st)\<rparr>"

definition OfferModel_findById :: "ObjectId \<Rightarrow> state \<Rightarrow> offer option" where
  "OfferModel_findById oid st = find (\<lambda>c. offer_id c = oid) (OfferModel st)"

definition apply_offer_data :: "offer_data \<Rightarrow> ObjectId list option \<Rightarrow> offer \<Rightarrow> offer" where
  "apply_offer_data d ids c =
     c\<lparr>offer_is_active := or_else (od_is_active d) (offer_is_active c),
       applicable_products := or_else ids (applicable_products c)\<rparr>"

definition OfferModel_create ::
  "ObjectId \<Rightarrow> offer_data \<Rightarrow> state \<Rightarrow> error + (offer \<times> state)" where
  "OfferModel_create newId d st =
     (case cast_id_list (od_applicable_products d) of
        None \<Rightarrow> Inl (ValidationError ''Offer validation failed'')
      | Some ids \<Rightarrow>
          if newId \<in> set (map offer_id (OfferModel st))
          then Inl (MongoServerError ''E11000 duplicate key error'')
          else
            let c = apply_offer_data d ids
                      \<lparr>offer_id = newId, offer_is_active = True, applicable_products = []\<rparr>
            in Inr (c, st\<lparr>OfferModel := OfferModel st @ [c]\<rparr>))"

definition OfferModel_findByIdAndUpdate ::
  "ObjectId \<Rightarrow> offer_data \<Rightarrow> state \<Rightarrow> error + (offer option \<times> state)" where
  "OfferModel_findByIdAndUpdate oid d st =
     (case cast_id_list (od_applicable_products d) of
        None \<Rightarrow> Inl (CastError ''Cast to ObjectId failed for path applicable_products'')
      | Some ids \<Rightarrow>
          Inr (map_option (apply_offer_data d ids) (OfferModel_findById oid st),
               st\<lparr>OfferModel :=
                    update_first (\<lambda>c. offer_id c = oid) (apply_offer_data d ids) (OfferModel st)\<rparr>))"

definition OfferModel_findByIdAndDelete :: "ObjectId \<Rightarrow> state \<Rightarrow> state" where
  "OfferModel_findByIdAndDelete oid st =
     st\<lparr>OfferModel := remove_first (\<lambda>c. offer_id c = oid) (OfferModel st)\<rparr>"

text \<open>
  The two membership tests of \<^verbatim>\<open>update\<close>. \<^verbatim>\<open>newProductIds.includes(pid)\<close> asks a plain
  array of the strings of the payload for \<open>pid\<close>, an \<^verbatim>\<open>ObjectId\<close> of the stored
  document: \<^verbatim>\<open>Array.prototype.includes\<close> compares with \<^verbatim>\<open>SameValueZero\<close>, under which an
  object is equal to itself only, so no string is equal to \<open>pid\<close>.
  \<^verbatim>\<open>oldProductIds.includes(pid)\<close> asks the array of the stored document, a mongoose array,
  for a string of the payload: its \<^verbatim>\<open>includes\<close> is \<^verbatim>\<open>indexOf(pid) !== -1\<close>, and its
  \<^verbatim>\<open>indexOf\<close> compares with \<^verbatim>\<open>==\<close>, which converts the \<^verbatim>\<open>ObjectId\<close> to its string.
\<close>

definition Array_includes :: "string list \<Rightarrow> ObjectId \<Rightarrow> bool" where
  "Array_includes xs pid \<longleftrightarrow> False"

definition MongooseArray_includes :: "ObjectId list \<Rightarrow> string \<Rightarrow> bool" where
  "MongooseArray_includes xs pid \<longleftrightarrow> pid \<in> set (map toString xs)"

section \<open>CampaignService\<close>

definition CAMPAIGN_RESOURCE :: string where
  "CAMPAIGN_RESOURCE = ''campaigns''"

definition CACHE_TTL :: nat where
  "CACHE_TTL = 30 * 24 * 60 * 60"

record promo_query =
  pq_fields :: "string option"
  pq_includeProducts :: "string option"

definition CampaignService_getById ::
  "(string \<Rightarrow> bool) \<Rightarrow> string \<Rightarrow> promo_query \<Rightarrow> state \<Rightarrow> (error + payload) \<times> state" where
  "CampaignService_getById isValidMongoId cid query st =
     (if \<not> isValidMongoId cid then (Inl (BadRequest ''Invalid campaign ID''), st)
      else
        let cacheKey = generateCacheKey (CAMPAIGN_RESOURCE @ '':'' @ cid)
              (Some [(''fields'', pq_fields query),
                     (''includeProducts'', pq_includeProducts query)])
        in case getCache cacheKey st of
             Some cached \<Rightarrow> (Inr cached, st)
           | None \<Rightarrow>
               (case new_ObjectId cid of
                  None \<Rightarrow> (Inl (CastError ''Cast to ObjectId failed''), st)
                | Some i \<Rightarrow>
                    (case CampaignModel_findById i st of
                       None \<Rightarrow> (Inl (NotFound ''Campaign not found''), st)
                     | Some campaign \<Rightarrow>
                         (Inr (CampaignDoc campaign),
                          setCache cacheKey (CampaignDoc campaign) (Some CACHE_TTL) st))))"

text \<open>
  \<^verbatim>\<open>create\<close>: the campaign is inserted first; with a non-empty product list its
  \<^verbatim>\<open>_id\<close> is added to the \<^verbatim>\<open>campaigns\<close> set of the listed products and the product list
  cache is cleared.
\<close>

definition CampaignService_create ::
  "ObjectId \<Rightarrow> campaign_data \<Rightarrow> state \<Rightarrow> (error + ObjectId) \<times> state" where
  "CampaignService_create newId d st =
     (case CampaignModel_create newId d st of
        Inl e \<Rightarrow> (Inl e, st)
      | Inr (campaign, st1) \<Rightarrow>
          (case (case cd_productsIds d of
                   None \<Rightarrow> Inr st1
                 | Some ids \<Rightarrow>
                     if ids \<noteq> []
                     then map_sum id (deleteCache ''products:list:*'')
                            (ProductModel_updateMany_cast ids
                               (\<lambda>p. p\<lparr>campaigns := addToSet (campaign_id campaign) (campaigns p)\<rparr>)
                               st1)
                     else Inr st1) of
             Inl e \<Rightarrow> (Inl e, st1)
           | Inr st2 \<Rightarrow>
               (Inr (campaign_id campaign),
                deleteCache (generateCacheKey CAMPAIGN_RESOURCE None) st2)))"

text \<open>
  \<^verbatim>\<open>update\<close>: the stored campaign is read, then overwritten with the payload. When the
  payload has a product list (an empty one counts), \<open>productsToUnlink\<close> and
  \<open>productsToLink\<close> are filtered out of the old and the new list with the two membership
  tests, the campaign is pulled from the products of the first and added to the
  products of the second, and the product list cache is cleared when either list is
  not empty. \<^verbatim>\<open>$pull\<close> and \<^verbatim>\<open>$addToSet\<close> cast \<open>id\<close> to the \<^verbatim>\<open>ObjectId\<close> it spells.
\<close>

definition CampaignService_update ::
  "(string \<Rightarrow> bool) \<Rightarrow> string \<Rightarrow> campaign_data \<Rightarrow> state
     \<Rightarrow> (error + campaign option) \<times> state" where
  "CampaignService_update isValidMongoId cid d st =
     (if \<not> isValidMongoId cid then (Inl (BadRequest ''Invalid campaign ID''), st)
      else
        case new_ObjectId cid of
          None \<Rightarrow> (Inl (CastError ''Cast to ObjectId failed''), st)
        | Some i \<Rightarrow>
            (case CampaignModel_findById i st of
               None \<Rightarrow> (Inl (NotFound ''Campaign not found''), st)
             | Some oldCampaign \<Rightarrow>
                 (case CampaignModel_findByIdAndUpdate i d st of
                    Inl e \<Rightarrow> (Inl e, st)
                  | Inr (campaign, st1) \<Rightarrow>
                      (case cd_productsIds d of
                         None \<Rightarrow>
                           (Inr campaign,
                            deleteCache (generateCacheKey CAMPAIGN_RESOURCE None)
                              (deleteCache (generateCacheKey (CAMPAIGN_RESOURCE @ '':'' @ cid) None)
                                 st1))
                       | Some newProductIds \<Rightarrow>
                           (let oldProductIds = productsIds oldCampaign;
                                productsToUnlink =
                                  filter (\<lambda>pid. \<not> Array_includes newProductIds pid) oldProductIds;
                                productsToLink =
                                  filter (\<lambda>pid. \<not> MongooseArray_includes oldProductIds pid)
                                    newProductIds;
                                s1 = (if productsToUnlink \<noteq> []
                                      then ProductModel_updateMany productsToUnlink
                                             (\<lambda>p. p\<lparr>campaigns := pull i (campaigns p)\<rparr>) st1
                                      else st1)
                            in (case (if productsToLink \<noteq> []
                                      then ProductModel_updateMany_cast productsToLink
                                             (\<lambda>p. p\<lparr>campaigns := addToSet i (campaigns p)\<rparr>) s1
                                      else Inr s1) of
                                  Inl e \<Rightarrow> (Inl e, s1)
                                | Inr s2 \<Rightarrow>
                                    (Inr campaign,
                                     deleteCache (generateCacheKey CAMPAIGN_RESOURCE None)
                                       (deleteCache
                                          (generateCacheKey (CAMPAIGN_RESOURCE @ '':'' @ cid) None)
                                          (if productsToUnlink \<noteq> [] \<or> productsToLink \<noteq> []
                                           then deleteCache ''products:list:*'' s2
                                           else s2)))))))))"

definition CampaignService_updateStatus ::
  "(string \<Rightarrow> bool) \<Rightarrow> string \<Rightarrow> bool \<Rightarrow> state \<Rightarrow> (error + campaign option) \<times> state" where
  "CampaignService_updateStatus isValidMongoId cid active st =
     CampaignService_update isValidMongoId cid
       \<lparr>cd_is_active = Some active, cd_productsIds = None\<rparr> st"

text \<open>
  \<^verbatim>\<open>delete\<close> issues its writes one after the other. \<open>CampaignService_delete_trace\<close> gives
  the campaign that was found and the sequence of states the operation goes through:
  the state it starts in, then the state after each write, in program order.
  \<open>CampaignService_delete\<close> ends in the last of them and returns the \<^verbatim>\<open>_id\<close> of the
  campaign.
\<close>

definition CampaignService_delete_trace ::
  "(string \<Rightarrow> bool) \<Rightarrow> string \<Rightarrow> state \<Rightarrow> error + (campaign \<times> state list)" where
  "CampaignService_delete_trace isValidMongoId cid st =
     (if \<not> isValidMongoId cid then Inl (BadRequest ''Invalid campaign ID'')
      else
        case new_ObjectId cid of
          None \<Rightarrow> Inl (CastError ''Cast to ObjectId failed'')
        | Some i \<Rightarrow>
            (case CampaignModel_findById i st of
               None \<Rightarrow> Inl (NotFound ''Campaign not found'')
             | Some campaign \<Rightarrow>
                 let unlinked =
                       (if productsIds campaign \<noteq> []
                        then let s1 = ProductModel_updateMany (productsIds campaign)
                                        (\<lambda>p. p\<lparr>campaigns := pull i (campaigns p)\<rparr>) st
                             in [s1, deleteCache ''products:list:*'' s1]
                        else []);
                     st3 = CampaignModel_findByIdAndDelete i (last (st # unlinked));
                     st4 = deleteCache (generateCacheKey (CAMPAIGN_RESOURCE @ '':'' @ cid) None) st3;
                     st5 = deleteCache (generateCacheKey CAMPAIGN_RESOURCE None) st4
                 in Inr (campaign, st # unlinked @ [st3, st4, st5])))"

definition CampaignService_delete ::
  "(string \<Rightarrow> bool) \<Rightarrow> string \<Rightarrow> state \<Rightarrow> (error + ObjectId) \<times> state" where
  "CampaignService_delete isValidMongoId cid st =
     (case CampaignService_delete_trace isValidMongoId cid st of
        Inl e \<Rightarrow> (Inl e, st)
      | Inr (campaign, trace) \<Rightarrow> (Inr (campaign_id campaign), last trace))"

section \<open>OfferService\<close>

definition OFFER_RESOURCE :: string where
  "OFFER_RESOURCE = ''offers''"

definition OfferService_getById ::
  "(string \<Rightarrow> bool) \<Rightarrow> string \<Rightarrow> promo_query \<Rightarrow> state \<Rightarrow> (error + payload) \<times> state" where
  "OfferService_getById isValidMongoId oid query st =
     (if \<not> isValidMongoId oid then (Inl (BadRequest ''Invalid offer ID''), st)
      else
        let cacheKey = generateCacheKey (OFFER_RESOURCE @ '':'' @ oid)
              (Some [(''fields'', pq_fields query),
                     (''includeProducts'', pq_includeProducts query)])
        in case getCache cacheKey st of
             Some cached \<Rightarrow> (Inr cached, st)
           | None \<Rightarrow>
               (case new_ObjectId oid of
                  None \<Rightarrow> (Inl (CastError ''Cast to ObjectId failed''), st)
                | Some i \<Rightarrow>
                    (case OfferModel_findById i st of
                       None \<Rightarrow> (Inl (NotFound ''Offer not found''), st)
                     | Some offer \<Rightarrow>
                         (Inr (OfferDoc offer),
                          setCache cacheKey (OfferDoc offer) (Some CACHE_TTL) st))))"

definition OfferService_create ::
  "ObjectId \<Rightarrow> offer_data \<Rightarrow> state \<Rightarrow> (error + ObjectId) \<times> state" where
  "OfferService_create newId d st =
     (case OfferModel_create newId d st of
        Inl e \<Rightarrow> (Inl e, st)
      | Inr (offer, st1) \<Rightarrow>
          (case (case od_applicable_products d of
                   None \<Rightarrow> Inr st1
                 | Some ids \<Rightarrow>
                     if ids \<noteq> []
                     then map_sum id (deleteCache ''products:list:*'')
                            (ProductModel_updateMany_cast ids
                               (\<lambda>p. p\<lparr>offers := addToSet (offer_id offer) (offers p)\<rparr>) st1)
                     else Inr st1) of
             Inl e \<Rightarrow> (Inl e, st1)
           | Inr st2 \<Rightarrow>
               (Inr (offer_id offer),
                deleteCache (generateCacheKey OFFER_RESOURCE None) st2)))"

definition OfferService_update ::
  "(string \<Rightarrow> bool) \<Rightarrow> string \<Rightarrow> offer_data \<Rightarrow> state \<Rightarrow> (error + offer option) \<times> state" where
  "OfferService_update isValidMongoId oid d st =
     (if \<not> isValidMongoId oid then (Inl (BadRequest ''Invalid offer ID''), st)
      else
        case new_ObjectId oid of
          None \<Rightarrow> (Inl (CastError ''Cast to ObjectId failed''), st)
        | Some i \<Rightarrow>
            (case OfferModel_findById i st of
               None \<Rightarrow> (Inl (NotFound ''Offer not found''), st)
             | Some oldOffer \<Rightarrow>
                 (case OfferModel_findByIdAndUpdate i d st of
                    Inl e \<Rightarrow> (Inl e, st)
                  | Inr (offer, st1) \<Rightarrow>
                      (case od_applicable_products d of
                         None \<Rightarrow>
                           (Inr offer,
                            deleteCache (generateCacheKey OFFER_RESOURCE None)
                              (deleteCache (generateCacheKey (OFFER_RESOURCE @ '':'' @ oid) None)
                                 st1))
                       | Some newProductIds \<Rightarrow>
                           (let oldProductIds = applicable_products oldOffer;
                                productsToUnlink =
                                  filter (\<lambda>pid. \<not> Array_includes newProductIds pid) oldProductIds;
                                productsToLink =
                                  filter (\<lambda>pid. \<not> MongooseArray_includes oldProductIds pid)
                                    newProductIds;
                                s1 = (if productsToUnlink \<noteq> []
                                      then ProductModel_updateMany productsToUnlink
                                             (\<lambda>p. p\<lparr>offers := pull i (offers p)\<rparr>) st1
                                      else st1)
                            in (case (if productsToLink \<noteq> []
                                      then ProductModel_updateMany_cast productsToLink
                                             (\<lambda>p. p\<lparr>offers := addToSet i (offers p)\<rparr>) s1
                                      else Inr s1) of
                                  Inl e \<Rightarrow> (Inl e, s1)
                                | Inr s2 \<Rightarrow>
                                    (Inr offer,
                                     deleteCache (generateCacheKey OFFER_RESOURCE None)
                                       (deleteCache
                                          (generateCacheKey (OFFER_RESOURCE @ '':'' @ oid) None)
                                          (if productsToUnlink \<noteq> [] \<or> productsToLink \<noteq> []
                                           then deleteCache ''products:list:*'' s2
                                           else s2)))))))))"

definition OfferService_updateStatus ::
  "(string \<Rightarrow> bool) \<Rightarrow> string \<Rightarrow> bool \<Rightarrow> state \<Rightarrow> (error + offer option) \<times> state" where
  "OfferService_updateStatus isValidMongoId oid active st =
     OfferService_update isValidMongoId oid
       \<lparr>od_is_active = Some active, od_applicable_products = None\<rparr> st"

definition OfferService_delete_trace ::
  "(string \<Rightarrow> bool) \<Rightarrow> string \<Rightarrow> state \<Rightarrow> error + (offer \<times> state list)" where
  "OfferService_delete_trace isValidMongoId oid st =
     (if \<not> isValidMongoId oid then Inl (BadRequest ''Invalid offer ID'')
      else
        case new_ObjectId oid of
          None \<Rightarrow> Inl (CastError ''Cast to ObjectId failed'')
        | Some i \<Rightarrow>
            (case OfferModel_findById i st of
               None \<Rightarrow> Inl (NotFound ''Offer not found'')
             | Some offer \<Rightarrow>
                 let unlinked =
                       (if applicable_products offer \<noteq> []
                        then let s1 = ProductModel_updateMany (applicable_products offer)
                                        (\<lambda>p. p\<lparr>offers := pull i (offers p)\<rparr>) st
                             in [s1, deleteCache ''products:list:*'' s1]
                        else []);
                     st3 = OfferModel_findByIdAndDelete i (last (st # unlinked));
                     st4 = deleteCache (generateCacheKey (OFFER_RESOURCE @ '':'' @ oid) None) st3;
                     st5 = deleteCache (generateCacheKey OFFER_RESOURCE None) st4
                 in Inr (offer, st # unlinked @ [st3, st4, st5])))"

definition OfferService_delete ::
  "(string \<Rightarrow> bool) \<Rightarrow> string \<Rightarrow> state \<Rightarrow> (error + ObjectId) \<times> state" where
  "OfferService_delete isValidMongoId oid st =
     (case OfferService_delete_trace isValidMongoId oid st of
        Inl e \<Rightarrow> (Inl e, st)
      | Inr (offer, trace) \<Rightarrow> (Inr (offer_id offer), last trace))"

section \<open>ProductService\<close>

subsection \<open>Slugs\<close>

text \<open>
  \<^verbatim>\<open>generateSlug\<close> of the product service: \<^verbatim>\<open>toLowerCase\<close>, \<^verbatim>\<open>trim\<close>, then the four
  \<^verbatim>\<open>replace\<close> calls. \<open>replace_runs P inrun s\<close> is \<^verbatim>\<open>s.replace(/P+/g, '-')\<close>: every maximal
  run of characters in \<open>P\<close> becomes one hyphen; \<open>inrun\<close> says that the character before
  was in \<open>P\<close>.
\<close>

fun replace_runs :: "(char \<Rightarrow> bool) \<Rightarrow> bool \<Rightarrow> string \<Rightarrow> string" where
  "replace_runs P inrun [] = []"
| "replace_runs P inrun (c # cs) =
     (if P c then (if inrun then replace_runs P True cs else CHR ''-'' # replace_runs P True cs)
      else c # replace_runs P False cs)"

text \<open>\<^verbatim>\<open>s.replace(/^-|-$/g, '')\<close>: one hyphen at the start and one at the end go.\<close>

definition strip_hyphen :: "string \<Rightarrow> string" where
  "strip_hyphen s =
     (let s1 = (case s of [] \<Rightarrow> [] | c # cs \<Rightarrow> if c = CHR ''-'' then cs else s)
      in if s1 \<noteq> [] \<and> last s1 = CHR ''-'' then butlast s1 else s1)"

definition generateSlug :: "string \<Rightarrow> string" where
  "generateSlug name' =
     strip_hyphen
       (replace_runs (\<lambda>c. c = CHR ''-'') False
          (replace_runs is_space False
             (filter (\<lambda>c. is_word c \<or> is_space c \<or> c = CHR ''-'')
                (trim (toLowerCase name')))))"

subsection \<open>Product documents\<close>

text \<open>
  The payload of a product write (\<^verbatim>\<open>Partial<IProduct>\<close>), with category and brand as the
  strings of the request. A string counts as given when it is present and not empty, as
  in \<^verbatim>\<open>if (data.slug)\<close>.
\<close>

record product_data =
  pd_name :: "string option"
  pd_slug :: "string option"
  pd_description :: "string option"
  pd_category :: "string option"
  pd_brand :: "string option"
  pd_featured :: "bool option"
  pd_is_active :: "bool option"
  pd_variants :: "variant list option"

definition truthy :: "string option \<Rightarrow> bool" where
  "truthy s \<longleftrightarrow> (case s of None \<Rightarrow> False | Some v \<Rightarrow> v \<noteq> [])"

text \<open>
  The setters of the product schema: \<^verbatim>\<open>trim\<close> on name and description, \<^verbatim>\<open>lowercase\<close> and
  \<^verbatim>\<open>trim\<close> on the slug. Mongoose runs them on the fields of a new document, on the
  fields of an update, and on the values of a query filter, last declared first.
\<close>

definition slug_setters :: "string \<Rightarrow> string" where
  "slug_setters s = toLowerCase (trim s)"

definition product_setters :: "product_data \<Rightarrow> product_data" where
  "product_setters d =
     d\<lparr>pd_name := map_option trim (pd_name d),
       pd_slug := map_option slug_setters (pd_slug d),
       pd_description := map_option trim (pd_description d)\<rparr>"

definition cast_ref :: "string option \<Rightarrow> ObjectId option" where
  "cast_ref s = (case s of None \<Rightarrow> None | Some v \<Rightarrow> new_ObjectId v)"

definition apply_product_data :: "product_data \<Rightarrow> product \<Rightarrow> product" where
  "apply_product_data d p =
     p\<lparr>name := or_else (pd_name d) (name p),
       slug := or_else (pd_slug d) (slug p),
       description := or_else (pd_description d) (description p),
       category := or_else (cast_ref (pd_category d)) (category p),
       brand_ref := or_else (cast_ref (pd_brand d)) (brand_ref p),
       featured := or_else (pd_featured d) (featured p),
       is_active := or_else (pd_is_active d) (is_active p),
       variants := or_else (pd_variants d) (variants p)\<rparr>"

definition all_skus :: "state \<Rightarrow> string list" where
  "all_skus st = concat (map (\<lambda>p. map sku (variants p)) (ProductModel st))"

text \<open>
  \<^verbatim>\<open>ProductModel.create\<close>: the setters run, then the validators: name, description,
  category, brand, slug and the SKU of each variant are required, and category and
  brand must spell an \<^verbatim>\<open>ObjectId\<close>. \<^verbatim>\<open>_id\<close>, \<^verbatim>\<open>slug\<close> and \<^verbatim>\<open>variants.sku\<close> carry unique
  indexes.
\<close>

definition ProductModel_create ::
  "ObjectId \<Rightarrow> product_data \<Rightarrow> state \<Rightarrow> error + (product \<times> state)" where
  "ProductModel_create newId d st =
     (let data = product_setters d
      in if \<not> (truthy (pd_name data) \<and> truthy (pd_description data)
                \<and> cast_ref (pd_category data) \<noteq> None \<and> cast_ref (pd_brand data) \<noteq> None
                \<and> truthy (pd_slug data)
                \<and> list_all (\<lambda>v. sku v \<noteq> []) (or_else (pd_variants data) []))
         then Inl (ValidationError ''Product validation failed'')
         else if newId \<in> set (map product_id (ProductModel st))
                 \<or> or_else (pd_slug data) [] \<in> set (map slug (ProductModel st))
                 \<or> list_ex (\<lambda>v. sku v \<in> set (all_skus st)) (or_else (pd_variants data) [])
         then Inl (MongoServerError ''E11000 duplicate key error'')
         else
           let p = apply_product_data data
                     \<lparr>product_id = newId, name = [], description = [], category = ObjectId [],
                      brand_ref = ObjectId [], slug = [], featured = False, is_active = True,
                      campaigns = [], offers = [], variants = []\<rparr>
           in Inr (p, st\<lparr>ProductModel := ProductModel st @ [p]\<rparr>))"

text \<open>
  \<^verbatim>\<open>ProductModel.findOne\<close> with a filter on the slug or on the name, alone or together
  with \<^verbatim>\<open>_id: { $ne: id }\<close>.
\<close>

definition ProductModel_findOne_slug :: "string \<Rightarrow> state \<Rightarrow> product option" where
  "ProductModel_findOne_slug s st = find (\<lambda>p. slug p = slug_setters s) (ProductModel st)"

definition ProductModel_findOne_name :: "string \<Rightarrow> state \<Rightarrow> product option" where
  "ProductModel_findOne_name n st = find (\<lambda>p. name p = trim n) (ProductModel st)"

definition ProductModel_findOne_slug_ne :: "string \<Rightarrow> ObjectId \<Rightarrow> state \<Rightarrow> product option" where
  "ProductModel_findOne_slug_ne s pid st =
     find (\<lambda>p. slug p = slug_setters s \<and> product_id p \<noteq> pid) (ProductModel st)"

definition ProductModel_findOne_name_ne :: "string \<Rightarrow> ObjectId \<Rightarrow> state \<Rightarrow> product option" where
  "ProductModel_findOne_name_ne n pid st =
     find (\<lambda>p. name p = trim n \<and> product_id p \<noteq> pid) (ProductModel st)"

text \<open>
  \<^verbatim>\<open>findByIdAndUpdate(id, data, { new: true, runValidators: true })\<close> for a product that
  exists: the fields of the update are cast and go through the setters; with
  \<^verbatim>\<open>runValidators\<close> an update may not empty a required string; the unique indexes hold
  against the other products.
\<close>

definition product_update_valid :: "product_data \<Rightarrow> bool" where
  "product_update_valid d \<longleftrightarrow>
     pd_name d \<noteq> Some [] \<and> pd_slug d \<noteq> Some [] \<and> pd_description d \<noteq> Some []
     \<and> list_all (\<lambda>v. sku v \<noteq> []) (or_else (pd_variants d) [])"

definition ProductModel_findByIdAndUpdate_data ::
  "ObjectId \<Rightarrow> product_data \<Rightarrow> state \<Rightarrow> error + (product option \<times> state)" where
  "ProductModel_findByIdAndUpdate_data pid d st =
     (let data = product_setters d;
          others = filter (\<lambda>p. product_id p \<noteq> pid) (ProductModel st)
      in if (pd_category data \<noteq> None \<and> cast_ref (pd_category data) = None)
            \<or> (pd_brand data \<noteq> None \<and> cast_ref (pd_brand data) = None)
         then Inl (CastError ''Cast to ObjectId failed'')
         else if \<not> product_update_valid data
         then Inl (ValidationError ''Validation failed'')
         else if (case pd_slug data of None \<Rightarrow> False | Some s \<Rightarrow> s \<in> set (map slug others))
                 \<or> list_ex (\<lambda>v. sku v \<in> set (concat (map (\<lambda>p. map sku (variants p)) others)))
                      (or_else (pd_variants data) [])
         then Inl (MongoServerError ''E11000 duplicate key error'')
         else Inr (ProductModel_findByIdAndUpdate pid (apply_product_data data) st))"

subsection \<open>Operations\<close>

definition ProductService_getById ::
  "(string \<Rightarrow> bool) \<Rightarrow> string \<Rightarrow> string option \<Rightarrow> string option \<Rightarrow> string option \<Rightarrow> state
     \<Rightarrow> (error + payload) \<times> state" where
  "ProductService_getById isValidMongoId pid flds includeCampaigns includeOffers st =
     (if \<not> isValidMongoId pid then (Inl (Error ''Invalid product ID''), st)
      else
        let cacheKey = generateCacheKey ''product''
              (Some [(''id'', Some pid), (''fields'', flds),
                     (''includeCampaigns'', includeCampaigns),
                     (''includeOffers'', includeOffers)])
        in case getCache cacheKey st of
             Some cached \<Rightarrow> (Inr cached, st)
           | None \<Rightarrow>
               (case new_ObjectId pid of
                  None \<Rightarrow> (Inl (CastError ''Cast to ObjectId failed''), st)
                | Some i \<Rightarrow>
                    (case ProductModel_findById i st of
                       None \<Rightarrow> (Inl (Error ''Product not found''), st)
                     | Some p \<Rightarrow>
                         (Inr (ProductDoc p), setCache cacheKey (ProductDoc p) None st))))"

definition ProductService_create ::
  "ObjectId \<Rightarrow> product_data \<Rightarrow> state \<Rightarrow> (error + product) \<times> state" where
  "ProductService_create newId d st =
     (let data =
            (if \<not> truthy (pd_slug d) \<and> truthy (pd_name d)
             then d\<lparr>pd_slug := Some (generateSlug (or_else (pd_name d) []))\<rparr>
             else d)
      in if truthy (pd_slug data)
            \<and> ProductModel_findOne_slug (or_else (pd_slug data) []) st \<noteq> None
         then (Inl (Error ''Product with this slug already exists''), st)
         else if truthy (pd_name data)
                 \<and> ProductModel_findOne_name (or_else (pd_name data) []) st \<noteq> None
         then (Inl (Error ''Product with this name already exists''), st)
         else
           case ProductModel_create newId data st of
             Inl e \<Rightarrow> (Inl e, st)
           | Inr (p, st1) \<Rightarrow> (Inr p, deleteCache ''products:list:*'' st1))"

definition ProductService_update ::
  "(string \<Rightarrow> bool) \<Rightarrow> string \<Rightarrow> product_data \<Rightarrow> state \<Rightarrow> (error + product option) \<times> state" where
  "ProductService_update isValidMongoId pid d st =
     (if \<not> isValidMongoId pid then (Inl (Error ''Invalid product ID''), st)
      else
        case new_ObjectId pid of
          None \<Rightarrow> (Inl (CastError ''Cast to ObjectId failed''), st)
        | Some i \<Rightarrow>
            (case ProductModel_findById i st of
               None \<Rightarrow> (Inl (Error ''Product not found''), st)
             | Some p \<Rightarrow>
                 let data =
                       (if truthy (pd_name d) \<and> pd_name d \<noteq> Some (name p)
                        then d\<lparr>pd_slug := Some (generateSlug (or_else (pd_name d) []))\<rparr>
                        else d)
                 in if truthy (pd_slug data) \<and> pd_slug data \<noteq> Some (slug p)
                       \<and> ProductModel_findOne_slug_ne (or_else (pd_slug data) []) i st \<noteq> None
                    then (Inl (Error ''Product with this slug already exists''), st)
                    else if truthy (pd_name data) \<and> pd_name data \<noteq> Some (name p)
                       \<and> ProductModel_findOne_name_ne (or_else (pd_name data) []) i st \<noteq> None
                    then (Inl (Error ''Product with this name already exists''), st)
                    else
                      (case ProductModel_findByIdAndUpdate_data i data st of
                         Inl e \<Rightarrow> (Inl e, st)
                       | Inr (updatedProduct, st1) \<Rightarrow>
                           (Inr updatedProduct,
                            deleteCache (''product:'' @ pid)
                              (deleteCache ''products:list:*'' st1)))))"

definition ProductService_addVariant ::
  "(string \<Rightarrow> bool) \<Rightarrow> string \<Rightarrow> variant \<Rightarrow> state \<Rightarrow> (error + product) \<times> state" where
  "ProductService_addVariant isValidMongoId pid variantData st =
     (if \<not> isValidMongoId pid then (Inl (Error ''Invalid product ID''), st)
      else if find (\<lambda>p. sku variantData \<in> set (map sku (variants p))) (ProductModel st) \<noteq> None
      then (Inl (Error ''Variant with this SKU already exists''), st)
      else
        case new_ObjectId pid of
          None \<Rightarrow> (Inl (CastError ''Cast to ObjectId failed''), st)
        | Some i \<Rightarrow>
            if sku variantData = [] then (Inl (ValidationError ''Validation failed''), st)
            else
              (case ProductModel_findByIdAndUpdate i
                      (\<lambda>p. p\<lparr>variants := variants p @ [variantData]\<rparr>) st of
                 (None, st1) \<Rightarrow> (Inl (Error ''Product not found''), st)
               | (Some p, st1) \<Rightarrow>
                   (Inr p, deleteCache (''product:'' @ pid) (deleteCache ''products:list:*'' st1))))"

text \<open>
  The four link operations of the product service write the product only: the
  campaign or offer named is neither read nor changed. The update casts the
  identifiers it is given.
\<close>

definition ProductService_linkCampaigns ::
  "(string \<Rightarrow> bool) \<Rightarrow> string \<Rightarrow> string list \<Rightarrow> state \<Rightarrow> (error + product) \<times> state" where
  "ProductService_linkCampaigns isValidMongoId pid campaignIds st =
     (if \<not> isValidMongoId pid then (Inl (Error ''Invalid product ID''), st)
      else
        case find (\<lambda>campaignId. \<not> isValidMongoId campaignId) campaignIds of
          Some campaignId \<Rightarrow> (Inl (Error (''Invalid campaign ID: '' @ campaignId)), st)
        | None \<Rightarrow>
            (case (new_ObjectId pid, cast_ids campaignIds) of
               (Some i, Some cs) \<Rightarrow>
                 (case ProductModel_findByIdAndUpdate i
                         (\<lambda>p. p\<lparr>campaigns := foldl (\<lambda>xs c. addToSet c xs) (campaigns p) cs\<rparr>) st of
                    (None, st1) \<Rightarrow> (Inl (Error ''Product not found''), st)
                  | (Some p, st1) \<Rightarrow>
                      (Inr p,
                       deleteCache (''product:'' @ pid) (deleteCache ''products:list:*'' st1)))
             | _ \<Rightarrow> (Inl (CastError ''Cast to ObjectId failed''), st)))"

definition ProductService_unlinkCampaign ::
  "(string \<Rightarrow> bool) \<Rightarrow> string \<Rightarrow> string \<Rightarrow> state \<Rightarrow> (error + product) \<times> state" where
  "ProductService_unlinkCampaign isValidMongoId pid campaignId st =
     (if \<not> isValidMongoId pid then (Inl (Error ''Invalid product ID''), st)
      else if \<not> isValidMongoId campaignId then (Inl (Error ''Invalid campaign ID''), st)
      else
        case (new_ObjectId pid, new_ObjectId campaignId) of
          (Some i, Some c) \<Rightarrow>
            (case ProductModel_findByIdAndUpdate i
                    (\<lambda>p. p\<lparr>campaigns := pull c (campaigns p)\<rparr>) st of
               (None, st1) \<Rightarrow> (Inl (Error ''Product not found''), st)
             | (Some p, st1) \<Rightarrow>
                 (Inr p, deleteCache (''product:'' @ pid) (deleteCache ''products:list:*'' st1)))
        | _ \<Rightarrow> (Inl (CastError ''Cast to ObjectId failed''), st))"

definition ProductService_linkOffers ::
  "(string \<Rightarrow> bool) \<Rightarrow> string \<Rightarrow> string list \<Rightarrow> state \<Rightarrow> (error + product) \<times> state" where
  "ProductService_linkOffers isValidMongoId pid offerIds st =
     (if \<not> isValidMongoId pid then (Inl (Error ''Invalid product ID''), st)
      else
        case find (\<lambda>offerId. \<not> isValidMongoId offerId) offerIds of
          Some offerId \<Rightarrow> (Inl (Error (''Invalid offer ID: '' @ offerId)), st)
        | None \<Rightarrow>
            (case (new_ObjectId pid, cast_ids offerIds) of
               (Some i, Some cs) \<Rightarrow>
                 (case ProductModel_findByIdAndUpdate i
                         (\<lambda>p. p\<lparr>offers := foldl (\<lambda>xs c. addToSet c xs) (offers p) cs\<rparr>) st of
                    (None, st1) \<Rightarrow> (Inl (Error ''Product not found''), st)
                  | (Some p, st1) \<Rightarrow>
                      (Inr p,
                       deleteCache (''product:'' @ pid) (deleteCache ''products:list:*'' st1)))
             | _ \<Rightarrow> (Inl (CastError ''Cast to ObjectId failed''), st)))"

definition ProductService_unlinkOffer ::
  "(string \<Rightarrow> bool) \<Rightarrow> string \<Rightarrow> string \<Rightarrow> state \<Rightarrow> (error + product) \<times> state" where
  "ProductService_unlinkOffer isValidMongoId pid offerId st =
     (if \<not> isValidMongoId pid then (Inl (Error ''Invalid product ID''), st)
      else if \<not> isValidMongoId offerId then (Inl (Error ''Invalid offer ID''), st)
      else
        case (new_ObjectId pid, new_ObjectId offerId) of
          (Some i, Some c) \<Rightarrow>
            (case ProductModel_findByIdAndUpdate i
                    (\<lambda>p. p\<lparr>offers := pull c (offers p)\<rparr>) st of
               (None, st1) \<Rightarrow> (Inl (Error ''Product not found''), st)
             | (Some p, st1) \<Rightarrow>
                 (Inr p, deleteCache (''product:'' @ pid) (deleteCache ''products:list:*'' st1)))
        | _ \<Rightarrow> (Inl (CastError ''Cast to ObjectId failed''), st))"

section \<open>BrandService\<close>

text \<open>
  The brand service takes its slugs from \<^verbatim>\<open>utils/generate-slug\<close>, which is not among the
  sources: it is the argument \<open>utilGenerateSlug\<close>. The brand schema has the setters of
  the product schema: \<^verbatim>\<open>trim\<close> on the name, \<^verbatim>\<open>lowercase\<close> and \<^verbatim>\<open>trim\<close> on the slug.
\<close>

definition BRAND_RESOURCE :: string where
  "BRAND_RESOURCE = ''brands''"

record brand_data =
  bd_name :: "string option"
  bd_slug :: "string option"
  bd_is_active :: "bool option"

definition brand_setters :: "brand_data \<Rightarrow> brand_data" where
  "brand_setters d =
     d\<lparr>bd_name := map_option trim (bd_name d), bd_slug := map_option slug_setters (bd_slug d)\<rparr>"

definition apply_brand_data :: "brand_data \<Rightarrow> brand \<Rightarrow> brand" where
  "apply_brand_data d b =
     b\<lparr>brand_name := or_else (bd_name d) (brand_name b),
       brand_slug := or_else (bd_slug d) (brand_slug b),
       brand_is_active := or_else (bd_is_active d) (brand_is_active b)\<rparr>"

definition BrandModel_findById :: "ObjectId \<Rightarrow> state \<Rightarrow> brand option" where
  "BrandModel_findById bid st = find (\<lambda>b. brand_id b = bid) (BrandModel st)"

text \<open>
  \<^verbatim>\<open>BrandModel.findOne({ name: data.name })\<close>: every stored brand has a name and a slug,
  so a filter on an absent value finds nothing; a value that is there goes through the
  setters.
\<close>

definition BrandModel_findOne_name :: "string option \<Rightarrow> state \<Rightarrow> brand option" where
  "BrandModel_findOne_name n st =
     (case n of None \<Rightarrow> None | Some v \<Rightarrow> find (\<lambda>b. brand_name b = trim v) (BrandModel st))"

definition BrandModel_findOne_slug :: "string option \<Rightarrow> state \<Rightarrow> brand option" where
  "BrandModel_findOne_slug n st =
     (case n of None \<Rightarrow> None
      | Some v \<Rightarrow> find (\<lambda>b. brand_slug b = slug_setters v) (BrandModel st))"

definition BrandModel_create ::
  "ObjectId \<Rightarrow> brand_data \<Rightarrow> state \<Rightarrow> error + (brand \<times> state)" where
  "BrandModel_create newId d st =
     (let data = brand_setters d
      in if \<not> (truthy (bd_name data) \<and> truthy (bd_slug data))
         then Inl (ValidationError ''Brand validation failed'')
         else if newId \<in> set (map brand_id (BrandModel st))
                 \<or> or_else (bd_name data) [] \<in> set (map brand_name (BrandModel st))
                 \<or> or_else (bd_slug data) [] \<in> set (map brand_slug (BrandModel st))
         then Inl (MongoServerError ''E11000 duplicate key error'')
         else
           let b = apply_brand_data data
                     \<lparr>brand_id = newId, brand_name = [], brand_slug = [], brand_is_active = True\<rparr>
           in Inr (b, st\<lparr>BrandModel := BrandModel st @ [b]\<rparr>))"

definition BrandService_getById ::
  "(string \<Rightarrow> bool) \<Rightarrow> string \<Rightarrow> string option \<Rightarrow> state \<Rightarrow> (error + payload) \<times> state" where
  "BrandService_getById isValidMongoId bid flds st =
     (if \<not> isValidMongoId bid then (Inl (BadRequest ''Invalid brand id''), st)
      else
        let cacheKey = generateCacheKey (BRAND_RESOURCE @ '':'' @ bid) (Some [(''fields'', flds)])
        in case getCache cacheKey st of
             Some cached \<Rightarrow> (Inr cached, st)
           | None \<Rightarrow>
               (case new_ObjectId bid of
                  None \<Rightarrow> (Inl (CastError ''Cast to ObjectId failed''), st)
                | Some i \<Rightarrow>
                    (case BrandModel_findById i st of
                       None \<Rightarrow> (Inl (NotFound ''Brand not found''), st)
                     | Some b \<Rightarrow> (Inr (BrandDoc b), setCache cacheKey (BrandDoc b) None st))))"

definition BrandService_create ::
  "(string \<Rightarrow> string) \<Rightarrow> ObjectId \<Rightarrow> brand_data \<Rightarrow> state \<Rightarrow> (error + ObjectId) \<times> state" where
  "BrandService_create utilGenerateSlug newId d st =
     (if BrandModel_findOne_name (bd_name d) st \<noteq> None
      then (Inl (Conflict ''Brand name already exists''), st)
      else
        let data =
              (if \<not> truthy (bd_slug d) \<and> truthy (bd_name d)
               then d\<lparr>bd_slug := Some (utilGenerateSlug (or_else (bd_name d) []))\<rparr>
               else d)
        in if BrandModel_findOne_slug (bd_slug data) st \<noteq> None
           then (Inl (Conflict ''Brand slug already exists''), st)
           else
             case BrandModel_create newId data st of
               Inl e \<Rightarrow> (Inl e, st)
             | Inr (b, st1) \<Rightarrow>
                 (Inr (brand_id b), deleteCache (generateCacheKey BRAND_RESOURCE None) st1))"

section \<open>Well-formed stores and test data\<close>

text \<open>
  The cart collection as the store keeps it: \<^verbatim>\<open>_id\<close> and \<^verbatim>\<open>user\<close> are unique and every
  stored cart has passed the schema validators.
\<close>

definition CartModel_ok :: "state \<Rightarrow> bool" where
  "CartModel_ok st \<longleftrightarrow>
     distinct (map cart_id (CartModel st)) \<and> distinct (map user (CartModel st))
     \<and> list_all cart_valid (CartModel st)"

text \<open>The store before any document is written.\<close>

definition empty_store :: state where
  "empty_store = \<lparr>BrandModel = [], ProductModel = [], CampaignModel = [], OfferModel = [],
                   CartModel = [], cache = []\<rparr>"

text \<open>
  Identifiers for the examples: the string of 24 hexadecimal digits that ends in the
  digits given, after zeros, and the \<^verbatim>\<open>ObjectId\<close> that it spells.
\<close>

definition sample_id :: "string \<Rightarrow> string" where
  "sample_id digits = replicate (24 - length digits) (CHR ''0'') @ digits"

definition sample_oid :: "string \<Rightarrow> ObjectId" where
  "sample_oid digits = ObjectId (sample_id digits)"

section \<open>Slugs as the specification words them\<close>

text \<open>
  The specification describes the derived slug as the name in lower case, with every
  run of non-alphanumeric characters collapsed to a single hyphen and leading and
  trailing hyphens stripped. \<open>spec_slug\<close> is that description. \<open>amended_slug\<close> is the
  description that the code meets for a name without underscore: the name in lower
  case, without the characters that are neither letter, digit, white space nor hyphen,
  with every run of white space and hyphens collapsed to a single hyphen and leading
  and trailing hyphens stripped. Letters and digits are those of \<^verbatim>\<open>[A-Za-z0-9]\<close>.
\<close>

definition is_alnum :: "char \<Rightarrow> bool" where
  "is_alnum c \<longleftrightarrow> is_lower c \<or> is_upper c \<or> is_digit c"

definition strip_hyphens :: "string \<Rightarrow> string" where
  "strip_hyphens s =
     rev (dropWhile (\<lambda>c. c = CHR ''-'') (rev (dropWhile (\<lambda>c. c = CHR ''-'') s)))"

definition spec_slug :: "string \<Rightarrow> string" where
  "spec_slug name' =
     strip_hyphens (replace_runs (\<lambda>c. \<not> is_alnum c) False (toLowerCase name'))"

definition amended_slug :: "string \<Rightarrow> string" where
  "amended_slug name' =
     strip_hyphens
       (replace_runs (\<lambda>c. is_space c \<or> c = CHR ''-'') False
          (filter (\<lambda>c. is_alnum c \<or> is_space c \<or> c = CHR ''-'') (toLowerCase name')))"

text \<open>
  A slug of lowercase alphanumerics and single interior hyphens, the form the request
  validation asks of a slug that is given: \<^verbatim>\<open>/^[a-z0-9]+(?:-[a-z0-9]+)*$/\<close>.
\<close>

fun single_hyphens :: "string \<Rightarrow> bool" where
  "single_hyphens (a # b # cs) \<longleftrightarrow> \<not> (a = CHR ''-'' \<and> b = CHR ''-'') \<and> single_hyphens (b # cs)"
| "single_hyphens cs \<longleftrightarrow> True"

definition url_friendly :: "string \<Rightarrow> bool" where
  "url_friendly s \<longleftrightarrow>
     s \<noteq> [] \<and> list_all (\<lambda>c. is_lower c \<or> is_digit c \<or> c = CHR ''-'') s
     \<and> hd s \<noteq> CHR ''-'' \<and> last s \<noteq> CHR ''-'' \<and> single_hyphens s"

text \<open>A product payload without a slug, for a name.\<close>

definition sample_product_data :: "string \<Rightarrow> product_data" where
  "sample_product_data n =
     \<lparr>pd_name = Some n, pd_slug = None, pd_description = Some ''d'',
      pd_category = Some (sample_id ''cc''), pd_brand = Some (sample_id ''b1''),
      pd_featured = None, pd_is_active = None, pd_variants = None\<rparr>"

section \<open>Error kinds and duplicates\<close>

text \<open>The kind of a failure, for results of any type.\<close>

definition is_Conflict :: "error + 'a \<Rightarrow> bool" where
  "is_Conflict r \<longleftrightarrow> (case r of Inl (Conflict m) \<Rightarrow> True | _ \<Rightarrow> False)"

definition is_NotFound :: "error + 'a \<Rightarrow> bool" where
  "is_NotFound r \<longleftrightarrow> (case r of Inl (NotFound m) \<Rightarrow> True | _ \<Rightarrow> False)"

text \<open>
  A brand payload duplicates a unique field when its name, as the store would keep it,
  is the name of a stored brand, or when its slug, the given one or the one derived
  from the name, as the store would keep it, is the slug of a stored brand; a product
  payload likewise, with a name and a slug that are not empty and the product's own
  \<open>generateSlug\<close>.
\<close>

definition brand_duplicate :: "(string \<Rightarrow> string) \<Rightarrow> brand_data \<Rightarrow> state \<Rightarrow> bool" where
  "brand_duplicate utilGenerateSlug d st \<longleftrightarrow>
     (\<exists>b \<in> set (BrandModel st). map_option trim (bd_name d) = Some (brand_name b))
     \<or> (\<exists>b \<in> set (BrandModel st).
           map_option slug_setters
             (if \<not> truthy (bd_slug d) \<and> truthy (bd_name d)
              then Some (utilGenerateSlug (or_else (bd_name d) []))
              else bd_slug d) = Some (brand_slug b))"

definition product_duplicate :: "product_data \<Rightarrow> state \<Rightarrow> bool" where
  "product_duplicate d st \<longleftrightarrow>
     (\<exists>p \<in> set (ProductModel st). truthy (pd_name d) \<and> map_option trim (pd_name d) = Some (name p))
     \<or> (\<exists>p \<in> set (ProductModel st).
           truthy (if \<not> truthy (pd_slug d) \<and> truthy (pd_name d)
                   then Some (generateSlug (or_else (pd_name d) []))
                   else pd_slug d)
           \<and> map_option slug_setters
               (if \<not> truthy (pd_slug d) \<and> truthy (pd_name d)
                then Some (generateSlug (or_else (pd_name d) []))
                else pd_slug d) = Some (slug p))"

text \<open>A brand payload, and a store with one brand and one product with one variant.\<close>

definition sample_brand_data :: brand_data where
  "sample_brand_data = \<lparr>bd_name = Some ''Acme'', bd_slug = None, bd_is_active = None\<rparr>"

definition sample_catalogue :: state where
  "sample_catalogue =
     empty_store
       \<lparr>BrandModel :=
          [\<lparr>brand_id = sample_oid ''b1'', brand_name = ''Acme'', brand_slug = ''acme'',
            brand_is_active = True\<rparr>],
        ProductModel :=
          [\<lparr>product_id = sample_oid ''a1'', name = ''a.b'', description = ''d'',
            category = sample_oid ''cc'', brand_ref = sample_oid ''b1'', slug = ''ab'',
            featured = False, is_active = True, campaigns = [], offers = [],
            variants = [\<lparr>sku = ''SKU1''\<rparr>]\<rparr>]\<rparr>"

section \<open>Sample queries\<close>

text \<open>Queries without parameters, and the payload that renames a product.\<close>

definition default_carts_query :: all_carts_query where
  "default_carts_query =
     \<lparr>ac_includeUser = None, ac_includeProduct = None, ac_fields = None,
      ac_page = None, ac_limit = None\<rparr>"

definition default_cart_query :: cart_query where
  "default_cart_query = \<lparr>cq_includeUser = None, cq_includeProduct = None, cq_fields = None\<rparr>"

definition rename_data :: product_data where
  "rename_data =
     \<lparr>pd_name = Some ''New'', pd_slug = None, pd_description = None, pd_category = None,
      pd_brand = None, pd_featured = None, pd_is_active = None, pd_variants = None\<rparr>"

section \<open>References between products and promotions\<close>

text \<open>
  A campaign lists product identifiers and a product lists campaign identifiers; the
  same holds for offers. Either relation is read off the state as two lists of an
  identifier with the identifiers it refers to: the promotions with their product
  lists, and the products with their reference sets. \<open>linked\<close> is the invariant that
  create and delete of the campaign and offer services keep: the identifiers of the
  promotions are distinct, a product refers to stored promotions only, and the two
  sides agree.
\<close>

type_synonym refs_view = "(ObjectId \<times> ObjectId list) list"

definition linked :: "refs_view \<Rightarrow> refs_view \<Rightarrow> bool" where
  "linked promos prods \<longleftrightarrow>
     distinct (map fst promos)
     \<and> (\<forall>(p, held) \<in> set prods.
           set held \<subseteq> set (map fst promos)
           \<and> (\<forall>(c, refs) \<in> set promos. p \<in> set refs \<longleftrightarrow> c \<in> set held))"

definition campaign_refs :: "state \<Rightarrow> refs_view" where
  "campaign_refs st = map (\<lambda>c. (campaign_id c, productsIds c)) (CampaignModel st)"

definition campaign_holders :: "state \<Rightarrow> refs_view" where
  "campaign_holders st = map (\<lambda>p. (product_id p, campaigns p)) (ProductModel st)"

definition offer_refs :: "state \<Rightarrow> refs_view" where
  "offer_refs st = map (\<lambda>c. (offer_id c, applicable_products c)) (OfferModel st)"

definition offer_holders :: "state \<Rightarrow> refs_view" where
  "offer_holders st = map (\<lambda>p. (product_id p, offers p)) (ProductModel st)"

definition references_ok :: "state \<Rightarrow> bool" where
  "references_ok st \<longleftrightarrow>
     linked (campaign_refs st) (campaign_holders st) \<and> linked (offer_refs st) (offer_holders st)"

text \<open>
  The references are bidirectional when, for every stored campaign and every stored
  product, the product is in the campaign's list exactly if the campaign is in the
  product's set, and likewise for offers.
\<close>

definition bidirectional :: "state \<Rightarrow> bool" where
  "bidirectional st \<longleftrightarrow>
     (\<forall>c \<in> set (CampaignModel st). \<forall>p \<in> set (ProductModel st).
        product_id p \<in> set (productsIds c) \<longleftrightarrow> campaign_id c \<in> set (campaigns p))
     \<and> (\<forall>c \<in> set (OfferModel st). \<forall>p \<in> set (ProductModel st).
        product_id p \<in> set (applicable_products c) \<longleftrightarrow> offer_id c \<in> set (offers p))"

text \<open>\<^verbatim>\<open>updateMany\<close> with an update of the reference set, seen on the product side.\<close>

definition updateMany_view ::
  "ObjectId list \<Rightarrow> (ObjectId list \<Rightarrow> ObjectId list) \<Rightarrow> refs_view \<Rightarrow> refs_view" where
  "updateMany_view ids f prods = map (\<lambda>(p, held). if p \<in> set ids then (p, f held) else (p, held)) prods"

text \<open>
  A store without promotions, and the operations that the claims on references speak
  of: create, update and delete of the campaign and offer services, and the four link
  operations of the product service. \<open>run\<close> performs a sequence of them, each on the
  state the one before has left. \<open>keeps_product_list\<close> picks the operations of the
  campaign and offer services that do not replace the product list of a promotion:
  create, delete, and an update whose payload has no product list, as that of
  \<^verbatim>\<open>updateStatus\<close>.
\<close>

definition no_promotions :: "state \<Rightarrow> bool" where
  "no_promotions st \<longleftrightarrow>
     CampaignModel st = [] \<and> OfferModel st = []
     \<and> (\<forall>p \<in> set (ProductModel st). campaigns p = [] \<and> offers p = [])"

datatype operation =
    CampaignCreate ObjectId campaign_data
  | CampaignUpdate string campaign_data
  | CampaignDelete string
  | OfferCreate ObjectId offer_data
  | OfferUpdate string offer_data
  | OfferDelete string
  | LinkCampaigns string "string list"
  | UnlinkCampaign string string
  | LinkOffers string "string list"
  | UnlinkOffer string string

fun perform :: "(string \<Rightarrow> bool) \<Rightarrow> operation \<Rightarrow> state \<Rightarrow> state" where
  "perform v (CampaignCreate newId d) st = snd (CampaignService_create newId d st)"
| "perform v (CampaignUpdate cid d) st = snd (CampaignService_update v cid d st)"
| "perform v (CampaignDelete cid) st = snd (CampaignService_delete v cid st)"
| "perform v (OfferCreate newId d) st = snd (OfferService_create newId d st)"
| "perform v (OfferUpdate oid d) st = snd (OfferService_update v oid d st)"
| "perform v (OfferDelete oid) st = snd (OfferService_delete v oid st)"
| "perform v (LinkCampaigns pid ids) st = snd (ProductService_linkCampaigns v pid ids st)"
| "perform v (UnlinkCampaign pid cid) st = snd (ProductService_unlinkCampaign v pid cid st)"
| "perform v (LinkOffers pid ids) st = snd (ProductService_linkOffers v pid ids st)"
| "perform v (UnlinkOffer pid oid) st = snd (ProductService_unlinkOffer v pid oid st)"

definition run :: "(string \<Rightarrow> bool) \<Rightarrow> operation list \<Rightarrow> state \<Rightarrow> state" where
  "run v ops st = foldl (\<lambda>s op. perform v op s) st ops"

fun keeps_product_list :: "operation \<Rightarrow> bool" where
  "keeps_product_list (CampaignCreate newId d) = True"
| "keeps_product_list (CampaignUpdate cid d) = (cd_productsIds d = None)"
| "keeps_product_list (CampaignDelete cid) = True"
| "keeps_product_list (OfferCreate newId d) = True"
| "keeps_product_list (OfferUpdate oid d) = (od_applicable_products d = None)"
| "keeps_product_list (OfferDelete oid) = True"
| "keeps_product_list (LinkCampaigns pid ids) = False"
| "keeps_product_list (UnlinkCampaign pid cid) = False"
| "keeps_product_list (LinkOffers pid ids) = False"
| "keeps_product_list (UnlinkOffer pid oid) = False"


text \<open>No product among \<open>refs\<close> holds \<open>cid\<close>; no product at all holds \<open>cid\<close>.\<close>

definition unlinked_from :: "ObjectId \<Rightarrow> ObjectId list \<Rightarrow> refs_view \<Rightarrow> bool" where
  "unlinked_from cid refs holders \<longleftrightarrow> (\<forall>(p, held) \<in> set holders. p \<in> set refs \<longrightarrow> cid \<notin> set held)"

definition unreferenced :: "ObjectId \<Rightarrow> refs_view \<Rightarrow> bool" where
  "unreferenced cid holders \<longleftrightarrow> (\<forall>(p, held) \<in> set holders. cid \<notin> set held)"

text \<open>A store of three products without promotions, and payloads with a product list.\<close>

definition sample_product :: "string \<Rightarrow> product" where
  "sample_product digits =
     \<lparr>product_id = sample_oid digits, name = digits, description = ''d'',
      category = sample_oid ''cc'', brand_ref = sample_oid ''b1'', slug = digits,
      featured = False, is_active = True, campaigns = [], offers = [], variants = []\<rparr>"

definition three_products :: state where
  "three_products =
     empty_store\<lparr>ProductModel := [sample_product ''a1'', sample_product ''a2'', sample_product ''a3'']\<rparr>"

definition promote :: "string list \<Rightarrow> campaign_data" where
  "promote ids = \<lparr>cd_is_active = None, cd_productsIds = Some ids\<rparr>"

definition offer_for :: "string list \<Rightarrow> offer_data" where
  "offer_for ids = \<lparr>od_is_active = None, od_applicable_products = Some ids\<rparr>"

section \<open>Lists and the document store\<close>

lemma update_first_as_list_update:
  "find P xs = Some e \<Longrightarrow>
     \<exists>k<length xs. xs ! k = e \<and> P e \<and> (\<forall>j<k. \<not> P (xs ! j)) \<and> update_first P f xs = xs[k := f e]"
proof (induction xs)
  case Nil
  then show ?case by simp
next
  case (Cons x xs)
  show ?case
  proof (cases "P x")
    case True
    with Cons.prems have "x = e" by simp
    with True show ?thesis by (intro exI[of _ 0]) simp
  next
    case False
    with Cons.prems have "find P xs = Some e" by simp
    from Cons.IH[OF this] obtain k where k: "k < length xs" "xs ! k = e" "P e"
      "\<forall>j<k. \<not> P (xs ! j)" "update_first P f xs = xs[k := f e]" by blast
    have "\<forall>j<Suc k. \<not> P ((x # xs) ! j)"
      using False k(4) by (auto simp: nth_Cons split: nat.splits)
    with k False show ?thesis by (intro exI[of _ "Suc k"]) simp
  qed
qed

lemma filter_update_first_length:
  "(\<And>x. Q (f x) = Q x) \<Longrightarrow> length (filter Q (update_first P f xs)) = length (filter Q xs)"
  by (induction xs) auto

lemma find_None_filter: "find P xs = None \<Longrightarrow> filter P xs = []"
  by (induction xs) (auto split: if_splits)

lemma find_Some_filter: "find P xs = Some e \<Longrightarrow> 1 \<le> length (filter P xs)"
  by (induction xs) (auto split: if_splits)

lemma find_in_set: "find P xs = Some x \<Longrightarrow> x \<in> set xs \<and> P x"
  by (auto simp: find_Some_iff)

lemma find_not_None_iff: "find P xs \<noteq> None \<longleftrightarrow> (\<exists>x \<in> set xs. P x)"
  by (induction xs) auto

lemma find_Some_ex_iff: "(\<exists>y. find P xs = Some y) \<longleftrightarrow> (\<exists>x \<in> set xs. P x)"
  by (induction xs) auto

text \<open>
  In a collection with unique \<open>key\<close> and unique \<open>owner\<close>, replacing the document with
  the key of \<open>c\<close> is replacing the document of the owner of \<open>c\<close>.
\<close>

lemma replace_by_key_is_replace_by_owner:
  assumes "distinct (map key cs)" "distinct (map owner cs)" "c \<in> set cs"
    and "key c' = key c"
  shows "update_first (\<lambda>d. key d = key c') (\<lambda>_. c') cs
       = map (\<lambda>d. if owner d = owner c then c' else d) cs"
  using assms(1,2,3)
proof (induction cs)
  case Nil
  then show ?case by simp
next
  case (Cons x xs)
  show ?case
  proof (cases "x = c")
    case True
    from Cons.prems(2) True have "owner c \<notin> owner ` set xs" by simp
    then have "\<forall>d \<in> set xs. owner d \<noteq> owner c" by (metis image_eqI)
    then have "map (\<lambda>d. if owner d = owner c then c' else d) xs = xs"
      by (simp add: map_idI)
    with True assms(4) show ?thesis by simp
  next
    case False
    with Cons.prems(3) have cin: "c \<in> set xs" by simp
    with Cons.prems(1,2) have "key x \<noteq> key c" "owner x \<noteq> owner c" by auto
    with Cons.IH cin Cons.prems(1,2) assms(4) show ?thesis by simp
  qed
qed

lemma toString_eq_iff [simp]: "toString a = toString b \<longleftrightarrow> a = b"
  by (cases a; cases b) simp

section \<open>Numbers\<close>

lemma Number_round_exact:
  assumes "0 \<le> x" "x < 2 ^ 53"
  shows "Number_round x = x"
proof (cases "x = 0")
  case True
  then show ?thesis by (simp add: Number_round_def)
next
  case False
  with assms have pos: "0 < x" by simp
  from bitlen_bounds[OF pos] have "(2::int) ^ nat (bitlen x - 1) \<le> x" by simp
  with assms(2) have lt: "(2::int) ^ nat (bitlen x - 1) < 2 ^ 53" by (rule le_less_trans[rotated])
  have "nat (bitlen x - 1) < 53" by (rule power_less_imp_less_exp[OF _ lt]) simp
  then have "nat (bitlen x - 53) = 0" by simp
  with pos show ?thesis by (simp add: Number_round_def Let_def)
qed

lemma Number_add_exact: "0 \<le> a + b \<Longrightarrow> a + b < 2 ^ 53 \<Longrightarrow> Number_add a b = a + b"
  by (simp add: Number_add_def Number_round_exact)

section \<open>CartService: items\<close>

lemma CartModel_save_found:
  assumes "CartModel_ok st" "find (\<lambda>c. user c = u) (CartModel st) = Some c" "cart_valid c'"
    "cart_id c' = cart_id c"
  shows "CartModel_save c' st
       = Inr (st\<lparr>CartModel := map (\<lambda>d. if user d = u then c' else d) (CartModel st)\<rparr>)"
proof -
  from find_in_set[OF assms(2)] have cin: "c \<in> set (CartModel st)" and cu: "user c = u"
    by simp_all
  from assms(1) have d: "distinct (map cart_id (CartModel st))" "distinct (map user (CartModel st))"
    by (simp_all add: CartModel_ok_def)
  from replace_by_key_is_replace_by_owner[OF d cin assms(4)] cu assms(3)
  show ?thesis by (simp add: CartModel_save_def)
qed

lemma CartModel_create_fresh:
  assumes "find (\<lambda>c. user c = u) (CartModel st) = None" "cart_valid c" "user c = u"
    "cart_id c \<notin> set (map cart_id (CartModel st))"
  shows "CartModel_create c st = Inr (c, st\<lparr>CartModel := CartModel st @ [c]\<rparr>)"
proof -
  from assms(1) have "u \<notin> set (map user (CartModel st))"
    by (auto simp: find_None_iff)
  with assms show ?thesis
    by (simp add: CartModel_create_def)
qed

text \<open>
  Claim C5, as amended. Let the user and product identifiers be valid, let \<open>userId\<close>
  spell the user \<open>u\<close> and let \<open>productId\<close> be the spelling that the store gives the
  product \<open>p\<close> (lower case). Let \<open>q\<close> be at least 1, as the schema asks, with every sum
  of a stored quantity and \<open>q\<close> below \<open>2^53\<close>. Then \<^verbatim>\<open>addItem\<close> succeeds, clears both cart
  cache prefixes, and writes exactly the cart of \<open>u\<close>. When that cart already holds an
  item of \<open>p\<close>, the first such item has its quantity increased by \<open>q\<close> and nothing else
  changes, so the number of items of \<open>p\<close> stays what it was; otherwise one item with
  quantity \<open>q\<close> is appended, and a user without a cart gets a cart with that single item.
  The instance below runs \<^verbatim>\<open>addItem(u1, p1, 2)\<close> and then \<^verbatim>\<open>addItem(u1, p1, 3)\<close> on the
  empty store and ends with one item of quantity 5.
\<close>

theorem addItem_increments_or_appends:
  assumes valid: "isValidMongoId userId" "isValidMongoId productId"
    and user: "new_ObjectId userId = Some u"
    and prod: "new_ObjectId productId = Some p" "toString p = productId"
    and q: "1 \<le> q"
    and ok: "CartModel_ok st"
    and safe: "\<forall>c \<in> set (CartModel st). \<forall>i \<in> set (items c). quantity i + q < 2 ^ 53"
    and fresh: "newCartId \<notin> set (map cart_id (CartModel st))"
  shows "\<exists>c'.
      CartService_addItem isValidMongoId newCartId newItemId userId productId q st
        = (Inr c',
           deleteCache (CART_RESOURCE @ '':all:*'')
             (deleteCache (CART_RESOURCE @ '':'' @ userId @ '':*'')
                (st\<lparr>CartModel :=
                      (case find (\<lambda>c. user c = u) (CartModel st) of
                         None \<Rightarrow> CartModel st @ [c']
                       | Some c \<Rightarrow> map (\<lambda>d. if user d = u then c' else d) (CartModel st))\<rparr>)))
    \<and> (case find (\<lambda>c. user c = u) (CartModel st) of
          None \<Rightarrow>
            c' = \<lparr>cart_id = newCartId, user = u,
                  items = [\<lparr>item_id = newItemId, product = p, quantity = q\<rparr>]\<rparr>
        | Some c \<Rightarrow>
            length (filter (\<lambda>i. product i = p) (items c'))
              = max 1 (length (filter (\<lambda>i. product i = p) (items c)))
          \<and> (case find (\<lambda>i. product i = p) (items c) of
                None \<Rightarrow>
                  c' = c\<lparr>items := items c @ [\<lparr>item_id = newItemId, product = p, quantity = q\<rparr>]\<rparr>
              | Some e \<Rightarrow>
                  (\<exists>k<length (items c). items c ! k = e
                     \<and> (\<forall>j<k. product (items c ! j) \<noteq> p)
                     \<and> c' = c\<lparr>items := (items c)[k := e\<lparr>quantity := quantity e + q\<rparr>]\<rparr>)))"
proof -
  have same: "(\<lambda>item. toString (product item) = productId) = (\<lambda>item. product item = p)"
    using prod(2) by auto
  show ?thesis
  proof (cases "find (\<lambda>c. user c = u) (CartModel st)")
    case None
    let ?c = "\<lparr>cart_id = newCartId, user = u,
               items = [\<lparr>item_id = newItemId, product = p, quantity = q\<rparr>]\<rparr>"
    have "cart_valid ?c" using q by (simp add: cart_valid_def)
    from CartModel_create_fresh[OF None this] fresh
    have "CartModel_create ?c st = Inr (?c, st\<lparr>CartModel := CartModel st @ [?c]\<rparr>)"
      by simp
    with None valid user prod show ?thesis
      by (simp add: CartService_addItem_def CartModel_findOne_def Let_def)
  next
    case (Some c)
    then have cin: "c \<in> set (CartModel st)" and cu: "user c = u"
      using find_in_set[of "\<lambda>c. user c = u" "CartModel st" c] by simp_all
    with ok have cv: "cart_valid c" by (simp add: CartModel_ok_def list_all_iff)
    show ?thesis
    proof (cases "find (\<lambda>i. product i = p) (items c)")
      case None
      let ?c' = "c\<lparr>items := items c @ [\<lparr>item_id = newItemId, product = p, quantity = q\<rparr>]\<rparr>"
      have "cart_valid ?c'" using cv q by (simp add: cart_valid_def)
      from CartModel_save_found[OF ok Some this]
      have "CartModel_save ?c' st
          = Inr (st\<lparr>CartModel := map (\<lambda>d. if user d = u then ?c' else d) (CartModel st)\<rparr>)"
        by simp
      with None Some valid user prod show ?thesis
        by (simp add: CartService_addItem_def CartModel_findOne_def same find_None_filter Let_def)
    next
      case (Some e)
      let ?g = "\<lambda>item. item\<lparr>quantity := Number_add (quantity item) q\<rparr>"
      let ?f = "\<lambda>item. item\<lparr>quantity := quantity item + q\<rparr>"
      let ?c' = "c\<lparr>items := update_first (\<lambda>item. product item = p) ?f (items c)\<rparr>"
      from update_first_as_list_update[OF Some, of ?g]
      obtain k where k: "k < length (items c)" "items c ! k = e"
        "\<forall>j<k. product (items c ! j) \<noteq> p"
        "update_first (\<lambda>item. product item = p) ?g (items c) = (items c)[k := ?g e]"
        by blast
      from k(1,2) have ein: "e \<in> set (items c)" by (auto simp: in_set_conv_nth)
      have e1: "1 \<le> quantity e" using cv ein by (auto simp: cart_valid_def list_all_iff)
      from safe cin ein have "quantity e + q < 2 ^ 53" by blast
      with e1 q have exact: "Number_add (quantity e) q = quantity e + q"
        by (intro Number_add_exact) simp_all
      with k(4) have upd: "update_first (\<lambda>item. product item = p) ?g (items c)
          = (items c)[k := e\<lparr>quantity := quantity e + q\<rparr>]"
        by simp
      let ?c'' = "c\<lparr>items := (items c)[k := e\<lparr>quantity := quantity e + q\<rparr>]\<rparr>"
      have "cart_valid ?c''"
        using cv q k e1 by (auto simp: cart_valid_def list_all_length nth_list_update)
      from CartModel_save_found[OF ok \<open>find (\<lambda>c. user c = u) (CartModel st) = Some c\<close> this]
      have sv: "CartModel_save ?c'' st
          = Inr (st\<lparr>CartModel := map (\<lambda>d. if user d = u then ?c'' else d) (CartModel st)\<rparr>)"
        by simp
      have "length (filter (\<lambda>i. product i = p) (update_first (\<lambda>item. product item = p) ?g (items c)))
          = length (filter (\<lambda>i. product i = p) (items c))"
        by (rule filter_update_first_length) simp
      with upd find_Some_filter[OF Some]
      have cnt: "length (filter (\<lambda>i. product i = p) (items ?c''))
          = max 1 (length (filter (\<lambda>i. product i = p) (items c)))"
        by simp
      have run: "CartService_addItem isValidMongoId newCartId newItemId userId productId q st
          = (Inr ?c'',
             deleteCache (CART_RESOURCE @ '':all:*'')
               (deleteCache (CART_RESOURCE @ '':'' @ userId @ '':*'')
                  (st\<lparr>CartModel := map (\<lambda>d. if user d = u then ?c'' else d) (CartModel st)\<rparr>)))"
        using valid user Some \<open>find (\<lambda>c. user c = u) (CartModel st) = Some c\<close> upd sv
        by (simp add: CartService_addItem_def CartModel_findOne_def same Let_def)
      have "\<exists>k<length (items c). items c ! k = e
              \<and> (\<forall>j<k. product (items c ! j) \<noteq> p)
              \<and> ?c'' = c\<lparr>items := (items c)[k := e\<lparr>quantity := quantity e + q\<rparr>]\<rparr>"
        using k by auto
      with run cnt Some \<open>find (\<lambda>c. user c = u) (CartModel st) = Some c\<close> show ?thesis
        by (intro exI[of _ ?c'']) simp
    qed
  qed
qed

theorem addItem_increments_or_appends_witness:
  "(\<lambda>s. s \<noteq> []) (sample_id ''01'') \<and> (\<lambda>s. s \<noteq> []) (sample_id ''a1'')
   \<and> new_ObjectId (sample_id ''01'') = Some (sample_oid ''01'')
   \<and> new_ObjectId (sample_id ''a1'') = Some (sample_oid ''a1'')
   \<and> toString (sample_oid ''a1'') = sample_id ''a1''
   \<and> (1::int) \<le> 3
   \<and> CartModel_ok (snd (CartService_addItem (\<lambda>s. s \<noteq> []) (sample_oid ''c1'') (sample_oid ''e1'')
        (sample_id ''01'') (sample_id ''a1'') 2 empty_store))
   \<and> sample_oid ''c2'' \<notin> set (map cart_id (CartModel (snd (CartService_addItem (\<lambda>s. s \<noteq> [])
        (sample_oid ''c1'') (sample_oid ''e1'') (sample_id ''01'') (sample_id ''a1'') 2 empty_store))))
   \<and> map items (CartModel (snd (CartService_addItem (\<lambda>s. s \<noteq> []) (sample_oid ''c2'')
        (sample_oid ''e2'') (sample_id ''01'') (sample_id ''a1'') 3
        (snd (CartService_addItem (\<lambda>s. s \<noteq> []) (sample_oid ''c1'') (sample_oid ''e1'')
          (sample_id ''01'') (sample_id ''a1'') 2 empty_store)))))
     = [[\<lparr>item_id = sample_oid ''e1'', product = sample_oid ''a1'', quantity = 5\<rparr>]]"
proof -
  let ?v = "\<lambda>s::string. s \<noteq> []"
  let ?st1 = "snd (CartService_addItem ?v (sample_oid ''c1'') (sample_oid ''e1'')
        (sample_id ''01'') (sample_id ''a1'') 2 empty_store)"
  let ?e = "\<lparr>item_id = sample_oid ''e1'', product = sample_oid ''a1'', quantity = 2\<rparr>"
  let ?c = "\<lparr>cart_id = sample_oid ''c1'', user = sample_oid ''01'', items = [?e]\<rparr>"
  have st1: "CartModel ?st1 = [?c]" by code_simp
  have v: "?v (sample_id ''01'')" "?v (sample_id ''a1'')" by (simp_all add: sample_id_def)
  have u: "new_ObjectId (sample_id ''01'') = Some (sample_oid ''01'')" by code_simp
  have p: "new_ObjectId (sample_id ''a1'') = Some (sample_oid ''a1'')" by code_simp
  have sp: "toString (sample_oid ''a1'') = sample_id ''a1''" by (simp add: sample_oid_def)
  have q: "(1::int) \<le> 3" by simp
  have ok: "CartModel_ok ?st1"
    unfolding CartModel_ok_def st1 by (simp add: cart_valid_def)
  have safe: "\<forall>c \<in> set (CartModel ?st1). \<forall>i \<in> set (items c). quantity i + 3 < 2 ^ 53"
    unfolding st1 by simp
  have ne: "sample_oid ''c2'' \<noteq> sample_oid ''c1''" by code_simp
  then have fresh: "sample_oid ''c2'' \<notin> set (map cart_id (CartModel ?st1))"
    unfolding st1 by simp
  have f1: "find (\<lambda>c. user c = sample_oid ''01'') (CartModel ?st1) = Some ?c"
    unfolding st1 by simp
  have f2: "find (\<lambda>i. product i = sample_oid ''a1'') (items ?c) = Some ?e" by simp
  from addItem_increments_or_appends[of ?v "sample_id ''01''" "sample_id ''a1''" "sample_oid ''01''"
      "sample_oid ''a1''" 3 ?st1 "sample_oid ''c2''" "sample_oid ''e2''", OF v u p sp q ok safe fresh]
  obtain c' where r: "CartService_addItem ?v (sample_oid ''c2'') (sample_oid ''e2'')
          (sample_id ''01'') (sample_id ''a1'') 3 ?st1
        = (Inr c',
           deleteCache (CART_RESOURCE @ '':all:*'')
             (deleteCache (CART_RESOURCE @ '':'' @ sample_id ''01'' @ '':*'')
                (?st1\<lparr>CartModel := map (\<lambda>d. if user d = sample_oid ''01'' then c' else d)
                     (CartModel ?st1)\<rparr>)))"
    and c: "\<exists>k<length (items ?c). items ?c ! k = ?e
              \<and> c' = ?c\<lparr>items := (items ?c)[k := ?e\<lparr>quantity := quantity ?e + 3\<rparr>]\<rparr>"
    unfolding f1 option.case f2 by blast
  from c have "items c' = [\<lparr>item_id = sample_oid ''e1'', product = sample_oid ''a1'', quantity = 5\<rparr>]"
    by auto
  with r have res: "map items (CartModel (snd (CartService_addItem ?v (sample_oid ''c2'')
        (sample_oid ''e2'') (sample_id ''01'') (sample_id ''a1'') 3 ?st1)))
     = [[\<lparr>item_id = sample_oid ''e1'', product = sample_oid ''a1'', quantity = 5\<rparr>]]"
    by (simp add: deleteCache_def st1)
  show ?thesis
    apply (intro conjI)
    apply (rule v(1))
    apply (rule v(2))
    apply (rule u)
    apply (rule p)
    apply (rule sp)
    apply (rule q)
    apply (rule ok)
    apply (rule fresh)
    apply (rule res)
    done
qed

text \<open>
  The claim as stated fails for a quantity below 1: \<^verbatim>\<open>addItem(u1, p1, 0)\<close> for a user
  without a cart is rejected by the validator of the schema, and no item with quantity
  0 is appended.
\<close>

theorem addItem_quantity_zero_counterexample:
  "CartService_addItem (\<lambda>s. s \<noteq> []) (sample_oid ''c1'') (sample_oid ''e1'')
      (sample_id ''01'') (sample_id ''a1'') 0 empty_store
     = (Inl (ValidationError ''Cart validation failed''), empty_store)"
  by code_simp

text \<open>
  The product of an item is compared as a string with \<open>productId\<close>. With the
  identifier of the product spelled in upper case, \<^verbatim>\<open>addItem\<close> finds no item of the
  product and pushes a second one.
\<close>

lemma addItem_upper_case_spelling:
  "new_ObjectId ''0000000000000000000000A1'' = new_ObjectId ''0000000000000000000000a1''
   \<and> map items (CartModel (snd (CartService_addItem (\<lambda>s. s \<noteq> []) (sample_oid ''c2'')
        (sample_oid ''e2'') (sample_id ''01'') ''0000000000000000000000A1'' 3
        (snd (CartService_addItem (\<lambda>s. s \<noteq> []) (sample_oid ''c1'') (sample_oid ''e1'')
          (sample_id ''01'') ''0000000000000000000000a1'' 2 empty_store)))))
     = [[\<lparr>item_id = sample_oid ''e1'', product = sample_oid ''a1'', quantity = 2\<rparr>,
         \<lparr>item_id = sample_oid ''e2'', product = sample_oid ''a1'', quantity = 3\<rparr>]]"
  by code_simp

text \<open>
  Claim C10, as amended. For a user whose cart holds an item with sub-identifier
  \<open>itemId\<close>, the first such item being at position \<open>k\<close>: \<^verbatim>\<open>updateItem\<close> with a quantity
  \<open>q\<close> of at least 1 succeeds, clears both cart cache prefixes and writes exactly the
  cart of the user, which is the old one with the quantity at position \<open>k\<close> overwritten
  by \<open>q\<close> (not added to) and every other item as before; with a quantity below 1 the
  validator of the schema rejects the cart and nothing is written.
\<close>

theorem updateItem_replaces_quantity:
  assumes valid: "isValidMongoId userId" "isValidMongoId itemId"
    and user: "new_ObjectId userId = Some u"
    and ok: "CartModel_ok st"
    and cart: "find (\<lambda>c. user c = u) (CartModel st) = Some c"
    and item: "itemId \<in> set (map (\<lambda>i. toString (item_id i)) (items c))"
  shows "\<exists>k<length (items c). toString (item_id (items c ! k)) = itemId
      \<and> (\<forall>j<k. toString (item_id (items c ! j)) \<noteq> itemId)
      \<and> (1 \<le> q \<longrightarrow>
           CartService_updateItem isValidMongoId userId itemId q st
             = (Inr (c\<lparr>items := (items c)[k := (items c ! k)\<lparr>quantity := q\<rparr>]\<rparr>),
                deleteCache (CART_RESOURCE @ '':all:*'')
                  (deleteCache (CART_RESOURCE @ '':'' @ userId @ '':*'')
                    (st\<lparr>CartModel :=
                          map (\<lambda>d. if user d = u
                                   then c\<lparr>items := (items c)[k := (items c ! k)\<lparr>quantity := q\<rparr>]\<rparr>
                                   else d) (CartModel st)\<rparr>))))
      \<and> (q < 1 \<longrightarrow>
           CartService_updateItem isValidMongoId userId itemId q st
             = (Inl (ValidationError ''Cart validation failed''), st))"
proof -
  from cart have cin: "c \<in> set (CartModel st)"
    using find_in_set[of "\<lambda>c. user c = u" "CartModel st" c] by simp
  with ok have cv: "cart_valid c" by (simp add: CartModel_ok_def list_all_iff)
  from item obtain e where e: "find (\<lambda>i. toString (item_id i) = itemId) (items c) = Some e"
    by (cases "find (\<lambda>i. toString (item_id i) = itemId) (items c)") (auto simp: find_None_iff)
  let ?f = "\<lambda>i. i\<lparr>quantity := q\<rparr>"
  from update_first_as_list_update[OF e, of ?f]
  obtain k where k: "k < length (items c)" "items c ! k = e" "toString (item_id e) = itemId"
    "\<forall>j<k. toString (item_id (items c ! j)) \<noteq> itemId"
    "update_first (\<lambda>i. toString (item_id i) = itemId) ?f (items c) = (items c)[k := ?f e]"
    by blast
  let ?c' = "c\<lparr>items := (items c)[k := (items c ! k)\<lparr>quantity := q\<rparr>]\<rparr>"
  have upd: "c\<lparr>items := update_first (\<lambda>i. toString (item_id i) = itemId) ?f (items c)\<rparr> = ?c'"
    using k by simp
  have good: "CartService_updateItem isValidMongoId userId itemId q st
             = (Inr ?c',
                deleteCache (CART_RESOURCE @ '':all:*'')
                  (deleteCache (CART_RESOURCE @ '':'' @ userId @ '':*'')
                    (st\<lparr>CartModel := map (\<lambda>d. if user d = u then ?c' else d) (CartModel st)\<rparr>)))"
    if q: "1 \<le> q"
  proof -
    have "cart_valid ?c'"
      using cv q k by (auto simp: cart_valid_def list_all_length nth_list_update)
    from CartModel_save_found[OF ok cart this]
    have "CartModel_save ?c' st
        = Inr (st\<lparr>CartModel := map (\<lambda>d. if user d = u then ?c' else d) (CartModel st)\<rparr>)"
      by simp
    with valid user cart e upd show ?thesis
      by (simp add: CartService_updateItem_def CartModel_findOne_def Let_def)
  qed
  have bad: "CartService_updateItem isValidMongoId userId itemId q st
             = (Inl (ValidationError ''Cart validation failed''), st)"
    if q: "q < 1"
  proof -
    have "(items ?c') ! k = (items c ! k)\<lparr>quantity := q\<rparr>" using k(1) by simp
    then have "\<not> 1 \<le> quantity ((items ?c') ! k)" using q by simp
    moreover have "k < length (items ?c')" using k(1) by simp
    ultimately have "\<not> cart_valid ?c'"
      unfolding cart_valid_def list_all_length by blast
    then have "CartModel_save ?c' st = Inl (ValidationError ''Cart validation failed'')"
      by (simp add: CartModel_save_def)
    with valid user cart e upd show ?thesis
      by (simp add: CartService_updateItem_def CartModel_findOne_def Let_def)
  qed
  show ?thesis
    using k(1,2,3,4) good bad by (intro exI[of _ k]) simp
qed

theorem updateItem_replaces_quantity_witness:
  "(\<lambda>s. s \<noteq> []) (sample_id ''01'') \<and> (\<lambda>s. s \<noteq> []) (sample_id ''e2'')
   \<and> new_ObjectId (sample_id ''01'') = Some (sample_oid ''01'')
   \<and> (1::int) \<le> 7 \<and> (0::int) < 1
   \<and> map items (CartModel (snd (CartService_updateItem (\<lambda>s. s \<noteq> []) (sample_id ''01'')
        (sample_id ''e2'') 7
        (empty_store\<lparr>CartModel := [\<lparr>cart_id = sample_oid ''c1'', user = sample_oid ''01'',
           items = [\<lparr>item_id = sample_oid ''e1'', product = sample_oid ''a1'', quantity = 2\<rparr>,
                    \<lparr>item_id = sample_oid ''e2'', product = sample_oid ''a2'', quantity = 4\<rparr>]\<rparr>]\<rparr>))))
      = [[\<lparr>item_id = sample_oid ''e1'', product = sample_oid ''a1'', quantity = 2\<rparr>,
          \<lparr>item_id = sample_oid ''e2'', product = sample_oid ''a2'', quantity = 7\<rparr>]]
   \<and> fst (CartService_updateItem (\<lambda>s. s \<noteq> []) (sample_id ''01'') (sample_id ''e2'') 0
        (empty_store\<lparr>CartModel := [\<lparr>cart_id = sample_oid ''c1'', user = sample_oid ''01'',
           items = [\<lparr>item_id = sample_oid ''e1'', product = sample_oid ''a1'', quantity = 2\<rparr>,
                    \<lparr>item_id = sample_oid ''e2'', product = sample_oid ''a2'', quantity = 4\<rparr>]\<rparr>]\<rparr>))
      = Inl (ValidationError ''Cart validation failed'')"
proof -
  let ?v = "\<lambda>s::string. s \<noteq> []"
  let ?e1 = "\<lparr>item_id = sample_oid ''e1'', product = sample_oid ''a1'', quantity = 2\<rparr>"
  let ?e2 = "\<lparr>item_id = sample_oid ''e2'', product = sample_oid ''a2'', quantity = 4\<rparr>"
  let ?c = "\<lparr>cart_id = sample_oid ''c1'', user = sample_oid ''01'', items = [?e1, ?e2]\<rparr>"
  let ?st = "empty_store\<lparr>CartModel := [?c]\<rparr>"
  have ok: "CartModel_ok ?st" by (simp add: CartModel_ok_def cart_valid_def)
  have cart: "find (\<lambda>c. user c = sample_oid ''01'') (CartModel ?st) = Some ?c" by simp
  have item: "sample_id ''e2'' \<in> set (map (\<lambda>i. toString (item_id i)) (items ?c))"
    by (simp add: sample_oid_def)
  have v: "?v (sample_id ''01'')" "?v (sample_id ''e2'')" by (simp_all add: sample_id_def)
  have u: "new_ObjectId (sample_id ''01'') = Some (sample_oid ''01'')" by code_simp
  have ne: "sample_id ''e1'' \<noteq> sample_id ''e2''" by code_simp
  have k1: "k = 1" if "k < length (items ?c)" "toString (item_id (items ?c ! k)) = sample_id ''e2''"
    for k using that ne by (cases k) (auto simp: sample_oid_def)
  from updateItem_replaces_quantity[of ?v "sample_id ''01''" "sample_id ''e2''" "sample_oid ''01''"
      ?st ?c 7, OF v u ok cart item]
  obtain k where k: "k < length (items ?c)" "toString (item_id (items ?c ! k)) = sample_id ''e2''"
    and r: "CartService_updateItem ?v (sample_id ''01'') (sample_id ''e2'') 7 ?st
             = (Inr (?c\<lparr>items := (items ?c)[k := (items ?c ! k)\<lparr>quantity := 7\<rparr>]\<rparr>),
                deleteCache (CART_RESOURCE @ '':all:*'')
                  (deleteCache (CART_RESOURCE @ '':'' @ sample_id ''01'' @ '':*'')
                    (?st\<lparr>CartModel :=
                          map (\<lambda>d. if user d = sample_oid ''01''
                                   then ?c\<lparr>items := (items ?c)[k := (items ?c ! k)\<lparr>quantity := 7\<rparr>]\<rparr>
                                   else d) (CartModel ?st)\<rparr>)))"
    by auto
  from k1[OF k] r have r7: "map items (CartModel (snd (CartService_updateItem ?v (sample_id ''01'')
        (sample_id ''e2'') 7 ?st)))
      = [[?e1, \<lparr>item_id = sample_oid ''e2'', product = sample_oid ''a2'', quantity = 7\<rparr>]]"
    by (simp add: deleteCache_def)
  from updateItem_replaces_quantity[of ?v "sample_id ''01''" "sample_id ''e2''" "sample_oid ''01''"
      ?st ?c 0, OF v u ok cart item]
  have r0: "fst (CartService_updateItem ?v (sample_id ''01'') (sample_id ''e2'') 0 ?st)
      = Inl (ValidationError ''Cart validation failed'')"
    by auto
  show ?thesis
    apply (intro conjI)
    apply (rule v(1))
    apply (rule v(2))
    apply (rule u)
    apply simp
    apply simp
    apply (rule r7)
    apply (rule r0)
    done
qed

text \<open>
  The claim as stated fails for a quantity below 1: \<^verbatim>\<open>updateItem(u1, i2, 0)\<close> is rejected
  by the validator of the schema, and the quantity of the item stays 4.
\<close>

theorem updateItem_quantity_zero_counterexample:
  "CartService_updateItem (\<lambda>s. s \<noteq> []) (sample_id ''01'') (sample_id ''e2'') 0
     (empty_store\<lparr>CartModel := [\<lparr>cart_id = sample_oid ''c1'', user = sample_oid ''01'',
        items = [\<lparr>item_id = sample_oid ''e1'', product = sample_oid ''a1'', quantity = 2\<rparr>,
                 \<lparr>item_id = sample_oid ''e2'', product = sample_oid ''a2'', quantity = 4\<rparr>]\<rparr>]\<rparr>)
   = (Inl (ValidationError ''Cart validation failed''),
      empty_store\<lparr>CartModel := [\<lparr>cart_id = sample_oid ''c1'', user = sample_oid ''01'',
        items = [\<lparr>item_id = sample_oid ''e1'', product = sample_oid ''a1'', quantity = 2\<rparr>,
                 \<lparr>item_id = sample_oid ''e2'', product = sample_oid ''a2'', quantity = 4\<rparr>]\<rparr>]\<rparr>)"
  by code_simp

section \<open>ProductService: derived slugs\<close>

lemma toLowerCase_char_not_upper: "\<not> is_upper (toLowerCase_char c)"
  by (simp add: toLowerCase_char_def capital_letters_def small_letters_def is_upper_def)

lemma toLowerCase_char_fixed:
  assumes "is_lower c \<or> is_digit c \<or> c = CHR ''-'' \<or> c = CHR ''_''"
  shows "toLowerCase_char c = c"
proof -
  have "list_all (\<lambda>c. toLowerCase_char c = c) ''abcdefghijklmnopqrstuvwxyz0123456789-_''"
    by code_simp
  then have "\<forall>x \<in> set ''abcdefghijklmnopqrstuvwxyz0123456789-_''. toLowerCase_char x = x"
    by (simp only: list_all_iff)
  moreover have "c \<in> set ''abcdefghijklmnopqrstuvwxyz0123456789-_''"
    using assms unfolding is_lower_def is_digit_def by auto
  ultimately show ?thesis by blast
qed

lemma toLowerCase_char_underscore: "toLowerCase_char c = CHR ''_'' \<Longrightarrow> c = CHR ''_''"
  by (simp add: toLowerCase_char_def capital_letters_def small_letters_def split: if_splits)

lemma set_replace_runs: "set (replace_runs P b s) \<subseteq> {c \<in> set s. \<not> P c} \<union> {CHR ''-''}"
  by (induction s arbitrary: b) auto

lemma replace_runs_keeps: "x \<in> set s \<Longrightarrow> \<not> P x \<Longrightarrow> x \<in> set (replace_runs P b s)"
  by (induction s arbitrary: b) auto

lemma single_hyphens_tl: "single_hyphens (c # cs) \<Longrightarrow> single_hyphens cs"
  by (cases cs) auto

lemma single_hyphens_replace_runs:
  assumes P: "P (CHR ''-'')"
  shows "single_hyphens (replace_runs P b s)
   \<and> (b \<longrightarrow> replace_runs P b s = [] \<or> hd (replace_runs P b s) \<noteq> CHR ''-'')"
proof (induction s arbitrary: b)
  case Nil
  then show ?case by simp
next
  case (Cons c cs)
  show ?case
  proof (cases "P c")
    case True
    from Cons.IH[of True] show ?thesis using True
      by (cases "replace_runs P True cs") auto
  next
    case False
    with P have "c \<noteq> CHR ''-''" by auto
    with Cons.IH[of False] show ?thesis using False
      by (cases "replace_runs P False cs") auto
  qed
qed

lemma single_hyphens_butlast: "single_hyphens s \<Longrightarrow> single_hyphens (butlast s)"
  by (induction s rule: single_hyphens.induct) (auto split: if_splits)

lemma single_hyphens_last:
  "single_hyphens s \<Longrightarrow> butlast s \<noteq> [] \<Longrightarrow> last s = CHR ''-'' \<Longrightarrow> last (butlast s) \<noteq> CHR ''-''"
  by (induction s rule: single_hyphens.induct) (auto split: if_splits)

lemma strip_hyphen_friendly:
  assumes "single_hyphens s" "strip_hyphen s \<noteq> []"
  shows "hd (strip_hyphen s) \<noteq> CHR ''-'' \<and> last (strip_hyphen s) \<noteq> CHR ''-''
         \<and> single_hyphens (strip_hyphen s) \<and> set (strip_hyphen s) \<subseteq> set s"
proof -
  define s1 where "s1 = (case s of [] \<Rightarrow> [] | c # cs \<Rightarrow> if c = CHR ''-'' then cs else s)"
  have r: "strip_hyphen s = (if s1 \<noteq> [] \<and> last s1 = CHR ''-'' then butlast s1 else s1)"
    by (simp add: strip_hyphen_def s1_def)
  have sh1: "single_hyphens s1"
    using assms(1) by (auto simp: s1_def split: list.splits dest: single_hyphens_tl)
  have hd1: "s1 \<noteq> [] \<Longrightarrow> hd s1 \<noteq> CHR ''-''"
    using assms(1) by (cases s; cases "tl s") (auto simp: s1_def split: if_splits)
  have sub1: "set s1 \<subseteq> set s"
    by (auto simp: s1_def split: list.splits if_splits)
  show ?thesis
  proof (cases "s1 \<noteq> [] \<and> last s1 = CHR ''-''")
    case True
    with r assms(2) have ne: "butlast s1 \<noteq> []" and eq: "strip_hyphen s = butlast s1" by auto
    have "hd (butlast s1) = hd s1" using ne by (cases s1) auto
    moreover have "set (butlast s1) \<subseteq> set s1" by (auto dest: in_set_butlastD)
    ultimately show ?thesis
      using True ne eq sh1 hd1 sub1 single_hyphens_last[of s1] single_hyphens_butlast[of s1]
      by auto
  next
    case False
    with r assms(2) have "strip_hyphen s = s1" "s1 \<noteq> []" by auto
    with False sh1 hd1 sub1 show ?thesis by auto
  qed
qed

lemma generateSlug_chars:
  "set (generateSlug n) \<subseteq> {c. is_lower c \<or> is_digit c \<or> c = CHR ''-'' \<or> c = CHR ''_''}"
  and generateSlug_no_underscore:
  "CHR ''_'' \<notin> set n \<Longrightarrow> CHR ''_'' \<notin> set (generateSlug n)"
  and generateSlug_shape:
  "generateSlug n \<noteq> [] \<Longrightarrow>
     hd (generateSlug n) \<noteq> CHR ''-'' \<and> last (generateSlug n) \<noteq> CHR ''-''
     \<and> single_hyphens (generateSlug n)"
proof -
  let ?s0 = "filter (\<lambda>c. is_word c \<or> is_space c \<or> c = CHR ''-'') (trim (toLowerCase n))"
  let ?s1 = "replace_runs is_space False ?s0"
  let ?s2 = "replace_runs (\<lambda>c. c = CHR ''-'') False ?s1"
  have g: "generateSlug n = strip_hyphen ?s2" by (simp add: generateSlug_def)
  have t: "set (trim (toLowerCase n)) \<subseteq> toLowerCase_char ` set n"
    by (auto simp: trim_def toLowerCase_def dest!: set_dropWhileD)
  then have s0: "set ?s0 \<subseteq> {c. is_lower c \<or> is_digit c \<or> c = CHR ''_'' \<or> is_space c \<or> c = CHR ''-''}"
    using toLowerCase_char_not_upper by (auto simp: is_word_def)
  have s1: "set ?s1 \<subseteq> {c. is_lower c \<or> is_digit c \<or> c = CHR ''_'' \<or> c = CHR ''-''}"
    using set_replace_runs[of is_space False ?s0] s0 by blast
  have s2: "set ?s2 \<subseteq> set ?s1 \<union> {CHR ''-''}"
    using set_replace_runs[of "\<lambda>c. c = CHR ''-''" False ?s1] by blast
  have st: "set (strip_hyphen ?s2) \<subseteq> set ?s2"
    by (auto simp: strip_hyphen_def Let_def split: list.splits if_splits dest: in_set_butlastD)
  from s1 s2 st show "set (generateSlug n) \<subseteq> {c. is_lower c \<or> is_digit c \<or> c = CHR ''-'' \<or> c = CHR ''_''}"
    unfolding g by blast
  show "CHR ''_'' \<notin> set (generateSlug n)" if "CHR ''_'' \<notin> set n"
  proof
    assume "CHR ''_'' \<in> set (generateSlug n)"
    with st s2 have "CHR ''_'' \<in> set ?s1" unfolding g by auto
    with set_replace_runs[of is_space False ?s0] have "CHR ''_'' \<in> set ?s0" by auto
    with t have "CHR ''_'' \<in> toLowerCase_char ` set n" by auto
    with that show False by (auto dest: toLowerCase_char_underscore[OF sym])
  qed
  show "hd (generateSlug n) \<noteq> CHR ''-'' \<and> last (generateSlug n) \<noteq> CHR ''-''
     \<and> single_hyphens (generateSlug n)" if "generateSlug n \<noteq> []"
    using strip_hyphen_friendly[of ?s2]
      single_hyphens_replace_runs[of "\<lambda>c. c = CHR ''-''" False ?s1] that
    unfolding g by blast
qed

lemma generateSlug_setters: "slug_setters (generateSlug n) = generateSlug n"
proof -
  have sp: "\<not> is_space c" if "c \<in> set (generateSlug n)" for c
    using generateSlug_chars[of n] that by (auto simp: is_space_def is_lower_def is_digit_def)
  have dw: "dropWhile is_space s = s" if "\<And>c. c \<in> set s \<Longrightarrow> \<not> is_space c" for s
    using that by (cases s) auto
  have "dropWhile is_space (generateSlug n) = generateSlug n"
    by (rule dw) (use sp in auto)
  moreover have "dropWhile is_space (rev (generateSlug n)) = rev (generateSlug n)"
    by (rule dw) (use sp in auto)
  ultimately have "trim (generateSlug n) = generateSlug n"
    by (simp add: trim_def)
  moreover have "toLowerCase (generateSlug n) = generateSlug n"
    unfolding toLowerCase_def
    by (rule map_idI) (use generateSlug_chars[of n] in \<open>auto intro: toLowerCase_char_fixed\<close>)
  ultimately show ?thesis by (simp add: slug_setters_def)
qed

text \<open>
  The two collapsing passes of \<open>generateSlug\<close>, white space first and hyphens after,
  are one pass over runs of white space and hyphens.
\<close>

lemma replace_runs_twice:
  "(b1 \<longrightarrow> b2) \<Longrightarrow>
   replace_runs (\<lambda>c. c = CHR ''-'') b2 (replace_runs S b1 xs)
     = replace_runs (\<lambda>c. S c \<or> c = CHR ''-'') b2 xs"
proof (induction xs arbitrary: b1 b2)
  case Nil
  then show ?case by simp
next
  case (Cons c cs)
  show ?case
  proof (cases "S c")
    case True
    with Cons.prems Cons.IH[of True True] show ?thesis by simp
  next
    case False
    show ?thesis
    proof (cases "c = CHR ''-''")
      case True
      with False Cons.IH[of False True] show ?thesis by simp
    next
      case False
      with \<open>\<not> S c\<close> Cons.IH[of False False] show ?thesis by simp
    qed
  qed
qed

text \<open>Dropping at the end of a list, and dropping at both ends.\<close>

lemma drop_end_Cons:
  "rev (dropWhile P (rev (c # cs)))
     = (if (\<forall>x \<in> set cs. P x) \<and> P c then [] else c # rev (dropWhile P (rev cs)))"
  by (simp add: dropWhile_append)

lemma drop_ends_commute:
  "rev (dropWhile P (rev (dropWhile P z))) = dropWhile P (rev (dropWhile P (rev z)))"
proof (induction z)
  case Nil
  then show ?case by simp
next
  case (Cons c cs)
  show ?case
  proof (cases "P c")
    case True
    show ?thesis
    proof (cases "\<forall>x \<in> set cs. P x")
      case all: True
      then have "dropWhile P cs = []" by (simp add: dropWhile_eq_Nil_conv)
      with True all show ?thesis by (auto simp: dropWhile_append dest: set_dropWhileD)
    next
      case False
      with True Cons.IH show ?thesis by (auto simp: dropWhile_append)
    qed
  next
    case False
    then show ?thesis by (simp add: dropWhile_append)
  qed
qed

lemma dropWhile_replace_runs:
  assumes P: "P (CHR ''-'')"
  shows "dropWhile (\<lambda>c. c = CHR ''-'') (replace_runs P b xs) = replace_runs P False (dropWhile P xs)"
proof (induction xs arbitrary: b)
  case Nil
  then show ?case by simp
next
  case (Cons c cs)
  show ?case
  proof (cases "P c")
    case True
    with Cons.IH[of True] show ?thesis by simp
  next
    case False
    with P have "c \<noteq> CHR ''-''" by auto
    with False show ?thesis by simp
  qed
qed

lemma drop_end_replace_runs:
  assumes P: "P (CHR ''-'')"
  shows "rev (dropWhile (\<lambda>c. c = CHR ''-'') (rev (replace_runs P b xs)))
           = replace_runs P b (rev (dropWhile P (rev xs)))"
proof (induction xs arbitrary: b)
  case Nil
  then show ?case by simp
next
  case (Cons c cs)
  show ?case
  proof (cases "P c")
    case Pc: True
    show ?thesis
    proof (cases "\<forall>x \<in> set cs. P x")
      case all: True
      then have e: "rev (dropWhile P (rev cs)) = []" by simp
      from all have "set (replace_runs P True cs) \<subseteq> {CHR ''-''}"
        using set_replace_runs[of P True cs] by auto
      then have "\<forall>x \<in> set (replace_runs P True cs). x = CHR ''-''" by auto
      then have "rev (dropWhile (\<lambda>c. c = CHR ''-'') (rev (CHR ''-'' # replace_runs P True cs))) = []"
        "rev (dropWhile (\<lambda>c. c = CHR ''-'') (rev (replace_runs P True cs))) = []"
        by (simp_all add: drop_end_Cons)
      with Pc all show ?thesis by (simp add: drop_end_Cons del: rev.simps)
    next
      case False
      then obtain x where x: "x \<in> set cs" "\<not> P x" by auto
      with P have "x \<noteq> CHR ''-''" by auto
      with replace_runs_keeps[of x cs P True, OF x]
      have n: "\<not> (\<forall>x \<in> set (replace_runs P True cs). x = CHR ''-'')" by auto
      from Pc False n Cons.IH[of True] show ?thesis
        by (auto simp: drop_end_Cons simp del: rev.simps)
    qed
  next
    case False
    with P have "c \<noteq> CHR ''-''" by auto
    with False Cons.IH[of False] show ?thesis
      by (simp add: drop_end_Cons del: rev.simps)
  qed
qed

lemma strip_hyphens_replace_runs:
  assumes P: "P (CHR ''-'')"
  shows "strip_hyphens (replace_runs P b xs)
           = replace_runs P False (rev (dropWhile P (rev (dropWhile P xs))))"
  by (simp add: strip_hyphens_def dropWhile_replace_runs[of P, OF P] drop_end_replace_runs[of P, OF P])

lemma strip_hyphen_single:
  assumes sh: "single_hyphens t"
  shows "strip_hyphen t = strip_hyphens t"
proof -
  define s1 where "s1 = (case t of [] \<Rightarrow> [] | c # cs \<Rightarrow> if c = CHR ''-'' then cs else t)"
  have r: "strip_hyphen t = (if s1 \<noteq> [] \<and> last s1 = CHR ''-'' then butlast s1 else s1)"
    by (simp add: strip_hyphen_def s1_def)
  have sh1: "single_hyphens s1"
    using sh by (auto simp: s1_def split: list.splits dest: single_hyphens_tl)
  have d: "dropWhile (\<lambda>c. c = CHR ''-'') t = s1"
    using sh by (cases t; cases "tl t") (auto simp: s1_def)
  have e: "rev (dropWhile (\<lambda>c. c = CHR ''-'') (rev s1))
             = (if s1 \<noteq> [] \<and> last s1 = CHR ''-'' then butlast s1 else s1)"
  proof (cases s1 rule: rev_cases)
    case Nil
    then show ?thesis by simp
  next
    case (snoc ys y)
    show ?thesis
    proof (cases "y = CHR ''-''")
      case True
      have "ys = [] \<or> last ys \<noteq> CHR ''-''"
        using single_hyphens_last[OF sh1] snoc True by auto
      then have "dropWhile (\<lambda>c. c = CHR ''-'') (rev ys) = rev ys"
        by (cases ys rule: rev_cases) auto
      with snoc True show ?thesis by simp
    next
      case False
      with snoc show ?thesis by simp
    qed
  qed
  show ?thesis unfolding r strip_hyphens_def d e ..
qed

lemma dropWhile_filter_dropWhile:
  assumes "\<And>c. S c \<Longrightarrow> F c \<and> P c"
  shows "dropWhile P (filter F (dropWhile S s)) = dropWhile P (filter F s)"
  using assms by (induction s) auto

lemma drop_end_filter_drop_end:
  assumes "\<And>c. S c \<Longrightarrow> F c \<and> P c"
  shows "rev (dropWhile P (rev (filter F (rev (dropWhile S (rev s))))))
           = rev (dropWhile P (rev (filter F s)))"
  using dropWhile_filter_dropWhile[of S F P "rev s", OF assms] by (simp add: rev_filter)

lemma drop_ends_filter_trim:
  assumes SF: "\<And>c. is_space c \<Longrightarrow> F c \<and> P c"
  shows "rev (dropWhile P (rev (dropWhile P (filter F (trim s)))))
           = rev (dropWhile P (rev (dropWhile P (filter F s))))"
proof -
  let ?u = "dropWhile is_space s"
  have "rev (dropWhile P (rev (dropWhile P (filter F (trim s)))))
          = dropWhile P (rev (dropWhile P (rev (filter F (rev (dropWhile is_space (rev ?u)))))))"
    by (simp add: drop_ends_commute trim_def)
  also have "\<dots> = dropWhile P (rev (dropWhile P (rev (filter F ?u))))"
    by (simp only: drop_end_filter_drop_end[of is_space F P ?u, OF SF])
  also have "\<dots> = rev (dropWhile P (rev (dropWhile P (filter F ?u))))"
    by (simp add: drop_ends_commute)
  also have "\<dots> = rev (dropWhile P (rev (dropWhile P (filter F s))))"
    by (simp only: dropWhile_filter_dropWhile[of is_space F P s, OF SF])
  finally show ?thesis .
qed

text \<open>
  For a name without underscore, \<open>generateSlug\<close> is the description of
  \<open>amended_slug\<close>.
\<close>

lemma generateSlug_amended:
  assumes u: "CHR ''_'' \<notin> set n"
  shows "generateSlug n = amended_slug n"
proof -
  let ?W = "\<lambda>c. is_word c \<or> is_space c \<or> c = CHR ''-''"
  let ?A = "\<lambda>c. is_alnum c \<or> is_space c \<or> c = CHR ''-''"
  let ?SH = "\<lambda>c. is_space c \<or> c = CHR ''-''"
  have P: "?SH (CHR ''-'')" by simp
  have SF: "\<And>c. is_space c \<Longrightarrow> ?W c \<and> ?SH c" by simp
  have low: "CHR ''_'' \<notin> set (toLowerCase n)"
    using u by (auto simp: toLowerCase_def dest: toLowerCase_char_underscore[OF sym])
  have WA: "filter ?W (toLowerCase n) = filter ?A (toLowerCase n)"
    by (rule filter_cong) (use low in \<open>auto simp: is_word_def is_alnum_def\<close>)
  have "generateSlug n
          = strip_hyphen (replace_runs ?SH False (filter ?W (trim (toLowerCase n))))"
    by (simp add: generateSlug_def replace_runs_twice[of False False is_space])
  also have "\<dots> = strip_hyphens (replace_runs ?SH False (filter ?W (trim (toLowerCase n))))"
    by (rule strip_hyphen_single) (use single_hyphens_replace_runs[of ?SH False, OF P] in blast)
  also have "\<dots> = replace_runs ?SH False
        (rev (dropWhile ?SH (rev (dropWhile ?SH (filter ?W (trim (toLowerCase n)))))))"
    by (rule strip_hyphens_replace_runs[of ?SH, OF P])
  also have "\<dots> = replace_runs ?SH False
        (rev (dropWhile ?SH (rev (dropWhile ?SH (filter ?W (toLowerCase n))))))"
    by (simp only: drop_ends_filter_trim[of ?W ?SH, OF SF])
  also have "\<dots> = strip_hyphens (replace_runs ?SH False (filter ?W (toLowerCase n)))"
    by (rule strip_hyphens_replace_runs[of ?SH, OF P, symmetric])
  also have "\<dots> = amended_slug n"
    by (simp only: amended_slug_def WA)
  finally show ?thesis .
qed

text \<open>
  Claim C8, as amended. When \<^verbatim>\<open>create\<close> gets a payload without a slug and with a name
  that has no underscore, and stores a product, the stored slug is the name in lower
  case, without the characters that are neither letter, digit, white space nor hyphen
  (they are deleted, not turned into a hyphen), with every run of white space and
  hyphens collapsed to a single hyphen and leading and trailing hyphens stripped; it
  consists of lowercase alphanumerics and single interior hyphens only.
\<close>

theorem create_stores_derived_slug:
  assumes "\<not> truthy (pd_slug d)" and "pd_name d = Some n" and "CHR ''_'' \<notin> set n"
    and "ProductService_create newId d st = (Inr p, st')"
  shows "slug p = amended_slug n \<and> ProductModel st' = ProductModel st @ [p]
       \<and> url_friendly (slug p)"
proof -
  let ?data = "d\<lparr>pd_slug := Some (generateSlug n)\<rparr>"
  have nn: "n \<noteq> []"
  proof
    assume "n = []"
    with assms(1,2) have "ProductModel_create newId d st = Inl (ValidationError ''Product validation failed'')"
      by (simp add: ProductModel_create_def product_setters_def truthy_def trim_def)
    with assms \<open>n = []\<close> show False
      by (auto simp: ProductService_create_def truthy_def or_else_def split: if_splits)
  qed
  with assms obtain st1 where c: "ProductModel_create newId ?data st = Inr (p, st1)"
    by (auto simp: ProductService_create_def truthy_def or_else_def Let_def
        split: if_splits sum.splits)
  then have sl: "slug p = generateSlug n" and ne: "generateSlug n \<noteq> []"
    and st1: "ProductModel st1 = ProductModel st @ [p]"
    by (auto simp: ProductModel_create_def product_setters_def generateSlug_setters
        apply_product_data_def or_else_def truthy_def Let_def split: if_splits)
  have st': "st' = deleteCache ''products:list:*'' st1"
    using assms nn c
    by (auto simp: ProductService_create_def truthy_def or_else_def Let_def split: if_splits)
  have chars: "list_all (\<lambda>c. is_lower c \<or> is_digit c \<or> c = CHR ''-'' \<or> c = CHR ''_'') (generateSlug n)"
    using generateSlug_chars[of n] by (auto simp: list_all_iff)
  have uf: "url_friendly (generateSlug n)"
    using generateSlug_no_underscore[OF assms(3)] generateSlug_shape[OF ne] ne chars
    by (auto simp: url_friendly_def list_all_iff)
  show ?thesis
    using sl st1 st' uf generateSlug_amended[OF assms(3)]
    by (simp add: deleteCache_def)
qed

theorem create_stores_derived_slug_witness:
  "\<not> truthy (pd_slug (sample_product_data ''  Blue  Shirt - XL! ''))
   \<and> pd_name (sample_product_data ''  Blue  Shirt - XL! '') = Some ''  Blue  Shirt - XL! ''
   \<and> CHR ''_'' \<notin> set ''  Blue  Shirt - XL! ''
   \<and> map_sum id slug (fst (ProductService_create (sample_oid ''a1'')
        (sample_product_data ''  Blue  Shirt - XL! '') empty_store)) = Inr ''blue-shirt-xl''
   \<and> amended_slug ''  Blue  Shirt - XL! '' = ''blue-shirt-xl''
   \<and> url_friendly ''blue-shirt-xl''"
proof -
  let ?n = "''  Blue  Shirt - XL! ''"
  let ?p = "\<lparr>product_id = sample_oid ''a1'', name = ''Blue  Shirt - XL!'', description = ''d'',
         category = sample_oid ''cc'', brand_ref = sample_oid ''b1'', slug = ''blue-shirt-xl'',
         featured = False, is_active = True, campaigns = [], offers = [],
         variants = []\<rparr>"
  have run: "ProductService_create (sample_oid ''a1'') (sample_product_data ?n) empty_store
      = (Inr ?p, empty_store\<lparr>ProductModel := [?p]\<rparr>)"
    by code_simp
  have h: "\<not> truthy (pd_slug (sample_product_data ?n))" "pd_name (sample_product_data ?n) = Some ?n"
    by (simp_all add: sample_product_data_def truthy_def)
  have u: "CHR ''_'' \<notin> set ?n" by simp
  from create_stores_derived_slug[OF h u run]
  have "slug ?p = amended_slug ?n" "url_friendly (slug ?p)" by blast+
  with h u run show ?thesis by simp
qed

text \<open>
  The claim as stated fails: punctuation is deleted, not turned into a hyphen, so the
  name \<^verbatim>\<open>a.b\<close> is stored with the slug \<^verbatim>\<open>ab\<close> where the description gives \<^verbatim>\<open>a-b\<close>.
\<close>

theorem create_slug_differs_from_spec_counterexample:
  "map_sum id slug (fst (ProductService_create (sample_oid ''a1'') (sample_product_data ''a.b'')
      empty_store)) = Inr ''ab''
   \<and> spec_slug ''a.b'' = ''a-b''"
  by code_simp

text \<open>An underscore of the name stays in the slug, which then is not of the form asked.\<close>

lemma generateSlug_keeps_underscore:
  "generateSlug ''a_b'' = ''a_b'' \<and> \<not> url_friendly ''a_b''"
  by code_simp

section \<open>Duplicates of unique fields\<close>

text \<open>
  Claim C6, as amended. A create whose payload duplicates a unique field of a stored
  record fails before anything is written: the state it returns is the state it was
  given. \<^verbatim>\<open>BrandService.create\<close> fails with \<^verbatim>\<open>Conflict\<close>; \<^verbatim>\<open>ProductService.create\<close>, and
  \<^verbatim>\<open>ProductService.addVariant\<close> for a SKU that some stored variant has, fail with a plain
  \<^verbatim>\<open>Error\<close>.
\<close>

theorem duplicate_create_fails_store_unchanged:
  "(brand_duplicate utilGenerateSlug bd st \<longrightarrow>
      (\<exists>m. BrandService_create utilGenerateSlug newId bd st = (Inl (Conflict m), st)))
   \<and> (product_duplicate pd st \<longrightarrow>
      (\<exists>m. ProductService_create newId pd st = (Inl (Error m), st)))
   \<and> (sku v \<in> set (all_skus st) \<longrightarrow>
      (\<exists>m. ProductService_addVariant isValidMongoId pid v st = (Inl (Error m), st)))"
proof (intro conjI impI)
  let ?slug = "if \<not> truthy (bd_slug bd) \<and> truthy (bd_name bd)
               then Some (utilGenerateSlug (or_else (bd_name bd) []))
               else bd_slug bd"
  assume "brand_duplicate utilGenerateSlug bd st"
  then have dup: "(\<exists>b \<in> set (BrandModel st). map_option trim (bd_name bd) = Some (brand_name b))
     \<or> (\<exists>b \<in> set (BrandModel st). map_option slug_setters ?slug = Some (brand_slug b))"
    by (simp add: brand_duplicate_def)
  show "\<exists>m. BrandService_create utilGenerateSlug newId bd st = (Inl (Conflict m), st)"
  proof (cases "BrandModel_findOne_name (bd_name bd) st \<noteq> None")
    case True
    then show ?thesis by (simp add: BrandService_create_def)
  next
    case False
    then have "\<not> (\<exists>b \<in> set (BrandModel st). map_option trim (bd_name bd) = Some (brand_name b))"
      by (auto simp: BrandModel_findOne_name_def find_None_iff split: option.splits)
    with dup obtain b where b: "b \<in> set (BrandModel st)"
      "map_option slug_setters ?slug = Some (brand_slug b)"
      by blast
    then have "BrandModel_findOne_slug
        (bd_slug (if \<not> truthy (bd_slug bd) \<and> truthy (bd_name bd)
                  then bd\<lparr>bd_slug := Some (utilGenerateSlug (or_else (bd_name bd) []))\<rparr>
                  else bd)) st \<noteq> None"
      by (auto simp: BrandModel_findOne_slug_def find_not_None_iff find_Some_ex_iff split: if_splits)
    with False show ?thesis by (simp add: BrandService_create_def Let_def)
  qed
next
  let ?slug = "if \<not> truthy (pd_slug pd) \<and> truthy (pd_name pd)
               then Some (generateSlug (or_else (pd_name pd) []))
               else pd_slug pd"
  let ?data = "if \<not> truthy (pd_slug pd) \<and> truthy (pd_name pd)
               then pd\<lparr>pd_slug := Some (generateSlug (or_else (pd_name pd) []))\<rparr>
               else pd"
  assume "product_duplicate pd st"
  then have dup:
    "(\<exists>p \<in> set (ProductModel st). truthy (pd_name pd) \<and> map_option trim (pd_name pd) = Some (name p))
     \<or> (\<exists>p \<in> set (ProductModel st).
           truthy ?slug \<and> map_option slug_setters ?slug = Some (slug p))"
    by (simp add: product_duplicate_def)
  have nm: "pd_name ?data = pd_name pd" by simp
  have sl: "pd_slug ?data = ?slug" by simp
  show "\<exists>m. ProductService_create newId pd st = (Inl (Error m), st)"
  proof (cases "truthy (pd_slug ?data)
            \<and> ProductModel_findOne_slug (or_else (pd_slug ?data) []) st \<noteq> None")
    case True
    then show ?thesis by (simp add: ProductService_create_def Let_def)
  next
    case False
    then have "\<not> (\<exists>p \<in> set (ProductModel st).
           truthy ?slug \<and> map_option slug_setters ?slug = Some (slug p))"
      unfolding sl ProductModel_findOne_slug_def find_not_None_iff
      by (cases ?slug) (auto simp: or_else_def)
    with dup obtain p where "p \<in> set (ProductModel st)" "truthy (pd_name pd)"
      "map_option trim (pd_name pd) = Some (name p)"
      by blast
    then have "truthy (pd_name ?data)
          \<and> ProductModel_findOne_name (or_else (pd_name ?data) []) st \<noteq> None"
      unfolding nm ProductModel_findOne_name_def find_not_None_iff
      by (cases "pd_name pd") (auto simp: or_else_def)
    with False show ?thesis by (simp add: ProductService_create_def Let_def)
  qed
next
  assume "sku v \<in> set (all_skus st)"
  then have "\<exists>p \<in> set (ProductModel st). sku v \<in> set (map sku (variants p))"
    by (auto simp: all_skus_def)
  then have "find (\<lambda>p. sku v \<in> set (map sku (variants p))) (ProductModel st) \<noteq> None"
    unfolding find_not_None_iff .
  then show "\<exists>m. ProductService_addVariant isValidMongoId pid v st = (Inl (Error m), st)"
    unfolding ProductService_addVariant_def by (simp del: set_map)
qed

theorem duplicate_create_fails_store_unchanged_witness:
  "brand_duplicate (\<lambda>n. n) sample_brand_data sample_catalogue
   \<and> is_Conflict (fst (BrandService_create (\<lambda>n. n) (sample_oid ''b2'') sample_brand_data
        sample_catalogue))
   \<and> snd (BrandService_create (\<lambda>n. n) (sample_oid ''b2'') sample_brand_data sample_catalogue)
       = sample_catalogue
   \<and> product_duplicate (sample_product_data ''a.b'') sample_catalogue
   \<and> snd (ProductService_create (sample_oid ''a2'') (sample_product_data ''a.b'') sample_catalogue)
       = sample_catalogue
   \<and> sku \<lparr>sku = ''SKU1''\<rparr> \<in> set (all_skus sample_catalogue)
   \<and> snd (ProductService_addVariant (\<lambda>s. s \<noteq> []) (sample_id ''a1'') \<lparr>sku = ''SKU1''\<rparr>
        sample_catalogue)
       = sample_catalogue"
proof -
  have b: "brand_duplicate (\<lambda>n. n) sample_brand_data sample_catalogue" by code_simp
  have p: "product_duplicate (sample_product_data ''a.b'') sample_catalogue" by code_simp
  have v: "sku \<lparr>sku = ''SKU1''\<rparr> \<in> set (all_skus sample_catalogue)" by code_simp
  note t = duplicate_create_fails_store_unchanged[of "\<lambda>n. n" sample_brand_data sample_catalogue
      "sample_oid ''b2''" "sample_product_data ''a.b''" "\<lparr>sku = ''SKU1''\<rparr>" "\<lambda>s. s \<noteq> []"
      "sample_id ''a1''"]
  from t b obtain m1 where
    "BrandService_create (\<lambda>n. n) (sample_oid ''b2'') sample_brand_data sample_catalogue
       = (Inl (Conflict m1), sample_catalogue)" by blast
  moreover from t v obtain m3 where
    "ProductService_addVariant (\<lambda>s. s \<noteq> []) (sample_id ''a1'') \<lparr>sku = ''SKU1''\<rparr> sample_catalogue
       = (Inl (Error m3), sample_catalogue)" by blast
  moreover from
    duplicate_create_fails_store_unchanged[of "\<lambda>n. n" sample_brand_data sample_catalogue
      "sample_oid ''a2''" "sample_product_data ''a.b''" "\<lparr>sku = ''SKU1''\<rparr>" "\<lambda>s. s \<noteq> []"
      "sample_id ''a1''"] p
  obtain m2 where
    "ProductService_create (sample_oid ''a2'') (sample_product_data ''a.b'') sample_catalogue
       = (Inl (Error m2), sample_catalogue)" by blast
  ultimately show ?thesis using b p v by (simp add: is_Conflict_def)
qed

text \<open>
  The claim as stated fails for products: the second product with the same name and
  slug is rejected with \<^verbatim>\<open>new Error(...)\<close>, which is not a \<^verbatim>\<open>Conflict\<close>.
\<close>

theorem duplicate_product_not_conflict_counterexample:
  "product_duplicate (sample_product_data ''a.b'') sample_catalogue
   \<and> ProductService_create (sample_oid ''a2'') (sample_product_data ''a.b'') sample_catalogue
       = (Inl (Error ''Product with this slug already exists''), sample_catalogue)
   \<and> \<not> is_Conflict (fst (ProductService_create (sample_oid ''a2'') (sample_product_data ''a.b'')
          sample_catalogue))"
  by code_simp

text \<open>
  The setters of the schema run on the values of a filter as well: a product payload
  whose slug is the stored one in capitals is a duplicate, and a new slug is stored in
  lower case.
\<close>

lemma create_normalises_slug:
  "fst (ProductService_create (sample_oid ''a2'')
          ((sample_product_data ''n'')\<lparr>pd_slug := Some ''AB''\<rparr>) sample_catalogue)
     = Inl (Error ''Product with this slug already exists'')
   \<and> map_sum id slug (fst (ProductService_create (sample_oid ''a2'')
          ((sample_product_data ''n'')\<lparr>pd_slug := Some ''CD''\<rparr>) sample_catalogue))
     = Inr ''cd''"
  by code_simp

section \<open>Reading one record\<close>

lemma find_by_key_member:
  "i \<in> set (map key xs) \<Longrightarrow> \<exists>x \<in> set xs. key x = i \<and> find (\<lambda>y. key y = i) xs = Some x"
  by (induction xs) auto

lemma find_by_key_absent: "i \<notin> set (map key xs) \<Longrightarrow> find (\<lambda>y. key y = i) xs = None"
  by (induction xs) auto

text \<open>
  Claim C7, as amended. \<^verbatim>\<open>getById\<close> of the brand, campaign and offer services fails with
  \<^verbatim>\<open>BadRequest\<close> when the identifier is not well-formed, and with \<^verbatim>\<open>NotFound\<close> when
  it is well-formed, nothing is cached under the key of the request and no record has
  the identifier; \<^verbatim>\<open>ProductService.getById\<close> fails with a plain \<^verbatim>\<open>Error\<close> in both
  cases. No failure changes the state. When the identifier is well-formed, nothing is
  cached under the key and a record has the identifier, each service returns a stored
  record with that identifier and caches it under the key. An identifier that
  \<^verbatim>\<open>isValidMongoId\<close> lets through and that does not spell an \<^verbatim>\<open>ObjectId\<close> fails in the
  query, with the \<^verbatim>\<open>CastError\<close> of the store.
\<close>

theorem getById_error_kinds:
  "(\<not> isValidMongoId i \<longrightarrow>
       BrandService_getById isValidMongoId i f st = (Inl (BadRequest ''Invalid brand id''), st)
     \<and> CampaignService_getById isValidMongoId i q st = (Inl (BadRequest ''Invalid campaign ID''), st)
     \<and> OfferService_getById isValidMongoId i q st = (Inl (BadRequest ''Invalid offer ID''), st)
     \<and> ProductService_getById isValidMongoId i f ic io st = (Inl (Error ''Invalid product ID''), st))
   \<and> (isValidMongoId i
       \<and> getCache (generateCacheKey (BRAND_RESOURCE @ '':'' @ i) (Some [(''fields'', f)])) st = None \<longrightarrow>
       (case new_ObjectId i of
          None \<Rightarrow> BrandService_getById isValidMongoId i f st
                    = (Inl (CastError ''Cast to ObjectId failed''), st)
        | Some oid \<Rightarrow>
            if oid \<in> set (map brand_id (BrandModel st))
            then \<exists>b \<in> set (BrandModel st). brand_id b = oid
                   \<and> BrandService_getById isValidMongoId i f st
                       = (Inr (BrandDoc b),
                          setCache (generateCacheKey (BRAND_RESOURCE @ '':'' @ i) (Some [(''fields'', f)]))
                            (BrandDoc b) None st)
            else BrandService_getById isValidMongoId i f st = (Inl (NotFound ''Brand not found''), st)))
   \<and> (isValidMongoId i
       \<and> getCache (generateCacheKey (CAMPAIGN_RESOURCE @ '':'' @ i)
            (Some [(''fields'', pq_fields q), (''includeProducts'', pq_includeProducts q)])) st = None \<longrightarrow>
       (case new_ObjectId i of
          None \<Rightarrow> CampaignService_getById isValidMongoId i q st
                    = (Inl (CastError ''Cast to ObjectId failed''), st)
        | Some oid \<Rightarrow>
            if oid \<in> set (map campaign_id (CampaignModel st))
            then \<exists>c \<in> set (CampaignModel st). campaign_id c = oid
                   \<and> CampaignService_getById isValidMongoId i q st
                       = (Inr (CampaignDoc c),
                          setCache (generateCacheKey (CAMPAIGN_RESOURCE @ '':'' @ i)
                              (Some [(''fields'', pq_fields q), (''includeProducts'', pq_includeProducts q)]))
                            (CampaignDoc c) (Some CACHE_TTL) st)
            else CampaignService_getById isValidMongoId i q st
                   = (Inl (NotFound ''Campaign not found''), st)))
   \<and> (isValidMongoId i
       \<and> getCache (generateCacheKey (OFFER_RESOURCE @ '':'' @ i)
            (Some [(''fields'', pq_fields q), (''includeProducts'', pq_includeProducts q)])) st = None \<longrightarrow>
       (case new_ObjectId i of
          None \<Rightarrow> OfferService_getById isValidMongoId i q st
                    = (Inl (CastError ''Cast to ObjectId failed''), st)
        | Some oid \<Rightarrow>
            if oid \<in> set (map offer_id (OfferModel st))
            then \<exists>c \<in> set (OfferModel st). offer_id c = oid
                   \<and> OfferService_getById isValidMongoId i q st
                       = (Inr (OfferDoc c),
                          setCache (generateCacheKey (OFFER_RESOURCE @ '':'' @ i)
                              (Some [(''fields'', pq_fields q), (''includeProducts'', pq_includeProducts q)]))
                            (OfferDoc c) (Some CACHE_TTL) st)
            else OfferService_getById isValidMongoId i q st = (Inl (NotFound ''Offer not found''), st)))
   \<and> (isValidMongoId i
       \<and> getCache (generateCacheKey ''product''
            (Some [(''id'', Some i), (''fields'', f), (''includeCampaigns'', ic),
                   (''includeOffers'', io)])) st = None \<longrightarrow>
       (case new_ObjectId i of
          None \<Rightarrow> ProductService_getById isValidMongoId i f ic io st
                    = (Inl (CastError ''Cast to ObjectId failed''), st)
        | Some oid \<Rightarrow>
            if oid \<in> set (map product_id (ProductModel st))
            then \<exists>p \<in> set (ProductModel st). product_id p = oid
                   \<and> ProductService_getById isValidMongoId i f ic io st
                       = (Inr (ProductDoc p),
                          setCache (generateCacheKey ''product''
                              (Some [(''id'', Some i), (''fields'', f), (''includeCampaigns'', ic),
                                     (''includeOffers'', io)]))
                            (ProductDoc p) None st)
            else ProductService_getById isValidMongoId i f ic io st
                   = (Inl (Error ''Product not found''), st)))"
proof (intro conjI impI)
  assume "\<not> isValidMongoId i"
  then show "BrandService_getById isValidMongoId i f st = (Inl (BadRequest ''Invalid brand id''), st)"
    "CampaignService_getById isValidMongoId i q st = (Inl (BadRequest ''Invalid campaign ID''), st)"
    "OfferService_getById isValidMongoId i q st = (Inl (BadRequest ''Invalid offer ID''), st)"
    "ProductService_getById isValidMongoId i f ic io st = (Inl (Error ''Invalid product ID''), st)"
    by (simp_all add: BrandService_getById_def CampaignService_getById_def
        OfferService_getById_def ProductService_getById_def)
next
  assume a: "isValidMongoId i
     \<and> getCache (generateCacheKey (BRAND_RESOURCE @ '':'' @ i) (Some [(''fields'', f)])) st = None"
  show "case new_ObjectId i of
          None \<Rightarrow> BrandService_getById isValidMongoId i f st
                    = (Inl (CastError ''Cast to ObjectId failed''), st)
        | Some oid \<Rightarrow>
            if oid \<in> set (map brand_id (BrandModel st))
            then \<exists>b \<in> set (BrandModel st). brand_id b = oid
                   \<and> BrandService_getById isValidMongoId i f st
                       = (Inr (BrandDoc b),
                          setCache (generateCacheKey (BRAND_RESOURCE @ '':'' @ i) (Some [(''fields'', f)]))
                            (BrandDoc b) None st)
            else BrandService_getById isValidMongoId i f st = (Inl (NotFound ''Brand not found''), st)"
  proof (cases "new_ObjectId i")
    case None
    with a show ?thesis by (simp add: BrandService_getById_def Let_def)
  next
    case (Some oid)
    with a show ?thesis
      using find_by_key_member[of oid brand_id "BrandModel st"]
        find_by_key_absent[of oid brand_id "BrandModel st"]
      by (fastforce simp: BrandService_getById_def BrandModel_findById_def Let_def)
  qed
next
  assume a: "isValidMongoId i
     \<and> getCache (generateCacheKey (CAMPAIGN_RESOURCE @ '':'' @ i)
          (Some [(''fields'', pq_fields q), (''includeProducts'', pq_includeProducts q)])) st = None"
  show "case new_ObjectId i of
          None \<Rightarrow> CampaignService_getById isValidMongoId i q st
                    = (Inl (CastError ''Cast to ObjectId failed''), st)
        | Some oid \<Rightarrow>
            if oid \<in> set (map campaign_id (CampaignModel st))
            then \<exists>c \<in> set (CampaignModel st). campaign_id c = oid
                   \<and> CampaignService_getById isValidMongoId i q st
                       = (Inr (CampaignDoc c),
                          setCache (generateCacheKey (CAMPAIGN_RESOURCE @ '':'' @ i)
                              (Some [(''fields'', pq_fields q), (''includeProducts'', pq_includeProducts q)]))
                            (CampaignDoc c) (Some CACHE_TTL) st)
            else CampaignService_getById isValidMongoId i q st
                   = (Inl (NotFound ''Campaign not found''), st)"
  proof (cases "new_ObjectId i")
    case None
    with a show ?thesis by (simp add: CampaignService_getById_def Let_def)
  next
    case (Some oid)
    with a show ?thesis
      using find_by_key_member[of oid campaign_id "CampaignModel st"]
        find_by_key_absent[of oid campaign_id "CampaignModel st"]
      by (fastforce simp: CampaignService_getById_def CampaignModel_findById_def Let_def)
  qed
next
  assume a: "isValidMongoId i
     \<and> getCache (generateCacheKey (OFFER_RESOURCE @ '':'' @ i)
          (Some [(''fields'', pq_fields q), (''includeProducts'', pq_includeProducts q)])) st = None"
  show "case new_ObjectId i of
          None \<Rightarrow> OfferService_getById isValidMongoId i q st
                    = (Inl (CastError ''Cast to ObjectId failed''), st)
        | Some oid \<Rightarrow>
            if oid \<in> set (map offer_id (OfferModel st))
            then \<exists>c \<in> set (OfferModel st). offer_id c = oid
                   \<and> OfferService_getById isValidMongoId i q st
                       = (Inr (OfferDoc c),
                          setCache (generateCacheKey (OFFER_RESOURCE @ '':'' @ i)
                              (Some [(''fields'', pq_fields q), (''includeProducts'', pq_includeProducts q)]))
                            (OfferDoc c) (Some CACHE_TTL) st)
            else OfferService_getById isValidMongoId i q st = (Inl (NotFound ''Offer not found''), st)"
  proof (cases "new_ObjectId i")
    case None
    with a show ?thesis by (simp add: OfferService_getById_def Let_def)
  next
    case (Some oid)
    with a show ?thesis
      using find_by_key_member[of oid offer_id "OfferModel st"]
        find_by_key_absent[of oid offer_id "OfferModel st"]
      by (fastforce simp: OfferService_getById_def OfferModel_findById_def Let_def)
  qed
next
  assume a: "isValidMongoId i
     \<and> getCache (generateCacheKey ''product''
          (Some [(''id'', Some i), (''fields'', f), (''includeCampaigns'', ic),
                 (''includeOffers'', io)])) st = None"
  show "case new_ObjectId i of
          None \<Rightarrow> ProductService_getById isValidMongoId i f ic io st
                    = (Inl (CastError ''Cast to ObjectId failed''), st)
        | Some oid \<Rightarrow>
            if oid \<in> set (map product_id (ProductModel st))
            then \<exists>p \<in> set (ProductModel st). product_id p = oid
                   \<and> ProductService_getById isValidMongoId i f ic io st
                       = (Inr (ProductDoc p),
                          setCache (generateCacheKey ''product''
                              (Some [(''id'', Some i), (''fields'', f), (''includeCampaigns'', ic),
                                     (''includeOffers'', io)]))
                            (ProductDoc p) None st)
            else ProductService_getById isValidMongoId i f ic io st
                   = (Inl (Error ''Product not found''), st)"
  proof (cases "new_ObjectId i")
    case None
    with a show ?thesis by (simp add: ProductService_getById_def Let_def)
  next
    case (Some oid)
    with a show ?thesis
      using find_by_key_member[of oid product_id "ProductModel st"]
        find_by_key_absent[of oid product_id "ProductModel st"]
      by (fastforce simp: ProductService_getById_def ProductModel_findById_def Let_def)
  qed
qed

theorem getById_error_kinds_witness:
  "\<not> (\<lambda>s. s \<noteq> []) [] \<and> (\<lambda>s. s \<noteq> []) (sample_id ''b1'')
   \<and> getCache (generateCacheKey (BRAND_RESOURCE @ '':'' @ sample_id ''b1'') (Some [(''fields'', None)]))
        sample_catalogue = None
   \<and> new_ObjectId (sample_id ''b1'') = Some (sample_oid ''b1'')
   \<and> sample_oid ''b1'' \<in> set (map brand_id (BrandModel sample_catalogue))
   \<and> fst (BrandService_getById (\<lambda>s. s \<noteq> []) [] None sample_catalogue)
       = Inl (BadRequest ''Invalid brand id'')
   \<and> fst (CampaignService_getById (\<lambda>s. s \<noteq> []) [] \<lparr>pq_fields = None, pq_includeProducts = None\<rparr>
          sample_catalogue)
       = Inl (BadRequest ''Invalid campaign ID'')
   \<and> fst (OfferService_getById (\<lambda>s. s \<noteq> []) [] \<lparr>pq_fields = None, pq_includeProducts = None\<rparr>
          sample_catalogue)
       = Inl (BadRequest ''Invalid offer ID'')
   \<and> fst (ProductService_getById (\<lambda>s. s \<noteq> []) [] None None None sample_catalogue)
       = Inl (Error ''Invalid product ID'')
   \<and> fst (BrandService_getById (\<lambda>s. s \<noteq> []) (sample_id ''b1'') None sample_catalogue)
       = Inr (BrandDoc \<lparr>brand_id = sample_oid ''b1'', brand_name = ''Acme'', brand_slug = ''acme'',
                         brand_is_active = True\<rparr>)
   \<and> fst (BrandService_getById (\<lambda>s. s \<noteq> []) (sample_id ''b1'') None empty_store)
       = Inl (NotFound ''Brand not found'')
   \<and> fst (CampaignService_getById (\<lambda>s. s \<noteq> []) (sample_id ''c9'')
          \<lparr>pq_fields = None, pq_includeProducts = None\<rparr> sample_catalogue)
       = Inl (NotFound ''Campaign not found'')
   \<and> fst (OfferService_getById (\<lambda>s. s \<noteq> []) (sample_id ''f9'')
          \<lparr>pq_fields = None, pq_includeProducts = None\<rparr> sample_catalogue)
       = Inl (NotFound ''Offer not found'')
   \<and> map_sum id (\<lambda>v. case v of ProductDoc p \<Rightarrow> product_id p | _ \<Rightarrow> ObjectId [])
        (fst (ProductService_getById (\<lambda>s. s \<noteq> []) (sample_id ''a1'') None None None sample_catalogue))
       = Inr (sample_oid ''a1'')
   \<and> fst (ProductService_getById (\<lambda>s. s \<noteq> []) (sample_id ''a9'') None None None sample_catalogue)
       = Inl (Error ''Product not found'')
   \<and> fst (BrandService_getById (\<lambda>s. s \<noteq> []) ''b1'' None sample_catalogue)
       = Inl (CastError ''Cast to ObjectId failed'')"
proof -
  let ?v = "\<lambda>s::string. s \<noteq> []"
  let ?q = "\<lparr>pq_fields = None, pq_includeProducts = None\<rparr>"
  have miss: "getCache (generateCacheKey (BRAND_RESOURCE @ '':'' @ sample_id ''b1'')
        (Some [(''fields'', None)])) sample_catalogue = None" by code_simp
  have miss0: "getCache (generateCacheKey (BRAND_RESOURCE @ '':'' @ sample_id ''b1'')
        (Some [(''fields'', None)])) empty_store = None" by code_simp
  have missx: "getCache (generateCacheKey (BRAND_RESOURCE @ '':'' @ ''b1'')
        (Some [(''fields'', None)])) sample_catalogue = None" by code_simp
  have ob: "new_ObjectId (sample_id ''b1'') = Some (sample_oid ''b1'')" by code_simp
  have oc: "new_ObjectId (sample_id ''c9'') = Some (sample_oid ''c9'')" by code_simp
  have oo: "new_ObjectId (sample_id ''f9'') = Some (sample_oid ''f9'')" by code_simp
  have op: "new_ObjectId (sample_id ''a1'') = Some (sample_oid ''a1'')" by code_simp
  have op9: "new_ObjectId (sample_id ''a9'') = Some (sample_oid ''a9'')" by code_simp
  have ox: "new_ObjectId ''b1'' = None" by code_simp
  have there: "sample_oid ''b1'' \<in> set (map brand_id (BrandModel sample_catalogue))" by code_simp
  have absent: "sample_oid ''b1'' \<notin> set (map brand_id (BrandModel empty_store))" by code_simp
  have ids: "\<forall>b \<in> set (BrandModel sample_catalogue).
     b = \<lparr>brand_id = sample_oid ''b1'', brand_name = ''Acme'', brand_slug = ''acme'',
          brand_is_active = True\<rparr>"
    by (simp add: sample_catalogue_def)
  have missc: "getCache (generateCacheKey (CAMPAIGN_RESOURCE @ '':'' @ sample_id ''c9'')
        (Some [(''fields'', pq_fields ?q), (''includeProducts'', pq_includeProducts ?q)]))
        sample_catalogue = None" by code_simp
  have absentc: "sample_oid ''c9'' \<notin> set (map campaign_id (CampaignModel sample_catalogue))"
    by code_simp
  have misso: "getCache (generateCacheKey (OFFER_RESOURCE @ '':'' @ sample_id ''f9'')
        (Some [(''fields'', pq_fields ?q), (''includeProducts'', pq_includeProducts ?q)]))
        sample_catalogue = None" by code_simp
  have absento: "sample_oid ''f9'' \<notin> set (map offer_id (OfferModel sample_catalogue))" by code_simp
  have missp: "getCache (generateCacheKey ''product''
        (Some [(''id'', Some (sample_id ''a1'')), (''fields'', None), (''includeCampaigns'', None),
               (''includeOffers'', None)])) sample_catalogue = None" by code_simp
  have therep: "sample_oid ''a1'' \<in> set (map product_id (ProductModel sample_catalogue))"
    by code_simp
  have missp9: "getCache (generateCacheKey ''product''
        (Some [(''id'', Some (sample_id ''a9'')), (''fields'', None), (''includeCampaigns'', None),
               (''includeOffers'', None)])) sample_catalogue = None" by code_simp
  have absentp: "sample_oid ''a9'' \<notin> set (map product_id (ProductModel sample_catalogue))"
    by code_simp
  have inv: "\<not> ?v []" by simp
  have vb: "?v (sample_id ''b1'')" and vc: "?v (sample_id ''c9'')" and vo: "?v (sample_id ''f9'')"
    and vp: "?v (sample_id ''a1'')" and vp9: "?v (sample_id ''a9'')" and vx: "?v ''b1''"
    by (simp_all add: sample_id_def)
  note bad = getById_error_kinds[where isValidMongoId = ?v and i = "[]" and f = None and q = ?q
      and ic = None and io = None and st = sample_catalogue, THEN conjunct1, THEN mp, OF inv]
  from bad
  have 1: "fst (BrandService_getById ?v [] None sample_catalogue) = Inl (BadRequest ''Invalid brand id'')"
    "fst (CampaignService_getById ?v [] ?q sample_catalogue) = Inl (BadRequest ''Invalid campaign ID'')"
    "fst (OfferService_getById ?v [] ?q sample_catalogue) = Inl (BadRequest ''Invalid offer ID'')"
    "fst (ProductService_getById ?v [] None None None sample_catalogue) = Inl (Error ''Invalid product ID'')"
    by simp_all
  note b = getById_error_kinds[where isValidMongoId = ?v and i = "sample_id ''b1''" and f = None
      and st = sample_catalogue, THEN conjunct2, THEN conjunct1, THEN mp, OF conjI[OF vb miss]]
  from b there ids
  have 2: "fst (BrandService_getById ?v (sample_id ''b1'') None sample_catalogue)
       = Inr (BrandDoc \<lparr>brand_id = sample_oid ''b1'', brand_name = ''Acme'', brand_slug = ''acme'',
                         brand_is_active = True\<rparr>)"
    unfolding ob option.case by fastforce
  note b0 = getById_error_kinds[where isValidMongoId = ?v and i = "sample_id ''b1''" and f = None
      and st = empty_store, THEN conjunct2, THEN conjunct1, THEN mp, OF conjI[OF vb miss0]]
  from b0 absent
  have 3: "fst (BrandService_getById ?v (sample_id ''b1'') None empty_store)
       = Inl (NotFound ''Brand not found'')"
    unfolding ob option.case by simp
  note c = getById_error_kinds[where isValidMongoId = ?v and i = "sample_id ''c9''" and q = ?q
      and st = sample_catalogue, THEN conjunct2, THEN conjunct2, THEN conjunct1, THEN mp,
      OF conjI[OF vc missc]]
  from c absentc
  have 4: "fst (CampaignService_getById ?v (sample_id ''c9'') ?q sample_catalogue)
       = Inl (NotFound ''Campaign not found'')"
    unfolding oc option.case by simp
  note o = getById_error_kinds[where isValidMongoId = ?v and i = "sample_id ''f9''" and q = ?q
      and st = sample_catalogue, THEN conjunct2, THEN conjunct2, THEN conjunct2, THEN conjunct1,
      THEN mp, OF conjI[OF vo misso]]
  from o absento
  have 5: "fst (OfferService_getById ?v (sample_id ''f9'') ?q sample_catalogue)
       = Inl (NotFound ''Offer not found'')"
    unfolding oo option.case by simp
  note p = getById_error_kinds[where isValidMongoId = ?v and i = "sample_id ''a1''" and f = None
      and ic = None and io = None and st = sample_catalogue,
      THEN conjunct2, THEN conjunct2, THEN conjunct2, THEN conjunct2, THEN mp,
      OF conjI[OF vp missp]]
  from p[unfolded op option.case] therep obtain pr where "product_id pr = sample_oid ''a1''"
    "ProductService_getById ?v (sample_id ''a1'') None None None sample_catalogue
       = (Inr (ProductDoc pr), setCache (generateCacheKey ''product''
            (Some [(''id'', Some (sample_id ''a1'')), (''fields'', None), (''includeCampaigns'', None),
                   (''includeOffers'', None)])) (ProductDoc pr) None sample_catalogue)"
    by (simp only: if_True) blast
  then have 6: "map_sum id (\<lambda>v. case v of ProductDoc p \<Rightarrow> product_id p | _ \<Rightarrow> ObjectId [])
        (fst (ProductService_getById ?v (sample_id ''a1'') None None None sample_catalogue))
      = Inr (sample_oid ''a1'')"
    by simp
  note p9 = getById_error_kinds[where isValidMongoId = ?v and i = "sample_id ''a9''" and f = None
      and ic = None and io = None and st = sample_catalogue,
      THEN conjunct2, THEN conjunct2, THEN conjunct2, THEN conjunct2, THEN mp,
      OF conjI[OF vp9 missp9]]
  from p9 absentp
  have 7: "fst (ProductService_getById ?v (sample_id ''a9'') None None None sample_catalogue)
       = Inl (Error ''Product not found'')"
    unfolding op9 option.case by simp
  note x = getById_error_kinds[where isValidMongoId = ?v and i = "''b1''" and f = None
      and st = sample_catalogue, THEN conjunct2, THEN conjunct1, THEN mp, OF conjI[OF vx missx]]
  from x
  have 8: "fst (BrandService_getById ?v ''b1'' None sample_catalogue)
       = Inl (CastError ''Cast to ObjectId failed'')"
    unfolding ox option.case by simp
  show ?thesis
    apply (intro conjI)
    apply simp
    apply (rule vb)
    apply (rule miss)
    apply (rule ob)
    apply (rule there)
    apply (rule 1(1))
    apply (rule 1(2))
    apply (rule 1(3))
    apply (rule 1(4))
    apply (rule 2)
    apply (rule 3)
    apply (rule 4)
    apply (rule 5)
    apply (rule 6)
    apply (rule 7)
    apply (rule 8)
    done
qed

text \<open>
  The claim as stated fails: an identifier that is not well-formed gives
  \<^verbatim>\<open>BadRequest\<close>, not \<^verbatim>\<open>NotFound\<close>, and a product that does not exist gives a plain
  \<^verbatim>\<open>Error\<close>.
\<close>

theorem getById_invalid_id_not_NotFound_counterexample:
  "BrandService_getById (\<lambda>s. s \<noteq> []) [] None empty_store
     = (Inl (BadRequest ''Invalid brand id''), empty_store)
   \<and> \<not> is_NotFound (fst (BrandService_getById (\<lambda>s. s \<noteq> []) [] None empty_store))
   \<and> ProductService_getById (\<lambda>s. s \<noteq> []) (sample_id ''a9'') None None None empty_store
     = (Inl (Error ''Product not found''), empty_store)
   \<and> \<not> is_NotFound (fst (ProductService_getById (\<lambda>s. s \<noteq> []) (sample_id ''a9'') None None None
          empty_store))"
  by code_simp

section \<open>Pagination\<close>

lemma Math_ceil_div_real: "real (Math_ceil_div t L) = of_int \<lceil>real t / real L\<rceil>"
proof -
  have "0 \<le> real t / real L" by simp
  then have "0 \<le> \<lceil>real t / real L\<rceil>" by linarith
  then show ?thesis by (simp add: Math_ceil_div_def)
qed

lemma Math_ceil_div_bounds:
  assumes "0 < L"
  shows "t \<le> Math_ceil_div t L * L \<and> Math_ceil_div t L * L < t + L"
proof -
  let ?x = "real t / real L"
  have x0: "0 \<le> ?x" by simp
  then have c0: "0 \<le> \<lceil>?x\<rceil>" by linarith
  have r: "real (Math_ceil_div t L) = of_int \<lceil>?x\<rceil>"
    using c0 by (simp add: Math_ceil_div_def)
  have "?x \<le> real (Math_ceil_div t L)" unfolding r by linarith
  then have "real t \<le> real (Math_ceil_div t L) * real L"
    using assms by (simp add: field_simps)
  then have 1: "t \<le> Math_ceil_div t L * L"
    by (metis of_nat_le_iff of_nat_mult)
  have "real (Math_ceil_div t L) < ?x + 1" unfolding r by linarith
  then have "real (Math_ceil_div t L) * real L < real t + real L"
    using assms by (simp add: field_simps)
  then have 2: "Math_ceil_div t L * L < t + L"
    by (metis of_nat_less_iff of_nat_mult of_nat_add)
  from 1 2 show ?thesis by simp
qed

lemma beyond_last_page:
  assumes "0 < L" "Math_ceil_div t L < P" "length xs = t"
  shows "take L (drop ((P - 1) * L) xs) = []"
proof -
  from assms(2) have "Math_ceil_div t L \<le> P - 1" by simp
  then have "Math_ceil_div t L * L \<le> (P - 1) * L" by (rule mult_le_mono1)
  with Math_ceil_div_bounds[OF assms(1), of t] have "t \<le> (P - 1) * L" by linarith
  with assms(3) show ?thesis by simp
qed

text \<open>
  A \<^verbatim>\<open>getAllCarts\<close> call that is not served from the cache counts the carts of the
  collection: \<^verbatim>\<open>items\<close> is their number, \<^verbatim>\<open>totalPages\<close> is \<^verbatim>\<open>ceil(items / limit)\<close>, and a
  page beyond \<^verbatim>\<open>totalPages\<close> is empty.
\<close>

lemma getAllCarts_counts_on_miss:
  assumes "0 < or_else (ac_page cq) 1" "0 < or_else (ac_limit cq) 10"
    and miss: "getCache (generateCacheKey (CART_RESOURCE @ '':all'')
        (Some [(''includeUser'', ac_includeUser cq), (''includeProduct'', ac_includeProduct cq),
               (''fields'', ac_fields cq),
               (''page'', Some (string_of_nat (or_else (ac_page cq) 1))),
               (''limit'', Some (string_of_nat (or_else (ac_limit cq) 10)))])) st = None"
  shows "\<exists>docs pg. fst (CartService_getAllCarts cq st) = Inr (CartPage docs pg)
         \<and> pg_items pg = length (CartModel st)
         \<and> pg_page pg = or_else (ac_page cq) 1 \<and> pg_limit pg = or_else (ac_limit cq) 10
         \<and> real (pg_totalPages pg)
             = of_int \<lceil>real (length (CartModel st)) / real (or_else (ac_limit cq) 10)\<rceil>
         \<and> docs = take (or_else (ac_limit cq) 10)
                    (drop ((or_else (ac_page cq) 1 - 1) * or_else (ac_limit cq) 10) (CartModel st))
         \<and> (pg_totalPages pg < or_else (ac_page cq) 1 \<longrightarrow> docs = [])"
proof -
  let ?P = "or_else (ac_page cq) 1" and ?L = "or_else (ac_limit cq) 10"
  let ?t = "length (CartModel st)"
  let ?docs = "take ?L (drop ((?P - 1) * ?L) (CartModel st))"
  let ?pg = "\<lparr>pg_items = ?t, pg_page = ?P, pg_limit = ?L, pg_totalPages = Math_ceil_div ?t ?L\<rparr>"
  have run: "fst (CartService_getAllCarts cq st) = Inr (CartPage ?docs ?pg)"
    using miss by (simp add: CartService_getAllCarts_def Let_def)
  have c: "real (Math_ceil_div ?t ?L) = of_int \<lceil>real ?t / real ?L\<rceil>"
    by (rule Math_ceil_div_real)
  show ?thesis
    using run c beyond_last_page[OF assms(2), of ?t ?P "CartModel st"]
    by (intro exI[of _ ?docs] exI[of _ ?pg]) simp
qed

text \<open>
  Claim C9. The pagination object of a list call is to report the number of matching
  records. \<^verbatim>\<open>getAllCarts\<close> caches its page under a key with the prefix \<^verbatim>\<open>cart:all\<close>, and
  \<^verbatim>\<open>addItem\<close>, \<^verbatim>\<open>updateItem\<close> and the other writers of the cart service clear that prefix.
  \<^verbatim>\<open>getCart\<close> creates the cart of a user who has none and clears nothing. So
  \<^verbatim>\<open>getAllCarts\<close> on the empty store, then \<^verbatim>\<open>getCart\<close> for a new user, then the same
  \<^verbatim>\<open>getAllCarts\<close> call: the collection holds one cart, and the page says \<^verbatim>\<open>items = 0\<close>,
  \<^verbatim>\<open>totalPages = 0\<close>.
\<close>

theorem stale_cart_page_after_getCart:
  "fst (CartService_getAllCarts default_carts_query
         (snd (CartService_getCart (\<lambda>s. s \<noteq> []) (sample_oid ''c1'') (sample_id ''01'')
           default_cart_query
           (snd (CartService_getAllCarts default_carts_query empty_store)))))
     = Inr (CartPage [] \<lparr>pg_items = 0, pg_page = 1, pg_limit = 10, pg_totalPages = 0\<rparr>)
   \<and> CartModel
         (snd (CartService_getCart (\<lambda>s. s \<noteq> []) (sample_oid ''c1'') (sample_id ''01'')
           default_cart_query
           (snd (CartService_getAllCarts default_carts_query empty_store))))
     = [\<lparr>cart_id = sample_oid ''c1'', user = sample_oid ''01'', items = []\<rparr>]"
  by code_simp

text \<open>
  Where \<^verbatim>\<open>addItem\<close> creates the cart, the prefix is cleared and the next \<^verbatim>\<open>getAllCarts\<close>
  call counts the cart.
\<close>

lemma fresh_cart_page_after_addItem:
  "fst (CartService_getAllCarts default_carts_query
         (snd (CartService_addItem (\<lambda>s. s \<noteq> []) (sample_oid ''c1'') (sample_oid ''e1'')
           (sample_id ''01'') (sample_id ''a1'') 2
           (snd (CartService_getAllCarts default_carts_query empty_store)))))
     = Inr (CartPage
         [\<lparr>cart_id = sample_oid ''c1'', user = sample_oid ''01'',
           items = [\<lparr>item_id = sample_oid ''e1'', product = sample_oid ''a1'', quantity = 2\<rparr>]\<rparr>]
         \<lparr>pg_items = 1, pg_page = 1, pg_limit = 10, pg_totalPages = 1\<rparr>)"
  by code_simp

section \<open>Cache invalidation of a product's detail view\<close>

text \<open>
  Claim C4. \<^verbatim>\<open>ProductService.getById\<close> caches a product under the key derived from the
  resource \<^verbatim>\<open>product\<close> and the query \<^verbatim>\<open>{ id, fields, includeCampaigns, includeOffers }\<close>;
  \<^verbatim>\<open>ProductService.update\<close> deletes the list prefix \<^verbatim>\<open>products:list:*\<close> and the single key
  \<^verbatim>\<open>product:<id>\<close>, which no \<^verbatim>\<open>getById\<close> call has written. So the detail entry outlives
  the update: after reading a product with \<^verbatim>\<open>fields = name\<close> and renaming it, the store
  holds the new name and the same read still returns the old one.
\<close>

theorem stale_product_detail_after_update:
  "map_option name (ProductModel_findById (sample_oid ''a1'')
      (snd (ProductService_update (\<lambda>s. s \<noteq> []) (sample_id ''a1'') rename_data
        (snd (ProductService_getById (\<lambda>s. s \<noteq> []) (sample_id ''a1'') (Some ''name'') None None
           sample_catalogue)))))
     = Some ''New''
   \<and> map_sum id (\<lambda>v. case v of ProductDoc p \<Rightarrow> name p | _ \<Rightarrow> [])
       (fst (ProductService_getById (\<lambda>s. s \<noteq> []) (sample_id ''a1'') (Some ''name'') None None
        (snd (ProductService_update (\<lambda>s. s \<noteq> []) (sample_id ''a1'') rename_data
          (snd (ProductService_getById (\<lambda>s. s \<noteq> []) (sample_id ''a1'') (Some ''name'') None None
             sample_catalogue))))))
     = Inr ''a.b''"
  by code_simp

section \<open>Keeping references bidirectional\<close>

lemma set_remove_first_distinct:
  "distinct (map fst xs) \<Longrightarrow>
   set (remove_first (\<lambda>e. fst e = cid) xs) = {e \<in> set xs. fst e \<noteq> cid}
   \<and> distinct (map fst (remove_first (\<lambda>e. fst e = cid) xs))
   \<and> set (map fst (remove_first (\<lambda>e. fst e = cid) xs)) = set (map fst xs) - {cid}"
  by (induction xs) (auto simp: image_iff)

lemma set_addToSet [simp]: "set (addToSet x xs) = insert x (set xs)"
  by (auto simp: addToSet_def)

lemma set_pull [simp]: "set (pull x xs) = set xs - {x}"
  by (auto simp: pull_def)

lemma cast_ids_length: "cast_ids ids = Some pids \<Longrightarrow> length pids = length ids"
  unfolding cast_ids_def by (induction ids arbitrary: pids) (auto split: option.splits)

lemma cast_ids_Nil [simp]: "cast_ids [] = Some []"
  by (simp add: cast_ids_def)

lemma cast_ids_Nil_iff: "cast_ids ids = Some pids \<Longrightarrow> pids = [] \<longleftrightarrow> ids = []"
  using cast_ids_length[of ids pids] by auto

lemma in_updateMany_view:
  "(p, h') \<in> set (updateMany_view ids f prods)
     \<longleftrightarrow> (\<exists>h. (p, h) \<in> set prods \<and> h' = (if p \<in> set ids then f h else h))"
  by (auto simp: updateMany_view_def image_iff split: if_splits) force+

lemma linkedI:
  assumes "distinct (map fst promos)"
    and "\<And>p held. (p, held) \<in> set prods \<Longrightarrow> set held \<subseteq> fst ` set promos"
    and "\<And>p held c refs. (p, held) \<in> set prods \<Longrightarrow> (c, refs) \<in> set promos
           \<Longrightarrow> p \<in> set refs \<longleftrightarrow> c \<in> set held"
  shows "linked promos prods"
  using assms unfolding linked_def by (simp add: split_beta) (metis prod.collapse)

lemma linkedD:
  assumes "linked promos prods"
  shows "distinct (map fst promos)"
    and "(p, held) \<in> set prods \<Longrightarrow> set held \<subseteq> fst ` set promos"
    and "(p, held) \<in> set prods \<Longrightarrow> (c, refs) \<in> set promos \<Longrightarrow> p \<in> set refs \<longleftrightarrow> c \<in> set held"
proof -
  from assms show "distinct (map fst promos)" by (simp add: linked_def)
  from assms have a: "\<forall>(p, held) \<in> set prods.
           set held \<subseteq> set (map fst promos)
           \<and> (\<forall>(c, refs) \<in> set promos. p \<in> set refs \<longleftrightarrow> c \<in> set held)"
    by (simp add: linked_def)
  show "set held \<subseteq> fst ` set promos" if "(p, held) \<in> set prods"
    using bspec[OF a that] by simp
  show "p \<in> set refs \<longleftrightarrow> c \<in> set held" if "(p, held) \<in> set prods" "(c, refs) \<in> set promos"
    using bspec[OF a that(1)] that(2) by fastforce
qed

lemma linked_create:
  assumes l: "linked promos prods" and fresh: "newId \<notin> fst ` set promos"
  shows "linked (promos @ [(newId, ids)]) (updateMany_view ids (addToSet newId) prods)"
proof (rule linkedI)
  show "distinct (map fst (promos @ [(newId, ids)]))"
    using linkedD(1)[OF l] fresh by simp
next
  fix p held
  assume "(p, held) \<in> set (updateMany_view ids (addToSet newId) prods)"
  then obtain h where h: "(p, h) \<in> set prods"
    "held = (if p \<in> set ids then addToSet newId h else h)"
    by (auto simp: in_updateMany_view)
  from linkedD(2)[OF l h(1)] h(2)
  show "set held \<subseteq> fst ` set (promos @ [(newId, ids)])" by auto
  fix c refs
  assume "(c, refs) \<in> set (promos @ [(newId, ids)])"
  then consider "(c, refs) \<in> set promos" | "c = newId" "refs = ids" by auto
  then show "p \<in> set refs \<longleftrightarrow> c \<in> set held"
  proof cases
    case 1
    then have "c \<noteq> newId" using fresh by force
    with linkedD(3)[OF l h(1) 1] h(2) show ?thesis by auto
  next
    case 2
    have "newId \<notin> set h" using linkedD(2)[OF l h(1)] fresh by auto
    with 2 h(2) show ?thesis by auto
  qed
qed

lemma linked_delete:
  assumes l: "linked promos prods" and refs: "(cid, refs) \<in> set promos"
  shows "linked (remove_first (\<lambda>e. fst e = cid) promos) (updateMany_view refs (pull cid) prods)"
proof (rule linkedI)
  note s = set_remove_first_distinct[OF linkedD(1)[OF l], of cid]
  show "distinct (map fst (remove_first (\<lambda>e. fst e = cid) promos))" using s by simp
  fix p held
  assume "(p, held) \<in> set (updateMany_view refs (pull cid) prods)"
  then obtain h where h: "(p, h) \<in> set prods" "held = (if p \<in> set refs then pull cid h else h)"
    by (auto simp: in_updateMany_view)
  have img: "fst ` set (remove_first (\<lambda>e. fst e = cid) promos) = fst ` set promos - {cid}"
    using s by (metis set_map)
  from linkedD(3)[OF l h(1) refs] have "p \<in> set refs \<longleftrightarrow> cid \<in> set h" .
  with linkedD(2)[OF l h(1)] h(2)
  show "set held \<subseteq> fst ` set (remove_first (\<lambda>e. fst e = cid) promos)"
    unfolding img by auto
  fix c r
  assume "(c, r) \<in> set (remove_first (\<lambda>e. fst e = cid) promos)"
  with s have "(c, r) \<in> set promos" "c \<noteq> cid" by auto
  with linkedD(3)[OF l h(1) this(1)] h(2) show "p \<in> set r \<longleftrightarrow> c \<in> set held" by auto
qed

lemma deleteCache_models [simp]:
  "BrandModel (deleteCache k st) = BrandModel st"
  "ProductModel (deleteCache k st) = ProductModel st"
  "CampaignModel (deleteCache k st) = CampaignModel st"
  "OfferModel (deleteCache k st) = OfferModel st"
  "CartModel (deleteCache k st) = CartModel st"
  by (simp_all add: deleteCache_def)

lemma deleteCache_views [simp]:
  "campaign_refs (deleteCache k st) = campaign_refs st"
  "campaign_holders (deleteCache k st) = campaign_holders st"
  "offer_refs (deleteCache k st) = offer_refs st"
  "offer_holders (deleteCache k st) = offer_holders st"
  by (simp_all add: campaign_refs_def campaign_holders_def offer_refs_def offer_holders_def)

lemma updateMany_models [simp]:
  "BrandModel (ProductModel_updateMany ids g st) = BrandModel st"
  "CampaignModel (ProductModel_updateMany ids g st) = CampaignModel st"
  "OfferModel (ProductModel_updateMany ids g st) = OfferModel st"
  "CartModel (ProductModel_updateMany ids g st) = CartModel st"
  by (simp_all add: ProductModel_updateMany_def)

lemma updateMany_refs [simp]:
  "campaign_refs (ProductModel_updateMany ids g st) = campaign_refs st"
  "offer_refs (ProductModel_updateMany ids g st) = offer_refs st"
  by (simp_all add: campaign_refs_def offer_refs_def)

lemma views_of_promo_write [simp]:
  "campaign_holders (st\<lparr>CampaignModel := cs\<rparr>) = campaign_holders st"
  "offer_holders (st\<lparr>CampaignModel := cs\<rparr>) = offer_holders st"
  "offer_refs (st\<lparr>CampaignModel := cs\<rparr>) = offer_refs st"
  "campaign_holders (st\<lparr>OfferModel := os\<rparr>) = campaign_holders st"
  "offer_holders (st\<lparr>OfferModel := os\<rparr>) = offer_holders st"
  "campaign_refs (st\<lparr>OfferModel := os\<rparr>) = campaign_refs st"
  by (simp_all add: campaign_holders_def offer_holders_def offer_refs_def campaign_refs_def)

lemma updateMany_view_Nil [simp]: "updateMany_view [] f prods = prods"
  by (simp add: updateMany_view_def split_beta)

lemma updateMany_Nil [simp]: "ProductModel_updateMany [] f st = st"
  by (simp add: ProductModel_updateMany_def)

lemma map_update_first:
  "(\<And>x. P' (g x) = P x) \<Longrightarrow> (\<And>x. g (f x) = f' (g x)) \<Longrightarrow>
   map g (update_first P f xs) = update_first P' f' (map g xs)"
  by (induction xs) auto

lemma map_remove_first:
  "(\<And>x. P' (g x) = P x) \<Longrightarrow> map g (remove_first P xs) = remove_first P' (map g xs)"
  by (induction xs) auto

lemma update_first_id: "(\<And>x. f x = x) \<Longrightarrow> update_first P f xs = xs"
  by (induction xs) auto

lemma find_remove_first_distinct:
  "distinct (map key xs) \<Longrightarrow> find (\<lambda>x. key x = k) (remove_first (\<lambda>x. key x = k) xs) = None"
  by (induction xs) (auto simp: find_None_iff image_iff)

lemma updateMany_campaigns_views [simp]:
  "campaign_holders (ProductModel_updateMany ids (\<lambda>p. p\<lparr>campaigns := f (campaigns p)\<rparr>) st)
     = updateMany_view ids f (campaign_holders st)"
  "offer_holders (ProductModel_updateMany ids (\<lambda>p. p\<lparr>campaigns := f (campaigns p)\<rparr>) st)
     = offer_holders st"
  by (simp_all add: campaign_holders_def offer_holders_def
      ProductModel_updateMany_def updateMany_view_def comp_def)

lemma CampaignModel_findById_refs:
  "CampaignModel_findById cid st = Some c \<Longrightarrow>
     campaign_id c = cid \<and> (cid, productsIds c) \<in> set (campaign_refs st)"
  by (auto simp: CampaignModel_findById_def campaign_refs_def image_iff dest!: find_in_set)

lemma CampaignService_create_views:
  assumes run: "CampaignService_create newId d st = (r, st')"
  shows "(st' = st \<and> (\<exists>e. r = Inl e))
     \<or> (\<exists>ids. newId \<notin> set (map fst (campaign_refs st))
         \<and> r = Inr newId
         \<and> campaign_refs st' = campaign_refs st @ [(newId, ids)]
         \<and> campaign_holders st' = updateMany_view ids (addToSet newId) (campaign_holders st)
         \<and> offer_refs st' = offer_refs st \<and> offer_holders st' = offer_holders st)"
proof (cases "CampaignModel_create newId d st")
  case (Inl e)
  with run show ?thesis by (auto simp: CampaignService_create_def)
next
  case (Inr a)
  then obtain c st1 where c: "CampaignModel_create newId d st = Inr (c, st1)" by (cases a) auto
  then obtain ids where ids: "cast_id_list (cd_productsIds d) = Some ids"
    and fresh: "newId \<notin> set (map campaign_id (CampaignModel st))"
    and cdef: "c = apply_campaign_data d ids
                 \<lparr>campaign_id = newId, campaign_is_active = True, productsIds = []\<rparr>"
    and st1: "st1 = st\<lparr>CampaignModel := CampaignModel st @ [c]\<rparr>"
    by (auto simp: CampaignModel_create_def Let_def split: option.splits if_splits)
  have cid: "campaign_id c = newId" "productsIds c = or_else ids []"
    by (simp_all add: cdef apply_campaign_data_def or_else_def split: option.splits)
  have refs1: "campaign_refs st1 = campaign_refs st @ [(newId, or_else ids [])]"
    using cid by (simp add: campaign_refs_def st1)
  have other1: "campaign_holders st1 = campaign_holders st" "offer_refs st1 = offer_refs st"
    "offer_holders st1 = offer_holders st"
    by (simp_all add: st1)
  have fresh': "newId \<notin> set (map fst (campaign_refs st))"
    using fresh by (simp add: campaign_refs_def comp_def)
  show ?thesis
  proof (cases "cd_productsIds d")
    case None
    with ids have "ids = None" by (simp add: cast_id_list_def)
    with run c cid refs1 other1 fresh' None show ?thesis
      by (auto simp: CampaignService_create_def or_else_def)
  next
    case (Some xs)
    with ids obtain pids where pids: "cast_ids xs = Some pids" "ids = Some pids"
      by (auto simp: cast_id_list_def)
    show ?thesis
    proof (cases "xs = []")
      case True
      with pids have "pids = []" using cast_ids_Nil_iff[of xs pids] by simp
      with run c cid refs1 other1 fresh' Some True pids show ?thesis
        by (auto simp: CampaignService_create_def or_else_def)
    next
      case False
      with run c cid refs1 other1 fresh' Some pids show ?thesis
        by (auto simp: CampaignService_create_def ProductModel_updateMany_cast_def or_else_def)
    qed
  qed
qed

lemma CampaignService_update_views:
  assumes "cd_productsIds d = None"
  shows "campaign_refs (snd (CampaignService_update isValidMongoId cid d st)) = campaign_refs st
     \<and> campaign_holders (snd (CampaignService_update isValidMongoId cid d st)) = campaign_holders st
     \<and> offer_refs (snd (CampaignService_update isValidMongoId cid d st)) = offer_refs st
     \<and> offer_holders (snd (CampaignService_update isValidMongoId cid d st)) = offer_holders st"
proof -
  have keep: "map (\<lambda>c. (campaign_id c, productsIds c))
                (update_first (\<lambda>c. campaign_id c = i) (apply_campaign_data d None) cs)
              = map (\<lambda>c. (campaign_id c, productsIds c)) cs" for i cs
    by (induction cs) (auto simp: apply_campaign_data_def or_else_def)
  have w: "campaign_refs (st\<lparr>CampaignModel :=
              update_first (\<lambda>c. campaign_id c = i) (apply_campaign_data d None) (CampaignModel st)\<rparr>)
            = campaign_refs st" for i
    by (simp add: campaign_refs_def keep)
  show ?thesis
    using assms w
    by (auto simp: CampaignService_update_def CampaignModel_findByIdAndUpdate_def
        cast_id_list_def split: option.splits)
qed

lemma CampaignService_delete_views:
  assumes "CampaignService_delete isValidMongoId cid st = (r, st')"
  shows "(st' = st \<and> (\<exists>e. r = Inl e))
     \<or> (\<exists>c i. CampaignModel_findById i st = Some c \<and> r = Inr i
         \<and> offer_refs st' = offer_refs st \<and> offer_holders st' = offer_holders st
         \<and> campaign_refs st' = remove_first (\<lambda>e. fst e = i) (campaign_refs st)
         \<and> campaign_holders st' = updateMany_view (productsIds c) (pull i) (campaign_holders st))"
proof (cases "CampaignService_delete_trace isValidMongoId cid st")
  case (Inl e)
  with assms show ?thesis by (auto simp: CampaignService_delete_def)
next
  case (Inr a)
  then obtain i c where i: "new_ObjectId cid = Some i" and c: "CampaignModel_findById i st = Some c"
    and v: "isValidMongoId cid"
    by (auto simp: CampaignService_delete_trace_def split: if_splits option.splits)
  have rm: "campaign_refs (CampaignModel_findByIdAndDelete j s)
      = remove_first (\<lambda>e. fst e = j) (campaign_refs s)" for s j
    unfolding campaign_refs_def CampaignModel_findByIdAndDelete_def
    by (simp add: map_remove_first[where P'="\<lambda>e. fst e = j"])
  have other: "campaign_holders (CampaignModel_findByIdAndDelete j s) = campaign_holders s"
    "offer_refs (CampaignModel_findByIdAndDelete j s) = offer_refs s"
    "offer_holders (CampaignModel_findByIdAndDelete j s) = offer_holders s" for s j
    by (simp_all add: CampaignModel_findByIdAndDelete_def)
  from CampaignModel_findById_refs[OF c] have "campaign_id c = i" by simp
  with assms i c v show ?thesis
    by (cases "productsIds c = []")
       (auto simp: CampaignService_delete_def CampaignService_delete_trace_def Let_def rm other)
qed

lemma CampaignService_create_ok:
  "references_ok st \<Longrightarrow> references_ok (snd (CampaignService_create newId d st))"
  using CampaignService_create_views[of newId d st "fst (CampaignService_create newId d st)"
      "snd (CampaignService_create newId d st)"]
  by (auto simp: references_ok_def intro: linked_create)

lemma CampaignService_update_ok:
  "cd_productsIds d = None \<Longrightarrow> references_ok st
     \<Longrightarrow> references_ok (snd (CampaignService_update v cid d st))"
  using CampaignService_update_views[of d v cid st] by (simp add: references_ok_def)

lemma CampaignService_delete_ok:
  assumes "references_ok st"
  shows "references_ok (snd (CampaignService_delete v cid st))"
proof -
  let ?r = "CampaignService_delete v cid st"
  from CampaignService_delete_views[of v cid st "fst ?r" "snd ?r"]
  consider "snd ?r = st"
    | c i where "CampaignModel_findById i st = Some c"
        "offer_refs (snd ?r) = offer_refs st" "offer_holders (snd ?r) = offer_holders st"
        "campaign_refs (snd ?r) = remove_first (\<lambda>e. fst e = i) (campaign_refs st)"
        "campaign_holders (snd ?r) = updateMany_view (productsIds c) (pull i) (campaign_holders st)"
    by auto
  then show ?thesis
  proof cases
    case 1
    with assms show ?thesis by simp
  next
    case 2
    from CampaignModel_findById_refs[OF 2(1)]
    have old: "(i, productsIds c) \<in> set (campaign_refs st)" by simp
    from assms have l: "linked (campaign_refs st) (campaign_holders st)"
      by (simp add: references_ok_def)
    from 2 assms linked_delete[OF l old] show ?thesis
      by (simp add: references_ok_def)
  qed
qed

lemma CampaignService_delete_order:
  assumes "isValidMongoId cid" "new_ObjectId cid = Some i" "CampaignModel_findById i st = Some c"
    and "distinct (map campaign_id (CampaignModel st))"
  shows "\<exists>pre s post.
      CampaignService_delete_trace isValidMongoId cid st = Inr (c, pre @ s # post)
    \<and> CampaignService_delete isValidMongoId cid st = (Inr i, last post) \<and> post \<noteq> []
    \<and> (\<forall>x \<in> set (pre @ [s]). CampaignModel_findById i x = Some c)
    \<and> unlinked_from i (productsIds c) (campaign_holders s)
    \<and> (\<forall>x \<in> set post. CampaignModel_findById i x = None
           \<and> unlinked_from i (productsIds c) (campaign_holders x)
           \<and> (unreferenced i (updateMany_view (productsIds c) (pull i) (campaign_holders st))
                \<longrightarrow> unreferenced i (campaign_holders x)))"
proof -
  define s1 where "s1 = ProductModel_updateMany (productsIds c)
               (\<lambda>p. p\<lparr>campaigns := pull i (campaigns p)\<rparr>) st"
  define pre where "pre = (if productsIds c \<noteq> [] then [st, s1] else [])"
  define s where "s = (if productsIds c \<noteq> [] then deleteCache ''products:list:*'' s1 else st)"
  define st3 where "st3 = CampaignModel_findByIdAndDelete i s"
  define st4 where "st4 = deleteCache (generateCacheKey (CAMPAIGN_RESOURCE @ '':'' @ cid) None) st3"
  define st5 where "st5 = deleteCache (generateCacheKey CAMPAIGN_RESOURCE None) st4"
  have tr: "CampaignService_delete_trace isValidMongoId cid st = Inr (c, pre @ s # [st3, st4, st5])"
    using assms(1,2,3)
    by (simp add: CampaignService_delete_trace_def Let_def pre_def s_def s1_def st3_def st4_def st5_def)
  from CampaignModel_findById_refs[OF assms(3)] have ci: "campaign_id c = i" by simp
  from tr ci have del: "CampaignService_delete isValidMongoId cid st = (Inr i, last [st3, st4, st5])"
    by (simp add: CampaignService_delete_def)
  have ul: "unlinked_from i (productsIds c) (updateMany_view (productsIds c) (pull i) v)" for v
    by (auto simp: unlinked_from_def in_updateMany_view)
  have hs1: "campaign_holders s1 = updateMany_view (productsIds c) (pull i) (campaign_holders st)"
    by (simp add: s1_def)
  have hs: "campaign_holders s = updateMany_view (productsIds c) (pull i) (campaign_holders st)"
    by (cases "productsIds c = []") (simp_all add: s_def hs1)
  have cm: "CampaignModel s1 = CampaignModel st" "CampaignModel s = CampaignModel st"
    by (simp_all add: s1_def s_def)
  have pres: "\<forall>x \<in> set (pre @ [s]). CampaignModel_findById i x = Some c"
    using assms(3) cm by (auto simp: CampaignModel_findById_def pre_def)
  have gone: "CampaignModel_findById i st3 = None"
    using assms(4) cm
    by (simp add: CampaignModel_findById_def CampaignModel_findByIdAndDelete_def st3_def
        find_remove_first_distinct)
  have h3: "campaign_holders st3 = campaign_holders s"
    by (simp add: CampaignModel_findByIdAndDelete_def st3_def)
  have later: "CampaignModel_findById i x = CampaignModel_findById i st3
      \<and> campaign_holders x = campaign_holders s" if "x \<in> set [st3, st4, st5]" for x
    using that h3 by (auto simp: st4_def st5_def CampaignModel_findById_def)
  have post: "\<forall>x \<in> set [st3, st4, st5]. CampaignModel_findById i x = None
           \<and> unlinked_from i (productsIds c) (campaign_holders x)
           \<and> (unreferenced i (updateMany_view (productsIds c) (pull i) (campaign_holders st))
                \<longrightarrow> unreferenced i (campaign_holders x))"
  proof
    fix x assume "x \<in> set [st3, st4, st5]"
    from later[OF this] gone hs ul[of "campaign_holders st"]
    show "CampaignModel_findById i x = None
           \<and> unlinked_from i (productsIds c) (campaign_holders x)
           \<and> (unreferenced i (updateMany_view (productsIds c) (pull i) (campaign_holders st))
                \<longrightarrow> unreferenced i (campaign_holders x))"
      by simp
  qed
  have us: "unlinked_from i (productsIds c) (campaign_holders s)"
    using ul[of "campaign_holders st"] hs by simp
  show ?thesis
    using tr del pres post us
    by (intro exI[of _ pre] exI[of _ s] exI[of _ "[st3, st4, st5]"]) simp
qed

lemma CampaignService_delete_cast:
  "isValidMongoId cid \<Longrightarrow> new_ObjectId cid = None \<Longrightarrow>
     CampaignService_delete isValidMongoId cid st = (Inl (CastError ''Cast to ObjectId failed''), st)"
  by (simp add: CampaignService_delete_def CampaignService_delete_trace_def)

lemma updateMany_offers_views [simp]:
  "offer_holders (ProductModel_updateMany ids (\<lambda>p. p\<lparr>offers := f (offers p)\<rparr>) st)
     = updateMany_view ids f (offer_holders st)"
  "campaign_holders (ProductModel_updateMany ids (\<lambda>p. p\<lparr>offers := f (offers p)\<rparr>) st)
     = campaign_holders st"
  by (simp_all add: offer_holders_def campaign_holders_def
      ProductModel_updateMany_def updateMany_view_def comp_def)

lemma OfferModel_findById_refs:
  "OfferModel_findById cid st = Some c \<Longrightarrow>
     offer_id c = cid \<and> (cid, applicable_products c) \<in> set (offer_refs st)"
  by (auto simp: OfferModel_findById_def offer_refs_def image_iff dest!: find_in_set)

lemma OfferService_create_views:
  assumes run: "OfferService_create newId d st = (r, st')"
  shows "(st' = st \<and> (\<exists>e. r = Inl e))
     \<or> (\<exists>ids. newId \<notin> set (map fst (offer_refs st))
         \<and> r = Inr newId
         \<and> offer_refs st' = offer_refs st @ [(newId, ids)]
         \<and> offer_holders st' = updateMany_view ids (addToSet newId) (offer_holders st)
         \<and> campaign_refs st' = campaign_refs st \<and> campaign_holders st' = campaign_holders st)"
proof (cases "OfferModel_create newId d st")
  case (Inl e)
  with run show ?thesis by (auto simp: OfferService_create_def)
next
  case (Inr a)
  then obtain c st1 where c: "OfferModel_create newId d st = Inr (c, st1)" by (cases a) auto
  then obtain ids where ids: "cast_id_list (od_applicable_products d) = Some ids"
    and fresh: "newId \<notin> set (map offer_id (OfferModel st))"
    and cdef: "c = apply_offer_data d ids
                 \<lparr>offer_id = newId, offer_is_active = True, applicable_products = []\<rparr>"
    and st1: "st1 = st\<lparr>OfferModel := OfferModel st @ [c]\<rparr>"
    by (auto simp: OfferModel_create_def Let_def split: option.splits if_splits)
  have cid: "offer_id c = newId" "applicable_products c = or_else ids []"
    by (simp_all add: cdef apply_offer_data_def or_else_def split: option.splits)
  have refs1: "offer_refs st1 = offer_refs st @ [(newId, or_else ids [])]"
    using cid by (simp add: offer_refs_def st1)
  have other1: "offer_holders st1 = offer_holders st" "campaign_refs st1 = campaign_refs st"
    "campaign_holders st1 = campaign_holders st"
    by (simp_all add: st1)
  have fresh': "newId \<notin> set (map fst (offer_refs st))"
    using fresh by (simp add: offer_refs_def comp_def)
  show ?thesis
  proof (cases "od_applicable_products d")
    case None
    with ids have "ids = None" by (simp add: cast_id_list_def)
    with run c cid refs1 other1 fresh' None show ?thesis
      by (auto simp: OfferService_create_def or_else_def)
  next
    case (Some xs)
    with ids obtain pids where pids: "cast_ids xs = Some pids" "ids = Some pids"
      by (auto simp: cast_id_list_def)
    show ?thesis
    proof (cases "xs = []")
      case True
      with pids have "pids = []" using cast_ids_Nil_iff[of xs pids] by simp
      with run c cid refs1 other1 fresh' Some True pids show ?thesis
        by (auto simp: OfferService_create_def or_else_def)
    next
      case False
      with run c cid refs1 other1 fresh' Some pids show ?thesis
        by (auto simp: OfferService_create_def ProductModel_updateMany_cast_def or_else_def)
    qed
  qed
qed

lemma OfferService_update_views:
  assumes "od_applicable_products d = None"
  shows "offer_refs (snd (OfferService_update isValidMongoId cid d st)) = offer_refs st
     \<and> offer_holders (snd (OfferService_update isValidMongoId cid d st)) = offer_holders st
     \<and> campaign_refs (snd (OfferService_update isValidMongoId cid d st)) = campaign_refs st
     \<and> campaign_holders (snd (OfferService_update isValidMongoId cid d st)) = campaign_holders st"
proof -
  have keep: "map (\<lambda>c. (offer_id c, applicable_products c))
                (update_first (\<lambda>c. offer_id c = i) (apply_offer_data d None) cs)
              = map (\<lambda>c. (offer_id c, applicable_products c)) cs" for i cs
    by (induction cs) (auto simp: apply_offer_data_def or_else_def)
  have w: "offer_refs (st\<lparr>OfferModel :=
              update_first (\<lambda>c. offer_id c = i) (apply_offer_data d None) (OfferModel st)\<rparr>)
            = offer_refs st" for i
    by (simp add: offer_refs_def keep)
  show ?thesis
    using assms w
    by (auto simp: OfferService_update_def OfferModel_findByIdAndUpdate_def
        cast_id_list_def split: option.splits)
qed

lemma OfferService_delete_views:
  assumes "OfferService_delete isValidMongoId cid st = (r, st')"
  shows "(st' = st \<and> (\<exists>e. r = Inl e))
     \<or> (\<exists>c i. OfferModel_findById i st = Some c \<and> r = Inr i
         \<and> campaign_refs st' = campaign_refs st \<and> campaign_holders st' = campaign_holders st
         \<and> offer_refs st' = remove_first (\<lambda>e. fst e = i) (offer_refs st)
         \<and> offer_holders st' = updateMany_view (applicable_products c) (pull i) (offer_holders st))"
proof (cases "OfferService_delete_trace isValidMongoId cid st")
  case (Inl e)
  with assms show ?thesis by (auto simp: OfferService_delete_def)
next
  case (Inr a)
  then obtain i c where i: "new_ObjectId cid = Some i" and c: "OfferModel_findById i st = Some c"
    and v: "isValidMongoId cid"
    by (auto simp: OfferService_delete_trace_def split: if_splits option.splits)
  have rm: "offer_refs (OfferModel_findByIdAndDelete j s)
      = remove_first (\<lambda>e. fst e = j) (offer_refs s)" for s j
    unfolding offer_refs_def OfferModel_findByIdAndDelete_def
    by (simp add: map_remove_first[where P'="\<lambda>e. fst e = j"])
  have other: "offer_holders (OfferModel_findByIdAndDelete j s) = offer_holders s"
    "campaign_refs (OfferModel_findByIdAndDelete j s) = campaign_refs s"
    "campaign_holders (OfferModel_findByIdAndDelete j s) = campaign_holders s" for s j
    by (simp_all add: OfferModel_findByIdAndDelete_def)
  from OfferModel_findById_refs[OF c] have "offer_id c = i" by simp
  with assms i c v show ?thesis
    by (cases "applicable_products c = []")
       (auto simp: OfferService_delete_def OfferService_delete_trace_def Let_def rm other)
qed

lemma OfferService_create_ok:
  "references_ok st \<Longrightarrow> references_ok (snd (OfferService_create newId d st))"
  using OfferService_create_views[of newId d st "fst (OfferService_create newId d st)"
      "snd (OfferService_create newId d st)"]
  by (auto simp: references_ok_def intro: linked_create)

lemma OfferService_update_ok:
  "od_applicable_products d = None \<Longrightarrow> references_ok st
     \<Longrightarrow> references_ok (snd (OfferService_update v cid d st))"
  using OfferService_update_views[of d v cid st] by (simp add: references_ok_def)

lemma OfferService_delete_ok:
  assumes "references_ok st"
  shows "references_ok (snd (OfferService_delete v cid st))"
proof -
  let ?r = "OfferService_delete v cid st"
  from OfferService_delete_views[of v cid st "fst ?r" "snd ?r"]
  consider "snd ?r = st"
    | c i where "OfferModel_findById i st = Some c"
        "campaign_refs (snd ?r) = campaign_refs st" "campaign_holders (snd ?r) = campaign_holders st"
        "offer_refs (snd ?r) = remove_first (\<lambda>e. fst e = i) (offer_refs st)"
        "offer_holders (snd ?r) = updateMany_view (applicable_products c) (pull i) (offer_holders st)"
    by auto
  then show ?thesis
  proof cases
    case 1
    with assms show ?thesis by simp
  next
    case 2
    from OfferModel_findById_refs[OF 2(1)]
    have old: "(i, applicable_products c) \<in> set (offer_refs st)" by simp
    from assms have l: "linked (offer_refs st) (offer_holders st)"
      by (simp add: references_ok_def)
    from 2 assms linked_delete[OF l old] show ?thesis
      by (simp add: references_ok_def)
  qed
qed

lemma OfferService_delete_order:
  assumes "isValidMongoId cid" "new_ObjectId cid = Some i" "OfferModel_findById i st = Some c"
    and "distinct (map offer_id (OfferModel st))"
  shows "\<exists>pre s post.
      OfferService_delete_trace isValidMongoId cid st = Inr (c, pre @ s # post)
    \<and> OfferService_delete isValidMongoId cid st = (Inr i, last post) \<and> post \<noteq> []
    \<and> (\<forall>x \<in> set (pre @ [s]). OfferModel_findById i x = Some c)
    \<and> unlinked_from i (applicable_products c) (offer_holders s)
    \<and> (\<forall>x \<in> set post. OfferModel_findById i x = None
           \<and> unlinked_from i (applicable_products c) (offer_holders x)
           \<and> (unreferenced i (updateMany_view (applicable_products c) (pull i) (offer_holders st))
                \<longrightarrow> unreferenced i (offer_holders x)))"
proof -
  define s1 where "s1 = ProductModel_updateMany (applicable_products c)
               (\<lambda>p. p\<lparr>offers := pull i (offers p)\<rparr>) st"
  define pre where "pre = (if applicable_products c \<noteq> [] then [st, s1] else [])"
  define s where "s = (if applicable_products c \<noteq> [] then deleteCache ''products:list:*'' s1 else st)"
  define st3 where "st3 = OfferModel_findByIdAndDelete i s"
  define st4 where "st4 = deleteCache (generateCacheKey (OFFER_RESOURCE @ '':'' @ cid) None) st3"
  define st5 where "st5 = deleteCache (generateCacheKey OFFER_RESOURCE None) st4"
  have tr: "OfferService_delete_trace isValidMongoId cid st = Inr (c, pre @ s # [st3, st4, st5])"
    using assms(1,2,3)
    by (simp add: OfferService_delete_trace_def Let_def pre_def s_def s1_def st3_def st4_def st5_def)
  from OfferModel_findById_refs[OF assms(3)] have ci: "offer_id c = i" by simp
  from tr ci have del: "OfferService_delete isValidMongoId cid st = (Inr i, last [st3, st4, st5])"
    by (simp add: OfferService_delete_def)
  have ul: "unlinked_from i (applicable_products c) (updateMany_view (applicable_products c) (pull i) v)" for v
    by (auto simp: unlinked_from_def in_updateMany_view)
  have hs1: "offer_holders s1 = updateMany_view (applicable_products c) (pull i) (offer_holders st)"
    by (simp add: s1_def)
  have hs: "offer_holders s = updateMany_view (applicable_products c) (pull i) (offer_holders st)"
    by (cases "applicable_products c = []") (simp_all add: s_def hs1)
  have cm: "OfferModel s1 = OfferModel st" "OfferModel s = OfferModel st"
    by (simp_all add: s1_def s_def)
  have pres: "\<forall>x \<in> set (pre @ [s]). OfferModel_findById i x = Some c"
    using assms(3) cm by (auto simp: OfferModel_findById_def pre_def)
  have gone: "OfferModel_findById i st3 = None"
    using assms(4) cm
    by (simp add: OfferModel_findById_def OfferModel_findByIdAndDelete_def st3_def
        find_remove_first_distinct)
  have h3: "offer_holders st3 = offer_holders s"
    by (simp add: OfferModel_findByIdAndDelete_def st3_def)
  have later: "OfferModel_findById i x = OfferModel_findById i st3
      \<and> offer_holders x = offer_holders s" if "x \<in> set [st3, st4, st5]" for x
    using that h3 by (auto simp: st4_def st5_def OfferModel_findById_def)
  have post: "\<forall>x \<in> set [st3, st4, st5]. OfferModel_findById i x = None
           \<and> unlinked_from i (applicable_products c) (offer_holders x)
           \<and> (unreferenced i (updateMany_view (applicable_products c) (pull i) (offer_holders st))
                \<longrightarrow> unreferenced i (offer_holders x))"
  proof
    fix x assume "x \<in> set [st3, st4, st5]"
    from later[OF this] gone hs ul[of "offer_holders st"]
    show "OfferModel_findById i x = None
           \<and> unlinked_from i (applicable_products c) (offer_holders x)
           \<and> (unreferenced i (updateMany_view (applicable_products c) (pull i) (offer_holders st))
                \<longrightarrow> unreferenced i (offer_holders x))"
      by simp
  qed
  have us: "unlinked_from i (applicable_products c) (offer_holders s)"
    using ul[of "offer_holders st"] hs by simp
  show ?thesis
    using tr del pres post us
    by (intro exI[of _ pre] exI[of _ s] exI[of _ "[st3, st4, st5]"]) simp
qed

lemma OfferService_delete_cast:
  "isValidMongoId cid \<Longrightarrow> new_ObjectId cid = None \<Longrightarrow>
     OfferService_delete isValidMongoId cid st = (Inl (CastError ''Cast to ObjectId failed''), st)"
  by (simp add: OfferService_delete_def OfferService_delete_trace_def)

lemma no_promotions_ok: "no_promotions st \<Longrightarrow> references_ok st"
  by (auto simp: no_promotions_def references_ok_def linked_def campaign_refs_def
      campaign_holders_def offer_refs_def offer_holders_def)

lemma references_ok_bidirectional: "references_ok st \<Longrightarrow> bidirectional st"
  unfolding references_ok_def bidirectional_def linked_def campaign_refs_def
    campaign_holders_def offer_refs_def offer_holders_def
  by (simp add: split_beta)

lemma perform_ok:
  "keeps_product_list op \<Longrightarrow> references_ok st \<Longrightarrow> references_ok (perform v op st)"
  by (cases op)
     (simp_all add: CampaignService_create_ok CampaignService_update_ok CampaignService_delete_ok
        OfferService_create_ok OfferService_update_ok OfferService_delete_ok)

lemma run_ok:
  "list_all keeps_product_list ops \<Longrightarrow> references_ok st \<Longrightarrow> references_ok (run v ops st)"
  unfolding run_def by (induction ops arbitrary: st) (simp_all add: perform_ok)

text \<open>
  Claim C1, as amended. Starting from a store whose products hold no promotion and that
  holds no campaign and no offer, after every sequence of operations of the campaign and
  offer services that are a create, a delete, or an update whose payload has no product
  list (as that of \<^verbatim>\<open>updateStatus\<close>), successful or not, the references are
  bidirectional: a stored product is in the list of a stored campaign exactly if the
  campaign is in the product's \<^verbatim>\<open>campaigns\<close> set, and likewise for offers. The link
  operations of the product service are not among these operations.
\<close>

theorem promo_services_keep_references_bidirectional:
  assumes "no_promotions st" and "list_all keeps_product_list ops"
  shows "bidirectional (run isValidMongoId ops st)"
  using assms by (intro references_ok_bidirectional run_ok no_promotions_ok)

theorem promo_services_keep_references_bidirectional_witness:
  "no_promotions three_products
   \<and> list_all keeps_product_list
       [CampaignCreate (sample_oid ''c1'') (promote [sample_id ''a1'', sample_id ''a2'']),
        OfferCreate (sample_oid ''f1'') (offer_for [sample_id ''a2'']),
        CampaignUpdate (sample_id ''c1'') \<lparr>cd_is_active = Some False, cd_productsIds = None\<rparr>,
        OfferDelete (sample_id ''f1'')]
   \<and> bidirectional (run (\<lambda>s. s \<noteq> [])
       [CampaignCreate (sample_oid ''c1'') (promote [sample_id ''a1'', sample_id ''a2'']),
        OfferCreate (sample_oid ''f1'') (offer_for [sample_id ''a2'']),
        CampaignUpdate (sample_id ''c1'') \<lparr>cd_is_active = Some False, cd_productsIds = None\<rparr>,
        OfferDelete (sample_id ''f1'')] three_products)
   \<and> map (\<lambda>p. (product_id p, campaigns p, offers p)) (ProductModel (run (\<lambda>s. s \<noteq> [])
       [CampaignCreate (sample_oid ''c1'') (promote [sample_id ''a1'', sample_id ''a2'']),
        OfferCreate (sample_oid ''f1'') (offer_for [sample_id ''a2'']),
        CampaignUpdate (sample_id ''c1'') \<lparr>cd_is_active = Some False, cd_productsIds = None\<rparr>,
        OfferDelete (sample_id ''f1'')] three_products))
      = [(sample_oid ''a1'', [sample_oid ''c1''], []), (sample_oid ''a2'', [sample_oid ''c1''], []),
         (sample_oid ''a3'', [], [])]
   \<and> CampaignModel (run (\<lambda>s. s \<noteq> [])
       [CampaignCreate (sample_oid ''c1'') (promote [sample_id ''a1'', sample_id ''a2'']),
        OfferCreate (sample_oid ''f1'') (offer_for [sample_id ''a2'']),
        CampaignUpdate (sample_id ''c1'') \<lparr>cd_is_active = Some False, cd_productsIds = None\<rparr>,
        OfferDelete (sample_id ''f1'')] three_products)
      = [\<lparr>campaign_id = sample_oid ''c1'', campaign_is_active = False,
          productsIds = [sample_oid ''a1'', sample_oid ''a2'']\<rparr>]"
proof -
  let ?ops = "[CampaignCreate (sample_oid ''c1'') (promote [sample_id ''a1'', sample_id ''a2'']),
        OfferCreate (sample_oid ''f1'') (offer_for [sample_id ''a2'']),
        CampaignUpdate (sample_id ''c1'') \<lparr>cd_is_active = Some False, cd_productsIds = None\<rparr>,
        OfferDelete (sample_id ''f1'')]"
  have n: "no_promotions three_products" by code_simp
  have l: "list_all keeps_product_list ?ops" by simp
  have r: "map (\<lambda>p. (product_id p, campaigns p, offers p))
      (ProductModel (run (\<lambda>s. s \<noteq> []) ?ops three_products))
      = [(sample_oid ''a1'', [sample_oid ''c1''], []), (sample_oid ''a2'', [sample_oid ''c1''], []),
         (sample_oid ''a3'', [], [])]"
    by code_simp
  have c: "CampaignModel (run (\<lambda>s. s \<noteq> []) ?ops three_products)
      = [\<lparr>campaign_id = sample_oid ''c1'', campaign_is_active = False,
          productsIds = [sample_oid ''a1'', sample_oid ''a2'']\<rparr>]"
    by code_simp
  from promo_services_keep_references_bidirectional[OF n l, of "\<lambda>s. s \<noteq> []"] n l r c
  show ?thesis by blast
qed

text \<open>
  The claim as stated fails: \<^verbatim>\<open>ProductService.linkCampaigns\<close> writes the product only.
  After creating a campaign without products and linking it to a product, the product
  holds the campaign and the campaign does not list the product.
\<close>

theorem product_link_breaks_bidirectional_counterexample:
  "no_promotions three_products
   \<and> \<not> bidirectional (run (\<lambda>s. s \<noteq> [])
         [CampaignCreate (sample_oid ''c1'') \<lparr>cd_is_active = None, cd_productsIds = None\<rparr>,
          LinkCampaigns (sample_id ''a1'') [sample_id ''c1'']] three_products)
   \<and> map (\<lambda>p. (product_id p, campaigns p)) (ProductModel (run (\<lambda>s. s \<noteq> [])
         [CampaignCreate (sample_oid ''c1'') \<lparr>cd_is_active = None, cd_productsIds = None\<rparr>,
          LinkCampaigns (sample_id ''a1'') [sample_id ''c1'']] three_products))
      = [(sample_oid ''a1'', [sample_oid ''c1'']), (sample_oid ''a2'', []), (sample_oid ''a3'', [])]
   \<and> map productsIds (CampaignModel (run (\<lambda>s. s \<noteq> [])
         [CampaignCreate (sample_oid ''c1'') \<lparr>cd_is_active = None, cd_productsIds = None\<rparr>,
          LinkCampaigns (sample_id ''a1'') [sample_id ''c1'']] three_products))
      = [[]]"
  by code_simp

section \<open>Updating the product list of a promotion\<close>


text \<open>
  What the update does to the products, for a campaign that exists and a payload whose
  list can be cast: every product of the old list loses the campaign, then the
  products of the new list whose string is not that of a product of the old list gain
  it.
\<close>

lemma CampaignService_update_holders:
  assumes "isValidMongoId cid" "new_ObjectId cid = Some i" "CampaignModel_findById i st = Some c"
    and "cd_productsIds d = Some new" "cast_ids new = Some ids"
    and "cast_ids (filter (\<lambda>pid. pid \<notin> set (map toString (productsIds c))) new) = Some link"
  shows "campaign_holders (snd (CampaignService_update isValidMongoId cid d st))
           = updateMany_view link (addToSet i)
               (updateMany_view (productsIds c) (pull i) (campaign_holders st))"
proof -
  have w: "campaign_holders (st\<lparr>CampaignModel := cs\<rparr>) = campaign_holders st" for cs
    by simp
  show ?thesis
    using assms
    by (cases "productsIds c = []";
        cases "filter (\<lambda>pid. pid \<notin> set (map toString (productsIds c))) new = []")
       (auto simp: CampaignService_update_def CampaignModel_findByIdAndUpdate_def
          cast_id_list_def Array_includes_def MongooseArray_includes_def Let_def
          ProductModel_updateMany_cast_def cast_ids_Nil_iff simp del: set_map)
qed

section \<open>Deleting a promotion\<close>

text \<open>
  Claim C3, as amended. The delete of an existing campaign with a well-formed
  identifier, in a collection with unique identifiers, goes through a sequence of
  states \<open>pre @ s # post\<close> and ends in the last state of \<open>post\<close>. Up to and including
  \<open>s\<close> the campaign record is there, and in \<open>s\<close> no product that the campaign lists
  holds the campaign: the references are removed before the record. In every state of
  \<open>post\<close> the record is gone and no listed product holds the campaign; no product at
  all holds it, provided the removal from the listed products leaves none that does.
  The same holds for offers. The record is the one whose \<^verbatim>\<open>_id\<close> the identifier spells;
  an identifier that \<^verbatim>\<open>isValidMongoId\<close> lets through and that spells none fails in the
  first query and nothing is written.
\<close>

theorem delete_unlinks_before_removing:
  "(isValidMongoId cid \<and> new_ObjectId cid = Some i \<and> CampaignModel_findById i st = Some c
      \<and> distinct (map campaign_id (CampaignModel st)) \<longrightarrow>
   (\<exists>pre s post.
      CampaignService_delete_trace isValidMongoId cid st = Inr (c, pre @ s # post)
    \<and> CampaignService_delete isValidMongoId cid st = (Inr i, last post) \<and> post \<noteq> []
    \<and> (\<forall>x \<in> set (pre @ [s]). CampaignModel_findById i x = Some c)
    \<and> unlinked_from i (productsIds c) (campaign_holders s)
    \<and> (\<forall>x \<in> set post. CampaignModel_findById i x = None
           \<and> unlinked_from i (productsIds c) (campaign_holders x)
           \<and> (unreferenced i (updateMany_view (productsIds c) (pull i) (campaign_holders st))
                \<longrightarrow> unreferenced i (campaign_holders x)))))
   \<and> (isValidMongoId cid \<and> new_ObjectId cid = Some i \<and> OfferModel_findById i st = Some off
      \<and> distinct (map offer_id (OfferModel st)) \<longrightarrow>
   (\<exists>pre s post.
      OfferService_delete_trace isValidMongoId cid st = Inr (off, pre @ s # post)
    \<and> OfferService_delete isValidMongoId cid st = (Inr i, last post) \<and> post \<noteq> []
    \<and> (\<forall>x \<in> set (pre @ [s]). OfferModel_findById i x = Some off)
    \<and> unlinked_from i (applicable_products off) (offer_holders s)
    \<and> (\<forall>x \<in> set post. OfferModel_findById i x = None
           \<and> unlinked_from i (applicable_products off) (offer_holders x)
           \<and> (unreferenced i (updateMany_view (applicable_products off) (pull i) (offer_holders st))
                \<longrightarrow> unreferenced i (offer_holders x)))))
   \<and> (isValidMongoId cid \<and> new_ObjectId cid = None \<longrightarrow>
        CampaignService_delete isValidMongoId cid st
          = (Inl (CastError ''Cast to ObjectId failed''), st)
      \<and> OfferService_delete isValidMongoId cid st
          = (Inl (CastError ''Cast to ObjectId failed''), st))"
  using CampaignService_delete_order[of isValidMongoId cid i st c]
    OfferService_delete_order[of isValidMongoId cid i st off]
    CampaignService_delete_cast[of isValidMongoId cid st]
    OfferService_delete_cast[of isValidMongoId cid st]
  by blast

theorem delete_unlinks_before_removing_witness:
  "(\<lambda>s. s \<noteq> []) (sample_id ''c1'')
   \<and> new_ObjectId (sample_id ''c1'') = Some (sample_oid ''c1'')
   \<and> CampaignModel_findById (sample_oid ''c1'')
        (run (\<lambda>s. s \<noteq> [])
           [CampaignCreate (sample_oid ''c1'') (promote [sample_id ''a1'', sample_id ''a2''])]
           three_products)
      = Some \<lparr>campaign_id = sample_oid ''c1'', campaign_is_active = True,
               productsIds = [sample_oid ''a1'', sample_oid ''a2'']\<rparr>
   \<and> distinct (map campaign_id (CampaignModel
        (run (\<lambda>s. s \<noteq> [])
           [CampaignCreate (sample_oid ''c1'') (promote [sample_id ''a1'', sample_id ''a2''])]
           three_products)))
   \<and> CampaignModel_findById (sample_oid ''c1'')
        (snd (CampaignService_delete (\<lambda>s. s \<noteq> []) (sample_id ''c1'')
          (run (\<lambda>s. s \<noteq> [])
             [CampaignCreate (sample_oid ''c1'') (promote [sample_id ''a1'', sample_id ''a2''])]
             three_products))) = None
   \<and> unlinked_from (sample_oid ''c1'') [sample_oid ''a1'', sample_oid ''a2'']
        (campaign_holders (snd (CampaignService_delete (\<lambda>s. s \<noteq> []) (sample_id ''c1'')
          (run (\<lambda>s. s \<noteq> [])
             [CampaignCreate (sample_oid ''c1'') (promote [sample_id ''a1'', sample_id ''a2''])]
             three_products))))
   \<and> unreferenced (sample_oid ''c1'')
        (campaign_holders (snd (CampaignService_delete (\<lambda>s. s \<noteq> []) (sample_id ''c1'')
          (run (\<lambda>s. s \<noteq> [])
             [CampaignCreate (sample_oid ''c1'') (promote [sample_id ''a1'', sample_id ''a2''])]
             three_products))))
   \<and> (\<lambda>s. s \<noteq> []) (sample_id ''f1'')
   \<and> new_ObjectId (sample_id ''f1'') = Some (sample_oid ''f1'')
   \<and> OfferModel_findById (sample_oid ''f1'')
        (run (\<lambda>s. s \<noteq> []) [OfferCreate (sample_oid ''f1'') (offer_for [sample_id ''a3''])]
           three_products)
      = Some \<lparr>offer_id = sample_oid ''f1'', offer_is_active = True,
               applicable_products = [sample_oid ''a3'']\<rparr>
   \<and> distinct (map offer_id (OfferModel
        (run (\<lambda>s. s \<noteq> []) [OfferCreate (sample_oid ''f1'') (offer_for [sample_id ''a3''])]
           three_products)))
   \<and> OfferModel_findById (sample_oid ''f1'')
        (snd (OfferService_delete (\<lambda>s. s \<noteq> []) (sample_id ''f1'')
          (run (\<lambda>s. s \<noteq> []) [OfferCreate (sample_oid ''f1'') (offer_for [sample_id ''a3''])]
             three_products))) = None
   \<and> unlinked_from (sample_oid ''f1'') [sample_oid ''a3'']
        (offer_holders (snd (OfferService_delete (\<lambda>s. s \<noteq> []) (sample_id ''f1'')
          (run (\<lambda>s. s \<noteq> []) [OfferCreate (sample_oid ''f1'') (offer_for [sample_id ''a3''])]
             three_products))))
   \<and> unreferenced (sample_oid ''f1'')
        (offer_holders (snd (OfferService_delete (\<lambda>s. s \<noteq> []) (sample_id ''f1'')
          (run (\<lambda>s. s \<noteq> []) [OfferCreate (sample_oid ''f1'') (offer_for [sample_id ''a3''])]
             three_products))))
   \<and> (\<lambda>s. s \<noteq> []) ''c1'' \<and> new_ObjectId ''c1'' = None
   \<and> CampaignService_delete (\<lambda>s. s \<noteq> []) ''c1'' three_products
        = (Inl (CastError ''Cast to ObjectId failed''), three_products)"
proof -
  let ?v = "\<lambda>s::string. s \<noteq> []"
  let ?i = "sample_oid ''c1''" and ?j = "sample_oid ''f1''"
  let ?st = "run ?v [CampaignCreate (sample_oid ''c1'') (promote [sample_id ''a1'', sample_id ''a2''])]
               three_products"
  let ?c = "\<lparr>campaign_id = sample_oid ''c1'', campaign_is_active = True,
             productsIds = [sample_oid ''a1'', sample_oid ''a2'']\<rparr>"
  let ?so = "run ?v [OfferCreate (sample_oid ''f1'') (offer_for [sample_id ''a3''])] three_products"
  let ?o = "\<lparr>offer_id = sample_oid ''f1'', offer_is_active = True,
             applicable_products = [sample_oid ''a3'']\<rparr>"
  have v: "?v (sample_id ''c1'')" by (simp add: sample_id_def)
  have vo: "?v (sample_id ''f1'')" by (simp add: sample_id_def)
  have vx: "?v ''c1''" by simp
  have ci: "new_ObjectId (sample_id ''c1'') = Some ?i" by code_simp
  have oi: "new_ObjectId (sample_id ''f1'') = Some ?j" by code_simp
  have xi: "new_ObjectId ''c1'' = None" by code_simp
  have f: "CampaignModel_findById ?i ?st = Some ?c" by code_simp
  have d: "distinct (map campaign_id (CampaignModel ?st))" by code_simp
  have fo: "OfferModel_findById ?j ?so = Some ?o" by code_simp
  have do: "distinct (map offer_id (OfferModel ?so))" by code_simp
  have u: "unreferenced ?i (updateMany_view (productsIds ?c) (pull ?i) (campaign_holders ?st))"
    by code_simp
  have uo: "unreferenced ?j (updateMany_view (applicable_products ?o) (pull ?j) (offer_holders ?so))"
    by code_simp
  from delete_unlinks_before_removing[of ?v "sample_id ''c1''" ?i ?st ?c, THEN conjunct1, THEN mp,
      OF conjI[OF v conjI[OF ci conjI[OF f d]]]]
  obtain pre s post where
    del: "CampaignService_delete ?v (sample_id ''c1'') ?st = (Inr ?i, last post)" and ne: "post \<noteq> []"
    and post: "\<forall>x \<in> set post. CampaignModel_findById ?i x = None
           \<and> unlinked_from ?i (productsIds ?c) (campaign_holders x)
           \<and> (unreferenced ?i (updateMany_view (productsIds ?c) (pull ?i) (campaign_holders ?st))
                \<longrightarrow> unreferenced ?i (campaign_holders x))"
    by blast
  from ne have "last post \<in> set post" by simp
  with post del u
  have r: "CampaignModel_findById ?i (snd (CampaignService_delete ?v (sample_id ''c1'') ?st)) = None"
    "unlinked_from ?i [sample_oid ''a1'', sample_oid ''a2'']
       (campaign_holders (snd (CampaignService_delete ?v (sample_id ''c1'') ?st)))"
    "unreferenced ?i (campaign_holders (snd (CampaignService_delete ?v (sample_id ''c1'') ?st)))"
    by auto
  from delete_unlinks_before_removing[where isValidMongoId = ?v and cid = "sample_id ''f1''"
      and i = ?j and st = ?so and off = ?o, THEN conjunct2, THEN conjunct1, THEN mp,
      OF conjI[OF vo conjI[OF oi conjI[OF fo do]]]]
  obtain pre' s' post' where
    del': "OfferService_delete ?v (sample_id ''f1'') ?so = (Inr ?j, last post')" and ne': "post' \<noteq> []"
    and post': "\<forall>x \<in> set post'. OfferModel_findById ?j x = None
           \<and> unlinked_from ?j (applicable_products ?o) (offer_holders x)
           \<and> (unreferenced ?j (updateMany_view (applicable_products ?o) (pull ?j) (offer_holders ?so))
                \<longrightarrow> unreferenced ?j (offer_holders x))"
    by blast
  from ne' have "last post' \<in> set post'" by simp
  with post' del' uo
  have r': "OfferModel_findById ?j (snd (OfferService_delete ?v (sample_id ''f1'') ?so)) = None"
    "unlinked_from ?j [sample_oid ''a3'']
       (offer_holders (snd (OfferService_delete ?v (sample_id ''f1'') ?so)))"
    "unreferenced ?j (offer_holders (snd (OfferService_delete ?v (sample_id ''f1'') ?so)))"
    by auto
  from delete_unlinks_before_removing[where isValidMongoId = ?v and cid = "''c1''"
      and st = three_products, THEN conjunct2, THEN conjunct2, THEN mp, OF conjI[OF vx xi]]
  have x: "CampaignService_delete ?v ''c1'' three_products
        = (Inl (CastError ''Cast to ObjectId failed''), three_products)"
    by blast
  show ?thesis
    apply (intro conjI)
    apply (rule v)
    apply (rule ci)
    apply (rule f)
    apply (rule d)
    apply (rule r(1))
    apply (rule r(2))
    apply (rule r(3))
    apply (rule vo)
    apply (rule oi)
    apply (rule fo)
    apply (rule do)
    apply (rule r'(1))
    apply (rule r'(2))
    apply (rule r'(3))
    apply (rule vx)
    apply (rule xi)
    apply (rule x)
    done
qed

text \<open>
  The claim as stated fails for a product that holds the campaign without being listed
  by it: after linking the campaign to \<open>a3\<close> through the product service, the delete
  of the campaign unlinks the listed products \<open>a1\<close> and \<open>a2\<close>, removes the record, and
  leaves \<open>a3\<close> with a reference to the deleted campaign.
\<close>

theorem delete_leaves_product_side_link_counterexample:
  "map (\<lambda>p. (product_id p, campaigns p))
     (ProductModel (run (\<lambda>s. s \<noteq> [])
        [CampaignCreate (sample_oid ''c1'') (promote [sample_id ''a1'', sample_id ''a2'']),
         LinkCampaigns (sample_id ''a3'') [sample_id ''c1''],
         CampaignDelete (sample_id ''c1'')] three_products))
     = [(sample_oid ''a1'', []), (sample_oid ''a2'', []), (sample_oid ''a3'', [sample_oid ''c1''])]
   \<and> CampaignModel (run (\<lambda>s. s \<noteq> [])
        [CampaignCreate (sample_oid ''c1'') (promote [sample_id ''a1'', sample_id ''a2'']),
         LinkCampaigns (sample_id ''a3'') [sample_id ''c1''],
         CampaignDelete (sample_id ''c1'')] three_products) = []
   \<and> \<not> unreferenced (sample_oid ''c1'') (campaign_holders (run (\<lambda>s. s \<noteq> [])
        [CampaignCreate (sample_oid ''c1'') (promote [sample_id ''a1'', sample_id ''a2'']),
         LinkCampaigns (sample_id ''a3'') [sample_id ''c1''],
         CampaignDelete (sample_id ''c1'')] three_products))"
  by code_simp

end
